theory Spec2Isabelle
  imports Complex_Main "HOL-Library.Char_ord" "HOL-Library.List_Lexorder"
begin

section \<open>Data model of the conference (JitsiConference)\<close>

text \<open>
  The conference object is embedded as a record that is passed through every operation.
  JavaScript objects that are compared by identity carry a reference number
  (\<open>sid\<close>, \<open>t_ref\<close>, \<open>r_ref\<close>). Calls into collaborators whose code is not part of
  the conference (Jingle sessions, statistics, the event emitter, the logger at error and
  warning level, \<open>setTimeout\<close> and \<open>clearTimeout\<close>) are appended, in call order, to
  the \<open>effects\<close> trace. A log line that interpolates a number is recorded as
  \<open>LogErrorNumber\<close> with the text before the number, the number and the text after it.
  The two methods \<open>_sendConferenceJoinAnalyticsEvent\<close> and
  \<open>_sendConferenceLeftAnalyticsEvent\<close> only send analytics and keep the time stamp
  \<open>_conferenceJoinAnalyticsEventSent\<close>, which nothing else reads; their calls are recorded
  and their bodies are not embedded. Pending timers are kept in \<open>timers\<close> until they are
  cleared or fired. Promise continuations and IQ result callbacks run in a later task and
  are not part of a synchronous pass.
\<close>

datatype MediaType = AUDIO | VIDEO

datatype VideoType = CAMERA | DESKTOP

record JitsiRemoteTrack =
  r_ref :: nat
  r_isP2P :: bool
  ownerEndpointId :: string

record JitsiLocalTrack =
  t_ref :: nat
  t_type :: MediaType
  t_videoType :: "VideoType option"
  t_sourceName :: "string option"
  t_muted :: bool

record JitsiParticipant =
  p_id :: string
  p_jid :: string
  p_botType :: "string option"
  p_hasFeatureJigasi :: bool
  p_hidden :: bool
  p_tracks :: "JitsiRemoteTrack list"

record JingleSessionPC =
  sid :: nat
  isP2P :: bool
  isInitiator :: bool
  remoteJid :: string
  establishmentDuration :: "rat option"
  pc_remoteTracks :: "JitsiRemoteTrack list"
  pc_localTracks :: "JitsiLocalTrack list"

record ChatRoom =
  myroomjid :: string
  members :: "string \<Rightarrow> bool option"

record P2PConfig =
  p2p_enabled :: bool
  p2p_backToP2PDelay :: "int option"

record TestingConfig =
  p2pTestMode :: bool
  forceInitiator :: bool
  forceResponder :: bool
  allowMultipleTracks :: bool

record RejectOptions =
  ro_errorMsg :: string
  ro_reason :: string
  ro_reasonDescription :: string

datatype promise = Resolved JitsiLocalTrack | Rejected string | Pending

record Config =
  cfg_p2p :: "P2PConfig option"
  cfg_testing :: "TestingConfig option"

datatype timer_task =
    StartP2PSessionTask string
  | IceRestartTask JingleSessionPC rat
  | SessionInitiateTimeoutTask

datatype conference_error = ICE_FAILED | OFFER_ANSWER_FAILED

datatype event =
    CONFERENCE_FAILED conference_error
  | P2P_STATUS bool
  | MEDIA_SESSION_ACTIVE_CHANGED "nat option"
  | MEDIA_SESSION_STARTED nat
  | CONNECTION_INTERRUPTED
  | CONNECTION_RESTORED
  | CONNECTION_ESTABLISHED
  | TRACK_ADDED JitsiRemoteTrack
  | TRACK_REMOVED JitsiRemoteTrack
  | LOCAL_TRACK_REMOVED JitsiLocalTrack
  | SERVER_REGION_CHANGED

datatype effect =
    Emit event
  | LogError string
  | LogErrorNumber string rat string
  | LogWarn string
  | Analytics string
  | Thrown string
  | NewP2PJingleSession string string
  | SessionInitialize nat
  | SessionInvite nat "JitsiLocalTrack list"
  | SessionAcceptOffer nat "JitsiLocalTrack list"
  | SessionTerminate nat "string option" "string option" bool
  | SessionClose nat
  | SessionSetMediaTransferActive nat bool
  | SessionSetP2pVideoTransferActive nat bool
  | SessionAddTracks nat "JitsiLocalTrack list"
  | StartRemoteStats nat
  | StopRemoteStats nat
  | IceFailedHandlingStart nat JingleSessionPC
  | IceFailedHandlingCancel nat
  | SendConferenceJoinAnalyticsEvent
  | SendConferenceLeftAnalyticsEvent
  | SendPresence
  | ReplaceTrack JitsiLocalTrack
  | SetSourceName JitsiLocalTrack MediaType nat
  | SetTimeoutCall nat timer_task rat
  | ClearTimeoutCall nat
  | OtherCall string

record JitsiConference =
  room :: "ChatRoom option"
  config :: Config
  browser_isFirefox :: bool
  firefoxP2pEnabled :: bool
  e2eeEnabled :: bool
  participants :: "JitsiParticipant list"
  hasVisitors :: bool
  transcribingEnabled :: bool
  p2p :: bool
  p2pJingleSession :: "JingleSessionPC option"
  jvbJingleSession :: "JingleSessionPC option"
  isP2PConnectionInterrupted :: bool
  isJvbConnectionInterrupted :: bool
  deferredStartP2PTask :: "nat option"
  backToP2PDelay :: int
  iceRestarts :: nat
  delayedIceFailed :: "nat option"
  sessionInitiateTimeout :: "nat option"
  lastN :: int
  dtmfManager :: "nat option"
  rtc_localTracks :: "JitsiLocalTrack list"
  p2pEstablishmentDuration :: "rat option"
  jvbEstablishmentDuration :: "rat option"
  wasStopped :: bool
  avgRtpStatsReporter :: bool
  e2eping :: bool
  statistics :: bool
  ctxSkip :: "nat \<Rightarrow> bool"
  timers :: "(nat \<times> timer_task \<times> rat) list"
  nextHandle :: nat
  nextRef :: nat
  effects :: "effect list"

subsection \<open>Runtime primitives\<close>

definition perform :: "effect \<Rightarrow> JitsiConference \<Rightarrow> JitsiConference" where
  "perform e s = s\<lparr>effects := effects s @ [e]\<rparr>"

text \<open>\<open>setTimeout\<close> hands out the next handle; browser handles are positive, hence truthy.\<close>

definition setTimeout :: "timer_task \<Rightarrow> rat \<Rightarrow> JitsiConference \<Rightarrow> nat \<times> JitsiConference" where
  "setTimeout task delay s =
     (nextHandle s,
      s\<lparr>timers := timers s @ [(nextHandle s, task, delay)],
        nextHandle := Suc (nextHandle s),
        effects := effects s @ [SetTimeoutCall (nextHandle s) task delay]\<rparr>)"

definition clearTimeout :: "nat \<Rightarrow> JitsiConference \<Rightarrow> JitsiConference" where
  "clearTimeout h s =
     s\<lparr>timers := filter (\<lambda>t. fst t \<noteq> h) (timers s),
       effects := effects s @ [ClearTimeoutCall h]\<rparr>"

text \<open>What one pass did: the effects appended since state \<open>s\<close>.\<close>

definition newEffects :: "JitsiConference \<Rightarrow> JitsiConference \<Rightarrow> effect list" where
  "newEffects s s' = drop (length (effects s)) (effects s')"

text \<open>\<open>Strophe.getResourceFromJid\<close>: the text after the first slash, null without one.\<close>

fun getResourceFromJid :: "string \<Rightarrow> string option" where
  "getResourceFromJid [] = None"
| "getResourceFromJid (c # cs) = (if c = CHR ''/'' then Some cs else getResourceFromJid cs)"

subsection \<open>Accessors of the conference\<close>

definition isP2PEnabled :: "JitsiConference \<Rightarrow> bool" where
  "isP2PEnabled s = (case cfg_p2p (config s) of None \<Rightarrow> True | Some c \<Rightarrow> p2p_enabled c)"

definition isP2PTestModeEnabled :: "JitsiConference \<Rightarrow> bool" where
  "isP2PTestModeEnabled s = (case cfg_testing (config s) of None \<Rightarrow> False | Some t \<Rightarrow> p2pTestMode t)"

definition testing_forceInitiator :: "JitsiConference \<Rightarrow> bool" where
  "testing_forceInitiator s = (case cfg_testing (config s) of None \<Rightarrow> False | Some t \<Rightarrow> forceInitiator t)"

definition testing_forceResponder :: "JitsiConference \<Rightarrow> bool" where
  "testing_forceResponder s = (case cfg_testing (config s) of None \<Rightarrow> False | Some t \<Rightarrow> forceResponder t)"

definition testing_allowMultipleTracks :: "JitsiConference \<Rightarrow> bool" where
  "testing_allowMultipleTracks s = (case cfg_testing (config s) of None \<Rightarrow> False | Some t \<Rightarrow> allowMultipleTracks t)"

definition isE2EEEnabled :: "JitsiConference \<Rightarrow> bool" where
  "isE2EEEnabled s = e2eeEnabled s"

definition isP2PActive :: "JitsiConference \<Rightarrow> bool" where
  "isP2PActive s = p2p s"

definition getParticipants :: "JitsiConference \<Rightarrow> JitsiParticipant list" where
  "getParticipants s = participants s"

definition getParticipantCount :: "JitsiConference \<Rightarrow> nat" where
  "getParticipantCount s = length (filter (\<lambda>p. \<not> p_hidden p) (getParticipants s)) + 1"

definition getParticipantById :: "string option \<Rightarrow> JitsiConference \<Rightarrow> JitsiParticipant option" where
  "getParticipantById i s = (case i of None \<Rightarrow> None | Some k \<Rightarrow> find (\<lambda>p. p_id p = k) (participants s))"

definition myUserId :: "JitsiConference \<Rightarrow> string option" where
  "myUserId s = (case room s of None \<Rightarrow> None
                 | Some r \<Rightarrow> if myroomjid r = [] then None else getResourceFromJid (myroomjid r))"

definition getActiveMediaSession :: "JitsiConference \<Rightarrow> JingleSessionPC option" where
  "getActiveMediaSession s = (if isP2PActive s then p2pJingleSession s else jvbJingleSession s)"

definition isConnectionInterrupted :: "JitsiConference \<Rightarrow> bool" where
  "isConnectionInterrupted s =
     (if isP2PActive s then isP2PConnectionInterrupted s else isJvbConnectionInterrupted s)"

definition getLocalTracks :: "MediaType option \<Rightarrow> JitsiConference \<Rightarrow> JitsiLocalTrack list" where
  "getLocalTracks mt s =
     (case mt of None \<Rightarrow> rtc_localTracks s
      | Some m \<Rightarrow> filter (\<lambda>t. t_type t = m) (rtc_localTracks s))"

text \<open>
  The constructor reads \<open>config.p2p.backToP2PDelay\<close> with \<open>parseInt\<close> and falls back to
  5 seconds when the result is not a valid number (\<open>None\<close> here).
\<close>

definition initialBackToP2PDelay :: "Config \<Rightarrow> int" where
  "initialBackToP2PDelay c =
     (case cfg_p2p c of None \<Rightarrow> 5
      | Some p \<Rightarrow> (case p2p_backToP2PDelay p of None \<Rightarrow> 5 | Some d \<Rightarrow> d))"

section \<open>Remote tracks of a session\<close>

fun pushTrack :: "string \<Rightarrow> JitsiRemoteTrack \<Rightarrow> JitsiParticipant list \<Rightarrow> JitsiParticipant list" where
  "pushTrack i t [] = []"
| "pushTrack i t (p # ps) =
     (if p_id p = i then p\<lparr>p_tracks := p_tracks p @ [t]\<rparr> # ps else p # pushTrack i t ps)"

text \<open>
  \<open>onRemoteTrackAdded\<close> ignores a P2P track while the conference is not in P2P mode and
  a bridge track while it is; otherwise the track is pushed to its owner (if present) and
  \<open>TRACK_ADDED\<close> is emitted.
\<close>

definition onRemoteTrackAdded :: "JitsiRemoteTrack \<Rightarrow> JitsiConference \<Rightarrow> JitsiConference" where
  "onRemoteTrackAdded track s =
     (if r_isP2P track \<and> \<not> isP2PActive s then s
      else if \<not> r_isP2P track \<and> isP2PActive s then s
      else perform (Emit (TRACK_ADDED track))
             (s\<lparr>participants := pushTrack (ownerEndpointId track) track (participants s)\<rparr>))"

text \<open>
  \<open>onRemoteTrackRemoved\<close> splices the track out of every participant that holds it and
  emits \<open>TRACK_REMOVED\<close> once per such participant.
\<close>

fun spliceTrack :: "JitsiRemoteTrack \<Rightarrow> JitsiRemoteTrack list \<Rightarrow> JitsiRemoteTrack list" where
  "spliceTrack t [] = []"
| "spliceTrack t (x # xs) = (if r_ref x = r_ref t then xs else x # spliceTrack t xs)"

definition holdsTrack :: "JitsiRemoteTrack \<Rightarrow> JitsiParticipant \<Rightarrow> bool" where
  "holdsTrack t p = list_ex (\<lambda>x. r_ref x = r_ref t) (p_tracks p)"

definition onRemoteTrackRemoved :: "JitsiRemoteTrack \<Rightarrow> JitsiConference \<Rightarrow> JitsiConference" where
  "onRemoteTrackRemoved t s =
     s\<lparr>participants := map (\<lambda>p. p\<lparr>p_tracks := spliceTrack t (p_tracks p)\<rparr>) (participants s),
       effects := effects s
          @ map (\<lambda>p. Emit (TRACK_REMOVED t)) (filter (holdsTrack t) (participants s))\<rparr>"

definition addRemoteTracks :: "JitsiRemoteTrack list \<Rightarrow> JitsiConference \<Rightarrow> JitsiConference" where
  "addRemoteTracks remoteTracks s =
     fold (\<lambda>track c. if getParticipantById (Some (ownerEndpointId track)) c \<noteq> None
                       then onRemoteTrackAdded track c else c) remoteTracks s"

definition removeRemoteTracks :: "JitsiRemoteTrack list \<Rightarrow> JitsiConference \<Rightarrow> JitsiConference" where
  "removeRemoteTracks remoteTracks s = fold onRemoteTrackRemoved remoteTracks s"

text \<open>
  The four wrappers read the tracks of the bridge or of the P2P session; every caller has
  checked that the session exists, so the session is passed in.
\<close>

definition addRemoteJVBTracks :: "JingleSessionPC \<Rightarrow> JitsiConference \<Rightarrow> JitsiConference" where
  "addRemoteJVBTracks jvb s = addRemoteTracks (pc_remoteTracks jvb) s"

definition addRemoteP2PTracks :: "JingleSessionPC \<Rightarrow> JitsiConference \<Rightarrow> JitsiConference" where
  "addRemoteP2PTracks p s = addRemoteTracks (pc_remoteTracks p) s"

definition removeRemoteJVBTracks :: "JingleSessionPC \<Rightarrow> JitsiConference \<Rightarrow> JitsiConference" where
  "removeRemoteJVBTracks jvb s = removeRemoteTracks (pc_remoteTracks jvb) s"

definition removeRemoteP2PTracks :: "JingleSessionPC \<Rightarrow> JitsiConference \<Rightarrow> JitsiConference" where
  "removeRemoteP2PTracks p s = removeRemoteTracks (pc_remoteTracks p) s"

definition resumeMediaTransferForJvbConnection :: "JingleSessionPC \<Rightarrow> JitsiConference \<Rightarrow> JitsiConference" where
  "resumeMediaTransferForJvbConnection jvb s = perform (SessionSetMediaTransferActive (sid jvb) True) s"

definition suspendMediaTransferForJvbConnection :: "JingleSessionPC \<Rightarrow> JitsiConference \<Rightarrow> JitsiConference" where
  "suspendMediaTransferForJvbConnection jvb s = perform (SessionSetMediaTransferActive (sid jvb) False) s"

section \<open>Topology controller\<close>

text \<open>
  \<open>_setP2PStatus\<close>. With \<open>newStatus\<close> true the P2P session is dereferenced: without a
  stored session the call raises a TypeError after the flag and the analytics property have
  been set, and nothing after it runs.
\<close>

definition setP2PStatus :: "bool \<Rightarrow> JitsiConference \<Rightarrow> JitsiConference" where
  "setP2PStatus newStatus s =
     (if p2p s = newStatus then s
      else
        let s1 = s\<lparr>p2p := newStatus\<rparr>;
            s2 = (if newStatus then perform (Analytics ''p2pFailed: false'') s1 else s1)
        in
        if newStatus \<and> p2pJingleSession s2 = None
        then perform (Thrown ''TypeError: this.p2pJingleSession is null'') s2
        else
          let s3 = (if newStatus
                    then (case p2pJingleSession s2 of
                            None \<Rightarrow> s2
                          | Some sess \<Rightarrow>
                              perform (SessionSetP2pVideoTransferActive (sid sess) (lastN s2 \<noteq> 0)) s2)
                    else s2);
              s4 = s3\<lparr>dtmfManager := None\<rparr>;
              s5 = perform (Emit (P2P_STATUS (p2p s4))) s4;
              s6 = perform (Emit (MEDIA_SESSION_ACTIVE_CHANGED
                                    (map_option sid (getActiveMediaSession s5)))) s5
          in perform (Emit (if isConnectionInterrupted s6 then CONNECTION_INTERRUPTED
                            else CONNECTION_RESTORED)) s6)"

definition maybeClearDeferredStartP2P :: "JitsiConference \<Rightarrow> JitsiConference" where
  "maybeClearDeferredStartP2P s =
     (case deferredStartP2PTask s of
        None \<Rightarrow> s
      | Some h \<Rightarrow> (clearTimeout h s)\<lparr>deferredStartP2PTask := None\<rparr>)"

text \<open>
  \<open>_startP2PSession\<close>. \<open>newP2PJingleSession\<close> returns a fresh initiator session; reading
  \<open>this.room.myroomjid\<close> after \<open>leave\<close> has reset the room raises a TypeError.
\<close>

definition startP2PSession :: "string \<Rightarrow> JitsiConference \<Rightarrow> JitsiConference" where
  "startP2PSession rjid s =
     (let s1 = maybeClearDeferredStartP2P s in
      if p2pJingleSession s1 \<noteq> None then perform (LogError ''P2P session already started!'') s1
      else
        let s2 = s1\<lparr>isP2PConnectionInterrupted := False\<rparr> in
        (case room s2 of
           None \<Rightarrow> perform (Thrown ''TypeError: this.room is null'') s2
         | Some r \<Rightarrow>
             let sess = \<lparr>sid = nextRef s2, isP2P = True, isInitiator = True, remoteJid = rjid,
                         establishmentDuration = None, pc_remoteTracks = [], pc_localTracks = []\<rparr>;
                 s3 = perform (NewP2PJingleSession (myroomjid r) rjid)
                        (s2\<lparr>p2pJingleSession := Some sess, nextRef := Suc (nextRef s2)\<rparr>);
                 s4 = perform SendConferenceJoinAnalyticsEvent s3;
                 s5 = perform (SessionInitialize (sid sess)) s4
             in perform (SessionInvite (sid sess) (getLocalTracks None s5)) s5))"

text \<open>
  \<open>_stopP2PSession(options)\<close> with the three options it destructures. The terminate
  callbacks run when the IQ result arrives and are not part of this pass.
\<close>

definition stopP2PSession :: "string \<Rightarrow> string \<Rightarrow> bool \<Rightarrow> JitsiConference \<Rightarrow> JitsiConference" where
  "stopP2PSession reason reasonDescription requestRestart s =
     (case p2pJingleSession s of
        None \<Rightarrow> perform (LogError ''No P2P session to be stopped!'') s
      | Some sess \<Rightarrow>
          let wasP2PEstablished = isP2PActive s;
              s1 = (if wasP2PEstablished
                    then removeRemoteP2PTracks sess
                           (case jvbJingleSession s of
                              None \<Rightarrow> s
                            | Some jvb \<Rightarrow> if \<not> requestRestart
                                          then resumeMediaTransferForJvbConnection jvb s else s)
                    else s);
              s2 = perform (StopRemoteStats (sid sess)) s1;
              s3 = perform (SessionTerminate (sid sess) (Some reason) (Some reasonDescription)
                              (room s2 \<noteq> None
                               \<and> getParticipantById (getResourceFromJid (remoteJid sess)) s2 \<noteq> None)) s2;
              s4 = s3\<lparr>p2pJingleSession := None\<rparr>;
              s5 = setP2PStatus False s4
          in if wasP2PEstablished
             then (case jvbJingleSession s5 of
                     None \<Rightarrow> s5
                   | Some jvb \<Rightarrow> if \<not> requestRestart then addRemoteJVBTracks jvb s5 else s5)
             else s5)"

text \<open>The defaults of \<open>_stopP2PSession()\<close> called without options.\<close>

definition stopP2PSessionDefault :: "JitsiConference \<Rightarrow> JitsiConference" where
  "stopP2PSessionDefault s = stopP2PSession ''success'' ''Turning off P2P session'' False s"



definition shouldBeInP2PMode :: "JitsiConference \<Rightarrow> bool" where
  "shouldBeInP2PMode s =
     (let peers = getParticipants s;
          peerCount = length peers;
          hasBotPeer = (find (\<lambda>p. p_botType p = Some ''poltergeist'' \<or> p_hasFeatureJigasi p) peers \<noteq> None)
      in peerCount = 1 \<and> \<not> hasBotPeer \<and> \<not> hasVisitors s \<and> \<not> hasVisitors s \<and> \<not> transcribingEnabled s)"

text \<open>
  The comparison \<open>myId > peersId\<close> of the election. When \<open>myUserId()\<close> is a string,
  both operands are strings and the comparison is the lexicographic one on code units. When
  it is null, JavaScript compares numbers: null is 0 and the peer's id is converted with
  \<open>ToNumber\<close>, so the comparison is true exactly when the id reads as a negative number
  (\<open>null > "-1"\<close> is true). A string reads as a negative number when, with white space
  trimmed, it is a minus sign followed by \<open>Infinity\<close> or by an unsigned decimal literal
  whose value does not round to zero, that is, exceeds \<open>2 ^ -1075\<close>. Strings are lists
  of 8-bit characters here, so of the white space characters only those up to U+00A0 occur.
\<close>

definition isStrWhiteSpaceChar :: "char \<Rightarrow> bool" where
  "isStrWhiteSpaceChar c =
     (c \<in> set [CHR 0x09, CHR 0x0A, CHR 0x0B, CHR 0x0C, CHR 0x0D, CHR 0x20, CHR 0xA0])"

definition isDecimalDigit :: "char \<Rightarrow> bool" where
  "isDecimalDigit c = (CHR ''0'' \<le> c \<and> c \<le> CHR ''9'')"

definition decimalDigitsValue :: "string \<Rightarrow> nat" where
  "decimalDigitsValue ds = foldl (\<lambda>n c. 10 * n + (of_char c - 48)) 0 ds"

text \<open>The value of an optional exponent part that must use up the rest of the literal.\<close>

definition exponentPart :: "string \<Rightarrow> int option" where
  "exponentPart r =
     (case r of
        [] \<Rightarrow> Some 0
      | c # ds \<Rightarrow>
          if c = CHR ''e'' \<or> c = CHR ''E'' then
            (case ds of
               [] \<Rightarrow> None
             | d # ds' \<Rightarrow>
                 if d = CHR ''-'' \<or> d = CHR ''+'' then
                   (if ds' \<noteq> [] \<and> list_all isDecimalDigit ds'
                    then Some ((if d = CHR ''-'' then - 1 else 1) * int (decimalDigitsValue ds'))
                    else None)
                 else if list_all isDecimalDigit ds then Some (int (decimalDigitsValue ds))
                 else None)
          else None)"

text \<open>
  The mathematical value of a \<open>StrUnsignedDecimalLiteral\<close> other than \<open>Infinity\<close>:
  digits with an optional fraction and exponent, or a fraction with an optional exponent.
\<close>

definition strUnsignedDecimalLiteral :: "string \<Rightarrow> rat option" where
  "strUnsignedDecimalLiteral t =
     (let ip = takeWhile isDecimalDigit t;
          r1 = dropWhile isDecimalDigit t;
          hasDot = (r1 \<noteq> [] \<and> hd r1 = CHR ''.'');
          fp = (if hasDot then takeWhile isDecimalDigit (tl r1) else []);
          r2 = (if hasDot then dropWhile isDecimalDigit (tl r1) else r1)
      in if ip = [] \<and> fp = [] then None
         else (case exponentPart r2 of
                 None \<Rightarrow> None
               | Some e \<Rightarrow>
                   let m = of_nat (decimalDigitsValue (ip @ fp)); x = e - int (length fp)
                   in Some (if 0 \<le> x then m * 10 ^ nat x else m / 10 ^ nat (- x))))"

definition stringToNumberNegative :: "string \<Rightarrow> bool" where
  "stringToNumberNegative str =
     (case rev (dropWhile isStrWhiteSpaceChar (rev (dropWhile isStrWhiteSpaceChar str))) of
        [] \<Rightarrow> False
      | c # u \<Rightarrow>
          c = CHR ''-''
          \<and> (u = ''Infinity''
               \<or> (case strUnsignedDecimalLiteral u of
                     None \<Rightarrow> False
                   | Some v \<Rightarrow> 1 / 2 ^ 1075 < v)))"

definition js_gt :: "string option \<Rightarrow> string \<Rightarrow> bool" where
  "js_gt a b = (case a of None \<Rightarrow> stringToNumberNegative b | Some x \<Rightarrow> b < x)"

definition maybeStartOrStopP2P :: "bool \<Rightarrow> JitsiConference \<Rightarrow> JitsiConference" where
  "maybeStartOrStopP2P userLeftEvent s =
     (if \<not> isP2PEnabled s \<or> isP2PTestModeEnabled s
         \<or> (browser_isFirefox s \<and> \<not> firefoxP2pEnabled s) \<or> isE2EEEnabled s
      then s
      else
        let peers = getParticipants s;
            peerCount = length peers;
            shouldBeInP2P = shouldBeInP2PMode s;
            s1 = (if \<not> shouldBeInP2P \<and> deferredStartP2PTask s \<noteq> None
                  then maybeClearDeferredStartP2P s else s)
        in
        if p2pJingleSession s1 = None \<and> shouldBeInP2P then
          (case peers of
             [] \<Rightarrow> perform (Thrown ''TypeError: peer.getId is not a function'') s1
           | peer # _ \<Rightarrow>
               let myId = myUserId s1; peersId = p_id peer; jid = p_jid peer in
               if testing_forceInitiator s1 then startP2PSession jid s1
               else if testing_forceResponder s1 then s1
               else if js_gt myId peersId then s1
               else if myId = Some peersId then perform (LogError ''The same IDs ? '') s1
               else if userLeftEvent then
                 (if deferredStartP2PTask s1 \<noteq> None
                  then perform (LogError ''Deferred start P2P task's been set already!'') s1
                  else
                    let (h, s2) = setTimeout (StartP2PSessionTask jid)
                                    (of_int (backToP2PDelay s1) * 1000) s1
                    in s2\<lparr>deferredStartP2PTask := Some h\<rparr>)
               else startP2PSession jid s1)
        else
          (case p2pJingleSession s1 of
             Some sess \<Rightarrow>
               if \<not> shouldBeInP2P then
                 stopP2PSessionDefault
                   (if isInitiator sess \<and> 1 < peerCount
                    then perform (Analytics ''p2p.switch_to_jvb'') s1 else s1)
               else s1
           | None \<Rightarrow> s1))"

text \<open>
  What a pass of the topology controller did towards a peer: it called
  \<open>invite\<close> on a new P2P session to that peer, or it created a timer that will start one.
\<close>

definition invitedNow :: "string \<Rightarrow> JitsiConference \<Rightarrow> JitsiConference \<Rightarrow> bool" where
  "invitedNow jid s s' =
     (case p2pJingleSession s' of
        None \<Rightarrow> False
      | Some sess \<Rightarrow> remoteJid sess = jid
                     \<and> list_ex (\<lambda>e. case e of SessionInvite n _ \<Rightarrow> n = sid sess | _ \<Rightarrow> False)
                          (newEffects s s'))"



text \<open>The gate at the top of \<open>_maybeStartOrStopP2P\<close>.\<close>

definition autoP2PEnabled :: "JitsiConference \<Rightarrow> bool" where
  "autoP2PEnabled s =
     (isP2PEnabled s \<and> \<not> isP2PTestModeEnabled s
      \<and> \<not> (browser_isFirefox s \<and> \<not> firefoxP2pEnabled s) \<and> \<not> isE2EEEnabled s)"

section \<open>Connectivity recovery controller\<close>

text \<open>Identity comparison of a stored session with the session of an event.\<close>

definition isSession :: "JingleSessionPC option \<Rightarrow> JingleSessionPC \<Rightarrow> bool" where
  "isSession stored x = (case stored of None \<Rightarrow> False | Some y \<Rightarrow> sid y = sid x)"

text \<open>
  Modelled from the spec: \<open>getJitterDelay\<close> (modules/util/Retry) is imported by the
  conference but its file is not among the sources. The specification gives the delay as
  \<open>minDelay * growthFactor ^ attemptNumber * (1 + random jitter fraction)\<close>, doubling per
  attempt; the random fraction drawn for a call is the argument \<open>jitter\<close>.
\<close>

definition getJitterDelay :: "nat \<Rightarrow> rat \<Rightarrow> rat \<Rightarrow> rat" where
  "getJitterDelay attempt minDelay jitter = minDelay * 2 ^ attempt * (1 + jitter)"

text \<open>
  \<open>_onIceConnectionFailed(session)\<close>. The constant \<open>MAX_CONNECTION_RETRIES\<close>
  (service/connectivity/Constants) is not among the sources and is a parameter.
  \<open>new IceFailedHandling(this)\<close> allocates a fresh handler object; the handle returned by
  \<open>setTimeout\<close> is dropped by the source.
\<close>

definition onIceConnectionFailed :: "nat \<Rightarrow> rat \<Rightarrow> JingleSessionPC \<Rightarrow> JitsiConference \<Rightarrow> JitsiConference" where
  "onIceConnectionFailed MAX_CONNECTION_RETRIES jitter session s =
     (if isP2P session then
        let s1 = perform (Analytics ''p2pFailed: true'') s;
            s2 = (case p2pJingleSession s1 of
                    None \<Rightarrow> s1
                  | Some p \<Rightarrow> perform (Analytics ''p2p.failed'') s1)
        in stopP2PSession ''connectivity-error'' ''ICE FAILED'' False s2
      else if isSession (jvbJingleSession s) session \<and> iceRestarts s < MAX_CONNECTION_RETRIES then
        let jitterDelay = getJitterDelay (iceRestarts s) 1000 jitter;
            s1 = s\<lparr>delayedIceFailed := Some (nextRef s), nextRef := Suc (nextRef s)\<rparr>
        in snd (setTimeout (IceRestartTask session jitterDelay) jitterDelay s1)
      else if isSession (jvbJingleSession s) session then
        perform (Emit (CONFERENCE_FAILED ICE_FAILED))
          (perform (Analytics ''jvb.ice.failed'')
             (perform (LogWarn ''ICE failed, force reloading the conference after failed attempts to re-establish ICE'') s))
      else s)"

text \<open>
  The callbacks handed to \<open>setTimeout\<close>, and the firing of a pending timer. The restart
  callback closes over the session and the delay it was scheduled with.
\<close>

definition runTask :: "timer_task \<Rightarrow> JitsiConference \<Rightarrow> JitsiConference" where
  "runTask task s =
     (case task of
        StartP2PSessionTask jid \<Rightarrow> startP2PSession jid s
      | IceRestartTask session jitterDelay \<Rightarrow>
          (let s1 = perform (LogErrorNumber ''triggering ice restart after '' jitterDelay '' '') s in
           case delayedIceFailed s1 of
             None \<Rightarrow> perform (Thrown ''TypeError'') s1
           | Some h \<Rightarrow> (perform (IceFailedHandlingStart h session) s1)\<lparr>iceRestarts := Suc (iceRestarts s1)\<rparr>)
      | SessionInitiateTimeoutTask \<Rightarrow>
          perform (Analytics ''session-initiate timeout'') (s\<lparr>sessionInitiateTimeout := None\<rparr>))"

definition fireTimer :: "nat \<Rightarrow> JitsiConference \<Rightarrow> JitsiConference" where
  "fireTimer h s =
     (case find (\<lambda>t. fst t = h) (timers s) of
        None \<Rightarrow> s
      | Some t \<Rightarrow> runTask (fst (snd t)) (s\<lparr>timers := filter (\<lambda>t. fst t \<noteq> h) (timers s)\<rparr>))"

definition maybeClearSITimeout :: "JitsiConference \<Rightarrow> JitsiConference" where
  "maybeClearSITimeout s =
     (case sessionInitiateTimeout s of
        None \<Rightarrow> s
      | Some h \<Rightarrow> if jvbJingleSession s \<noteq> None \<or> getParticipantCount s < 2
                  then (clearTimeout h s)\<lparr>sessionInitiateTimeout := None\<rparr> else s)"

definition maybeSetSITimeout :: "JitsiConference \<Rightarrow> JitsiConference" where
  "maybeSetSITimeout s =
     (if jvbJingleSession s = None \<and> 2 \<le> getParticipantCount s \<and> sessionInitiateTimeout s = None
      then (snd (setTimeout SessionInitiateTimeoutTask 5000 s))\<lparr>sessionInitiateTimeout := Some (nextHandle s)\<rparr>
      else s)"

text \<open>\<open>_onIceConnectionEstablished(jingleSession)\<close>.\<close>

definition onIceConnectionEstablished :: "JingleSessionPC \<Rightarrow> JitsiConference \<Rightarrow> JitsiConference" where
  "onIceConnectionEstablished jingleSession s =
     (let s1 = (case p2pJingleSession s of
                  None \<Rightarrow> s
                | Some p \<Rightarrow> s\<lparr>p2pEstablishmentDuration := establishmentDuration p\<rparr>);
          s2 = (case jvbJingleSession s1 of
                  None \<Rightarrow> s1
                | Some j \<Rightarrow> s1\<lparr>jvbEstablishmentDuration := establishmentDuration j\<rparr>);
          wrong = (isP2P jingleSession \<and> \<not> isSession (p2pJingleSession s2) jingleSession);
          done = (\<not> isP2P jingleSession \<or> wrong);
          s3 = (if wrong
                then perform (LogError ''CONNECTION_ESTABLISHED - wrong P2P session instance ?!'') s2
                else s2);
          s4 = (if p2pEstablishmentDuration s3 \<noteq> None \<and> jvbEstablishmentDuration s3 \<noteq> None
                then perform (Analytics ''ice.establishment.duration.diff'') s3 else s3);
          s5 = (if isP2P jingleSession = isP2PActive s4
                then perform (Emit CONNECTION_ESTABLISHED) s4 else s4)
      in if done then s5
         else
           (case p2pJingleSession s5 of
              None \<Rightarrow> s5
            | Some p \<Rightarrow>
                let s6 = setP2PStatus True s5;
                    s7 = (case jvbJingleSession s6 of
                            None \<Rightarrow> s6
                          | Some j \<Rightarrow> removeRemoteJVBTracks j s6);
                    s8 = addRemoteP2PTracks p s7;
                    s9 = (case jvbJingleSession s8 of
                            None \<Rightarrow> s8
                          | Some j \<Rightarrow> suspendMediaTransferForJvbConnection j s8);
                    s10 = perform (StartRemoteStats (sid p)) s9
                in perform (Analytics ''p2p.established'') s10))"

section \<open>Incoming session-initiate\<close>

definition rejectIncomingCall :: "JingleSessionPC \<Rightarrow> RejectOptions option \<Rightarrow> JitsiConference \<Rightarrow> JitsiConference" where
  "rejectIncomingCall jingleSession options s =
     (let s1 = (case options of
                  None \<Rightarrow> s
                | Some opt \<Rightarrow> if ro_errorMsg opt \<noteq> [] then perform (LogWarn (ro_errorMsg opt)) s else s)
      in perform (SessionTerminate (sid jingleSession) (map_option ro_reason options)
                    (map_option ro_reasonDescription options) True) s1)"

definition acceptP2PIncomingCall :: "JingleSessionPC \<Rightarrow> JitsiConference \<Rightarrow> JitsiConference" where
  "acceptP2PIncomingCall jingleSession s =
     (let s1 = s\<lparr>isP2PConnectionInterrupted := False, p2pJingleSession := Some jingleSession\<rparr>;
          s2 = perform SendConferenceJoinAnalyticsEvent s1;
          s3 = perform (SessionInitialize (sid jingleSession)) s2
      in perform (SessionAcceptOffer (sid jingleSession) (getLocalTracks None s3)) s3)"

text \<open>
  \<open>_onIncomingCallP2P(jingleSession, jingleOffer)\<close>; of the offer only the \<open>name\<close>
  attribute of its first content is read.
\<close>

definition onIncomingCallP2P :: "JingleSessionPC \<Rightarrow> string option \<Rightarrow> JitsiConference \<Rightarrow> JitsiConference" where
  "onIncomingCallP2P jingleSession contentName s =
     (let peerUsesUnifiedPlan = (contentName = Some ''0'' \<or> contentName = Some ''1'') in
      if \<not> peerUsesUnifiedPlan then
        rejectIncomingCall jingleSession
          (Some \<lparr>ro_errorMsg = ''P2P across two endpoints in different SDP modes is disabled'',
                 ro_reason = ''decline'', ro_reasonDescription = ''P2P disabled''\<rparr>) s
      else if (\<not> isP2PEnabled s \<and> \<not> isP2PTestModeEnabled s)
              \<or> (browser_isFirefox s \<and> \<not> firefoxP2pEnabled s) then
        rejectIncomingCall jingleSession
          (Some \<lparr>ro_errorMsg = ''P2P mode disabled in the configuration or browser unsupported'',
                 ro_reason = ''decline'', ro_reasonDescription = ''P2P disabled''\<rparr>) s
      else if p2pJingleSession s \<noteq> None then
        rejectIncomingCall jingleSession
          (Some \<lparr>ro_errorMsg = (''Duplicated P2P '' @ [CHR 0x22] @ ''session-initiate'' @ [CHR 0x22]),
                 ro_reason = ''busy'', ro_reasonDescription = ''P2P already in progress''\<rparr>) s
      else if \<not> shouldBeInP2PMode s then
        rejectIncomingCall jingleSession
          (Some \<lparr>ro_errorMsg = (''Received P2P '' @ [CHR 0x22] @ ''session-initiate''
                                @ [CHR 0x22] @ '' when should not be in P2P mode''),
                 ro_reason = ''decline'', ro_reasonDescription = ''P2P requirements not met''\<rparr>)
          (perform (Analytics ''p2p.declined'') s)
      else acceptP2PIncomingCall jingleSession s)"

definition isFocus :: "string \<Rightarrow> JitsiConference \<Rightarrow> bool option" where
  "isFocus mucJid s = (case room s of None \<Rightarrow> None | Some r \<Rightarrow> members r mucJid)"

text \<open>
  \<open>_acceptJvbIncomingCall\<close>: the bridge session is stored, the session-initiate timeout is
  cleared and the offer is accepted. Connection-time bookkeeping and the desktop frame rate
  are left out; setting up the bridge channel is one opaque call.
\<close>

definition acceptJvbIncomingCall :: "JingleSessionPC \<Rightarrow> JitsiConference \<Rightarrow> JitsiConference" where
  "acceptJvbIncomingCall jingleSession s =
     (let s1 = s\<lparr>jvbJingleSession := Some jingleSession\<rparr>;
          s2 = perform SendConferenceJoinAnalyticsEvent s1;
          s3 = (if wasStopped s2 then perform (Analytics ''jingle.restart'') s2 else s2);
          s4 = perform (Emit SERVER_REGION_CHANGED) s3;
          s5 = maybeClearSITimeout s4;
          s6 = perform (Analytics ''session-initiate received'') s5;
          s7 = perform (SessionInitialize (sid jingleSession)) s6;
          s8 = perform (OtherCall ''_setBridgeChannel'') s7;
          s9 = perform (SessionAcceptOffer (sid jingleSession) (getLocalTracks None s8)) s8
      in perform (StartRemoteStats (sid jingleSession)) s9)"

definition onIncomingCall :: "JingleSessionPC \<Rightarrow> string option \<Rightarrow> JitsiConference \<Rightarrow> JitsiConference" where
  "onIncomingCall jingleSession contentName s =
     (if isP2P jingleSession then onIncomingCallP2P jingleSession contentName s
      else if isFocus (remoteJid jingleSession) s \<noteq> Some True then
        rejectIncomingCall jingleSession
          (Some \<lparr>ro_errorMsg = ''Rejecting session-initiate from non-focus.'',
                 ro_reason = ''security-error'',
                 ro_reasonDescription = ''Rejecting session-initiate from non-focus.''\<rparr>) s
      else acceptJvbIncomingCall jingleSession s)"

section \<open>Conference facade\<close>

text \<open>
  \<open>_updateRoomPresence(jingleSession, ctx)\<close>. The signaling layer (SignalingLayerImpl) is not
  among the sources: its two setters are parameters which take the layer's state and return
  whether presence was changed, as \<open>_setTrackMuteStatus\<close> and \<open>_setNewVideoType\<close> document,
  together with the new state. The loop keeps \<open>videoTypeChanged\<close> across iterations, as
  the variable is declared outside of it. Context objects live in the store \<open>ctxSkip\<close>.
\<close>

fun updateTracksPresence ::
  "(string option \<Rightarrow> bool \<Rightarrow> 'sl \<Rightarrow> bool \<times> 'sl)
   \<Rightarrow> (string option \<Rightarrow> VideoType option \<Rightarrow> 'sl \<Rightarrow> bool \<times> 'sl)
   \<Rightarrow> JitsiLocalTrack list \<Rightarrow> bool \<times> bool \<times> 'sl \<Rightarrow> bool \<times> bool \<times> 'sl" where
  "updateTracksPresence setTrackMuteStatus setTrackVideoType [] acc = acc"
| "updateTracksPresence setTrackMuteStatus setTrackVideoType (track # rest)
     (presenceChanged, videoTypeChanged, sl) =
     (let muted = t_muted track;
          (muteStatusChanged, sl1) = setTrackMuteStatus (t_sourceName track) muted sl;
          (videoTypeChanged', sl2) =
             (if t_type track = VIDEO
              then setTrackVideoType (t_sourceName track) (t_videoType track) sl1
              else (videoTypeChanged, sl1))
      in updateTracksPresence setTrackMuteStatus setTrackVideoType rest
           (presenceChanged \<or> muteStatusChanged \<or> videoTypeChanged', videoTypeChanged', sl2))"

definition updateRoomPresence ::
  "(string option \<Rightarrow> bool \<Rightarrow> 'sl \<Rightarrow> bool \<times> 'sl)
   \<Rightarrow> (string option \<Rightarrow> VideoType option \<Rightarrow> 'sl \<Rightarrow> bool \<times> 'sl)
   \<Rightarrow> JingleSessionPC option \<Rightarrow> nat option \<Rightarrow> JitsiConference \<times> 'sl \<Rightarrow> JitsiConference \<times> 'sl" where
  "updateRoomPresence setTrackMuteStatus setTrackVideoType jingleSession ctx c =
     (case jingleSession of
        None \<Rightarrow> c
      | Some js \<Rightarrow>
          if (case ctx of None \<Rightarrow> False | Some k \<Rightarrow> ctxSkip (fst c) k) then c
          else
            let s1 = (case ctx of
                        None \<Rightarrow> fst c
                      | Some k \<Rightarrow> (fst c)\<lparr>ctxSkip := (ctxSkip (fst c))(k := True)\<rparr>);
                (presenceChanged, videoTypeChanged, sl') =
                   updateTracksPresence setTrackMuteStatus setTrackVideoType (pc_localTracks js)
                     (False, False, snd c)
            in if presenceChanged
               then (case room s1 of
                       None \<Rightarrow> (perform (Thrown ''TypeError: this.room is null'') s1, sl')
                     | Some r \<Rightarrow> (perform SendPresence s1, sl'))
               else (s1, sl'))"

text \<open>\<open>onLocalTrackRemoved\<close>: the track leaves the local tracks of the RTC module.\<close>

fun removeLocalTrack :: "JitsiLocalTrack \<Rightarrow> JitsiLocalTrack list \<Rightarrow> JitsiLocalTrack list" where
  "removeLocalTrack t [] = []"
| "removeLocalTrack t (x # xs) = (if t_ref x = t_ref t then xs else x # removeLocalTrack t xs)"

definition onLocalTrackRemoved :: "JitsiLocalTrack \<Rightarrow> JitsiConference \<Rightarrow> JitsiConference" where
  "onLocalTrackRemoved track s =
     perform (Emit (LOCAL_TRACK_REMOVED track))
       (s\<lparr>rtc_localTracks := removeLocalTrack track (rtc_localTracks s)\<rparr>)"

text \<open>
  \<open>leave(reason)\<close> up to its first \<open>await\<close>. The breakout-room bookkeeping and the removal
  of listeners do not touch the modelled state and are opaque calls.
\<close>

definition leave :: "JitsiConference \<Rightarrow> JitsiConference" where
  "leave s =
     (let s1 = (if avgRtpStatsReporter s
                then perform (OtherCall ''avgRtpStatsReporter.dispose'') (s\<lparr>avgRtpStatsReporter := False\<rparr>)
                else s);
          s2 = (if e2eping s1
                then perform (OtherCall ''e2eping.stop'') (s1\<lparr>e2eping := False\<rparr>) else s1);
          s3 = fold onLocalTrackRemoved (getLocalTracks None s2) s2;
          s4 = perform (OtherCall ''rtc.closeBridgeChannel'') s3;
          s5 = perform SendConferenceLeftAnalyticsEvent s4;
          s6 = (if statistics s5 then perform (OtherCall ''statistics.dispose'') s5 else s5);
          s7 = (case delayedIceFailed s6 of
                  None \<Rightarrow> s6
                | Some h \<Rightarrow> perform (IceFailedHandlingCancel h) s6);
          s8 = maybeClearSITimeout s7;
          s9 = (case jvbJingleSession s8 of
                  None \<Rightarrow> s8
                | Some j \<Rightarrow> (perform (SessionClose (sid j)) s8)\<lparr>jvbJingleSession := None\<rparr>);
          s10 = (case p2pJingleSession s9 of
                   None \<Rightarrow> s9
                 | Some p \<Rightarrow> (perform (SessionClose (sid p)) s9)\<lparr>p2pJingleSession := None\<rparr>)
      in case room s10 of
           None \<Rightarrow> s10
         | Some r \<Rightarrow>
             perform (OtherCall ''room.leave'')
               ((perform (OtherCall ''removeListeners'') s10)\<lparr>room := None\<rparr>))"

text \<open>
  \<open>addTrack(track)\<close>: a thrown error is \<open>Inl\<close>; the returned promise is resolved, rejected,
  or settled by a later task. \<open>getSourceNameForJitsiTrack\<close> is not among the sources; the
  call \<open>track.setSourceName\<close> is recorded with the media type and the index it is given.
\<close>

definition mediaTypeName :: "MediaType \<Rightarrow> string" where
  "mediaTypeName m = (case m of AUDIO \<Rightarrow> ''audio'' | VIDEO \<Rightarrow> ''video'')"

definition addTrack :: "JitsiLocalTrack option \<Rightarrow> JitsiConference \<Rightarrow> (string + promise) \<times> JitsiConference" where
  "addTrack trackArg s =
     (case trackArg of
        None \<Rightarrow> (Inl ''addTrack - a track is required'', s)
      | Some track \<Rightarrow>
          let mediaType = t_type track;
              localTracks = getLocalTracks (Some mediaType) s
          in
          (case localTracks of
             [] \<Rightarrow> (Inr Pending, perform (ReplaceTrack track) s)
           | first # _ \<Rightarrow>
               if t_ref track = t_ref first then (Inr (Resolved track), s)
               else if testing_allowMultipleTracks s
                       \<or> (mediaType = VIDEO
                           \<and> find (\<lambda>t. t_videoType t = t_videoType track) localTracks = None)
               then
                 let s1 = perform (SetSourceName track mediaType
                                     (length (getLocalTracks (Some mediaType) s))) s;
                     s2 = (case p2pJingleSession s1 of
                             None \<Rightarrow> s1
                           | Some p \<Rightarrow> perform (SessionAddTracks (sid p) [track]) s1);
                     s3 = (case jvbJingleSession s2 of
                             None \<Rightarrow> s2
                           | Some j \<Rightarrow> perform (SessionAddTracks (sid j) [track]) s2)
                 in (Inr Pending, s3)
               else (Inr (Rejected (''Cannot add second '' @ mediaTypeName mediaType
                                      @ '' track to the conference'')), s)))"

section \<open>Closed forms of the track loops\<close>

text \<open>
  The loops over the remote tracks of a session change the participants and append events.
  Both results are given here as functions of the track list, for use in the proofs.
\<close>

definition spliceFrom :: "JitsiRemoteTrack \<Rightarrow> JitsiParticipant list \<Rightarrow> JitsiParticipant list" where
  "spliceFrom t ps = map (\<lambda>p. p\<lparr>p_tracks := spliceTrack t (p_tracks p)\<rparr>) ps"

fun removedParticipants :: "JitsiRemoteTrack list \<Rightarrow> JitsiParticipant list \<Rightarrow> JitsiParticipant list" where
  "removedParticipants [] ps = ps"
| "removedParticipants (t # ts) ps = removedParticipants ts (spliceFrom t ps)"

fun removedEvents :: "JitsiRemoteTrack list \<Rightarrow> JitsiParticipant list \<Rightarrow> effect list" where
  "removedEvents [] ps = []"
| "removedEvents (t # ts) ps =
     map (\<lambda>p. Emit (TRACK_REMOVED t)) (filter (holdsTrack t) ps) @ removedEvents ts (spliceFrom t ps)"

definition accepted :: "bool \<Rightarrow> JitsiRemoteTrack \<Rightarrow> JitsiParticipant list \<Rightarrow> bool" where
  "accepted active t ps = (find (\<lambda>p. p_id p = ownerEndpointId t) ps \<noteq> None \<and> r_isP2P t = active)"

fun addedParticipants :: "bool \<Rightarrow> JitsiRemoteTrack list \<Rightarrow> JitsiParticipant list \<Rightarrow> JitsiParticipant list" where
  "addedParticipants active [] ps = ps"
| "addedParticipants active (t # ts) ps =
     addedParticipants active ts (if accepted active t ps then pushTrack (ownerEndpointId t) t ps else ps)"

fun addedEvents :: "bool \<Rightarrow> JitsiRemoteTrack list \<Rightarrow> JitsiParticipant list \<Rightarrow> effect list" where
  "addedEvents active [] ps = []"
| "addedEvents active (t # ts) ps =
     (if accepted active t ps
      then Emit (TRACK_ADDED t) # addedEvents active ts (pushTrack (ownerEndpointId t) t ps)
      else addedEvents active ts ps)"

text \<open>What stopping an active P2P session performs between the two track loops.\<close>

definition stopEffects :: "string \<Rightarrow> string \<Rightarrow> JingleSessionPC \<Rightarrow> JitsiConference \<Rightarrow> effect list" where
  "stopEffects r d p s =
     [StopRemoteStats (sid p),
      SessionTerminate (sid p) (Some r) (Some d)
        (room s \<noteq> None \<and> getResourceFromJid (remoteJid p) \<in> Some ` p_id ` set (participants s)),
      Emit (P2P_STATUS False),
      Emit (MEDIA_SESSION_ACTIVE_CHANGED (map_option sid (jvbJingleSession s))),
      Emit (if isJvbConnectionInterrupted s then CONNECTION_INTERRUPTED else CONNECTION_RESTORED)]"

text \<open>Effects that restart ICE or create a timer.\<close>

definition restartsOrSchedules :: "effect \<Rightarrow> bool" where
  "restartsOrSchedules e =
     (case e of IceFailedHandlingStart _ _ \<Rightarrow> True | SetTimeoutCall _ _ _ \<Rightarrow> True | _ \<Rightarrow> False)"

text \<open>Effects that create a timer.\<close>

definition isSetTimeout :: "effect \<Rightarrow> bool" where
  "isSetTimeout e = (case e of SetTimeoutCall _ _ _ \<Rightarrow> True | _ \<Rightarrow> False)"

text \<open>
  The four phases of \<open>leave\<close>, in source order: disposing of reporters and local tracks,
  cancelling timers, closing the sessions, leaving the room.
\<close>

definition leaveMedia :: "JitsiConference \<Rightarrow> JitsiConference" where
  "leaveMedia s =
     (let s1 = (if avgRtpStatsReporter s
                then perform (OtherCall ''avgRtpStatsReporter.dispose'') (s\<lparr>avgRtpStatsReporter := False\<rparr>)
                else s);
          s2 = (if e2eping s1
                then perform (OtherCall ''e2eping.stop'') (s1\<lparr>e2eping := False\<rparr>) else s1);
          s3 = fold onLocalTrackRemoved (getLocalTracks None s2) s2;
          s4 = perform (OtherCall ''rtc.closeBridgeChannel'') s3;
          s5 = perform SendConferenceLeftAnalyticsEvent s4
      in if statistics s5 then perform (OtherCall ''statistics.dispose'') s5 else s5)"

definition leaveTimers :: "JitsiConference \<Rightarrow> JitsiConference" where
  "leaveTimers s6 =
     (let s7 = (case delayedIceFailed s6 of
                  None \<Rightarrow> s6
                | Some h \<Rightarrow> perform (IceFailedHandlingCancel h) s6)
      in maybeClearSITimeout s7)"

definition leaveSessions :: "JitsiConference \<Rightarrow> JitsiConference" where
  "leaveSessions s8 =
     (let s9 = (case jvbJingleSession s8 of
                  None \<Rightarrow> s8
                | Some j \<Rightarrow> (perform (SessionClose (sid j)) s8)\<lparr>jvbJingleSession := None\<rparr>)
      in (case p2pJingleSession s9 of
            None \<Rightarrow> s9
          | Some p \<Rightarrow> (perform (SessionClose (sid p)) s9)\<lparr>p2pJingleSession := None\<rparr>))"

definition leaveRoom :: "JitsiConference \<Rightarrow> JitsiConference" where
  "leaveRoom s10 =
     (case room s10 of
        None \<Rightarrow> s10
      | Some r \<Rightarrow>
          perform (OtherCall ''room.leave'')
            ((perform (OtherCall ''removeListeners'') s10)\<lparr>room := None\<rparr>))"

text \<open>What a setter of the signaling layer reports for a local track in layer state \<open>sl\<close>.\<close>

definition reportsChange ::
  "(string option \<Rightarrow> bool \<Rightarrow> 'sl \<Rightarrow> bool \<times> 'sl)
   \<Rightarrow> (string option \<Rightarrow> VideoType option \<Rightarrow> 'sl \<Rightarrow> bool \<times> 'sl)
   \<Rightarrow> JitsiLocalTrack \<Rightarrow> 'sl \<Rightarrow> bool" where
  "reportsChange setTrackMuteStatus setTrackVideoType t sl =
     (fst (setTrackMuteStatus (t_sourceName t) (t_muted t) sl)
      \<or> (t_type t = VIDEO \<and> fst (setTrackVideoType (t_sourceName t) (t_videoType t) sl)))"

text \<open>Both setters leave the layer as it is and report no change.\<close>

definition keepsLayer ::
  "(string option \<Rightarrow> bool \<Rightarrow> 'sl \<Rightarrow> bool \<times> 'sl)
   \<Rightarrow> (string option \<Rightarrow> VideoType option \<Rightarrow> 'sl \<Rightarrow> bool \<times> 'sl)
   \<Rightarrow> JitsiLocalTrack \<Rightarrow> 'sl \<Rightarrow> bool" where
  "keepsLayer setTrackMuteStatus setTrackVideoType t sl =
     (setTrackMuteStatus (t_sourceName t) (t_muted t) sl = (False, sl)
      \<and> (t_type t = VIDEO \<longrightarrow> setTrackVideoType (t_sourceName t) (t_videoType t) sl = (False, sl)))"

definition presenceCount :: "effect list \<Rightarrow> nat" where
  "presenceCount es = length (filter (\<lambda>e. e = SendPresence) es)"

text \<open>The conference-fatal signal.\<close>

definition isConferenceFailed :: "effect \<Rightarrow> bool" where
  "isConferenceFailed e = (case e of Emit (CONFERENCE_FAILED _) \<Rightarrow> True | _ \<Rightarrow> False)"

text \<open>
  The second test of \<open>_onIncomingCallP2P\<close>, which it reports as "P2P mode disabled in the
  configuration or browser unsupported".
\<close>

definition p2pDisabledForOffer :: "JitsiConference \<Rightarrow> bool" where
  "p2pDisabledForOffer s =
     ((\<not> isP2PEnabled s \<and> \<not> isP2PTestModeEnabled s)
      \<or> (browser_isFirefox s \<and> \<not> firefoxP2pEnabled s))"

definition usesUnifiedPlan :: "string option \<Rightarrow> bool" where
  "usesUnifiedPlan contentName = (contentName = Some ''0'' \<or> contentName = Some ''1'')"

text \<open>Effects that end a given session.\<close>

definition endsSession :: "nat \<Rightarrow> effect \<Rightarrow> bool" where
  "endsSession n e =
     (case e of SessionTerminate m _ _ _ \<Rightarrow> m = n | SessionClose m \<Rightarrow> m = n | _ \<Rightarrow> False)"

section \<open>Example conferences\<close>


definition peerB :: JitsiParticipant where
  "peerB = \<lparr>p_id = ''bbb2222'', p_jid = ''room@muc/bbb2222'', p_botType = None,
            p_hasFeatureJigasi = False, p_hidden = False, p_tracks = []\<rparr>"

definition conf0 :: JitsiConference where
  "conf0 = \<lparr>room = Some \<lparr>myroomjid = ''room@muc/aaa1111'', members = (\<lambda>j. None)\<rparr>,
            config = \<lparr>cfg_p2p = None, cfg_testing = None\<rparr>,
            browser_isFirefox = False, firefoxP2pEnabled = True, e2eeEnabled = False,
            participants = [peerB], hasVisitors = False, transcribingEnabled = False,
            p2p = False, p2pJingleSession = None, jvbJingleSession = None,
            isP2PConnectionInterrupted = False, isJvbConnectionInterrupted = False,
            deferredStartP2PTask = None, backToP2PDelay = 5, iceRestarts = 0,
            delayedIceFailed = None, sessionInitiateTimeout = None, lastN = -1,
            dtmfManager = None, rtc_localTracks = [], p2pEstablishmentDuration = None,
            jvbEstablishmentDuration = None, wasStopped = False, avgRtpStatsReporter = False,
            e2eping = False, statistics = True, ctxSkip = (\<lambda>c. False), timers = [],
            nextHandle = 1, nextRef = 100, effects = []\<rparr>"

definition peerA :: JitsiParticipant where
  "peerA = \<lparr>p_id = ''aaa1111'', p_jid = ''room@muc/aaa1111'', p_botType = None,
            p_hasFeatureJigasi = False, p_hidden = False, p_tracks = []\<rparr>"

text \<open>The same conference as seen by the peer.\<close>

definition confB :: JitsiConference where
  "confB = conf0\<lparr>room := Some \<lparr>myroomjid = ''room@muc/bbb2222'', members = (\<lambda>j. None)\<rparr>,
                 participants := [peerA]\<rparr>"

text \<open>A third participant has left a moment ago: the deferred start of P2P is pending.\<close>

definition confDeferred :: JitsiConference where
  "confDeferred = conf0\<lparr>deferredStartP2PTask := Some 1,
                        timers := [(1, StartP2PSessionTask ''room@muc/bbb2222'', 5000)],
                        nextHandle := 2\<rparr>"

text \<open>A bridge session and a P2P session, each with one remote track of the peer.\<close>

definition trackJ :: JitsiRemoteTrack where
  "trackJ = \<lparr>r_ref = 11, r_isP2P = False, ownerEndpointId = ''bbb2222''\<rparr>"

definition trackP :: JitsiRemoteTrack where
  "trackP = \<lparr>r_ref = 12, r_isP2P = True, ownerEndpointId = ''bbb2222''\<rparr>"

definition sessJ :: JingleSessionPC where
  "sessJ = \<lparr>sid = 7, isP2P = False, isInitiator = False, remoteJid = ''room@muc/focus'',
            establishmentDuration = None, pc_remoteTracks = [trackJ], pc_localTracks = []\<rparr>"

definition sessP :: JingleSessionPC where
  "sessP = \<lparr>sid = 8, isP2P = True, isInitiator = True, remoteJid = ''room@muc/bbb2222'',
            establishmentDuration = None, pc_remoteTracks = [trackP], pc_localTracks = []\<rparr>"

text \<open>P2P is the active path; the bridge session is kept with its media suspended.\<close>

definition confP2P :: JitsiConference where
  "confP2P = conf0\<lparr>participants := [peerB\<lparr>p_tracks := [trackP]\<rparr>], p2p := True,
                   p2pJingleSession := Some sessP, jvbJingleSession := Some sessJ\<rparr>"

text \<open>The bridge is the active path; the P2P session has been started but ICE is not yet connected.\<close>

definition confPending :: JitsiConference where
  "confPending = conf0\<lparr>participants := [peerB\<lparr>p_tracks := [trackJ]\<rparr>],
                       p2pJingleSession := Some sessP, jvbJingleSession := Some sessJ\<rparr>"

text \<open>A third participant has joined the two peers of an active P2P conference.\<close>

definition peerC :: JitsiParticipant where
  "peerC = \<lparr>p_id = ''ccc3333'', p_jid = ''room@muc/ccc3333'', p_botType = None,
            p_hasFeatureJigasi = False, p_hidden = False, p_tracks = []\<rparr>"

definition confThird :: JitsiConference where
  "confThird = confP2P\<lparr>participants := [peerB\<lparr>p_tracks := [trackP]\<rparr>, peerC]\<rparr>"

text \<open>The deferred start is pending when a third participant joins again.\<close>

definition confDeferredThird :: JitsiConference where
  "confDeferredThird = confDeferred\<lparr>participants := [peerB, peerC]\<rparr>"

text \<open>Only the bridge session exists.\<close>

definition confJvb :: JitsiConference where
  "confJvb = conf0\<lparr>participants := [peerB, peerC], jvbJingleSession := Some sessJ\<rparr>"

text \<open>A session-initiate from the peer, and one that claims to come from a bridge.\<close>

definition offerP :: JingleSessionPC where
  "offerP = \<lparr>sid = 20, isP2P = True, isInitiator = False, remoteJid = ''room@muc/bbb2222'',
             establishmentDuration = None, pc_remoteTracks = [], pc_localTracks = []\<rparr>"

definition offerJ :: JingleSessionPC where
  "offerJ = \<lparr>sid = 21, isP2P = False, isInitiator = False, remoteJid = ''room@muc/bbb2222'',
             establishmentDuration = None, pc_remoteTracks = [], pc_localTracks = []\<rparr>"

text \<open>
  A signaling layer for the examples: it keeps the advertised mute status and video type of
  each source name and reports a change when the value it is given differs.
\<close>

type_synonym layer = "(string option \<Rightarrow> bool option) \<times> (string option \<Rightarrow> VideoType option option)"

definition layerSetTrackMuteStatus :: "string option \<Rightarrow> bool \<Rightarrow> layer \<Rightarrow> bool \<times> layer" where
  "layerSetTrackMuteStatus src m sl = (fst sl src \<noteq> Some m, ((fst sl)(src := Some m), snd sl))"

definition layerSetTrackVideoType :: "string option \<Rightarrow> VideoType option \<Rightarrow> layer \<Rightarrow> bool \<times> layer" where
  "layerSetTrackVideoType src v sl = (snd sl src \<noteq> Some v, (fst sl, (snd sl)(src := Some v)))"

definition layer0 :: layer where
  "layer0 = ((\<lambda>src. None), (\<lambda>src. None))"

definition micTrack :: JitsiLocalTrack where
  "micTrack = \<lparr>t_ref = 31, t_type = AUDIO, t_videoType = None,
               t_sourceName = Some ''aaa1111-a0'', t_muted = False\<rparr>"

definition camTrack :: JitsiLocalTrack where
  "camTrack = \<lparr>t_ref = 32, t_type = VIDEO, t_videoType = Some CAMERA,
               t_sourceName = Some ''aaa1111-v0'', t_muted = False\<rparr>"

definition deskTrack :: JitsiLocalTrack where
  "deskTrack = \<lparr>t_ref = 33, t_type = VIDEO, t_videoType = Some DESKTOP,
                t_sourceName = Some ''aaa1111-v1'', t_muted = False\<rparr>"

definition sessLocal :: JingleSessionPC where
  "sessLocal = sessJ\<lparr>pc_localTracks := [micTrack, camTrack]\<rparr>"

text \<open>One peer is present and the bridge has not invited yet: the session-initiate timeout is armed.\<close>

definition confWaiting :: JitsiConference where
  "confWaiting = conf0\<lparr>sessionInitiateTimeout := Some 1,
                       timers := [(1, SessionInitiateTimeoutTask, 5000)], nextHandle := 2\<rparr>"

text \<open>The bridge session has failed once: a restart is scheduled and its handler is stored.\<close>

definition confRestarting :: JitsiConference where
  "confRestarting = confJvb\<lparr>delayedIceFailed := Some 100, nextRef := 101,
                            timers := [(1, IceRestartTask sessJ 1500, 1500)], nextHandle := 2,
                            p2pJingleSession := Some sessP\<rparr>"

text \<open>The test configuration forces this endpoint to be the initiator.\<close>

definition confForced :: JitsiConference where
  "confForced = conf0\<lparr>config := \<lparr>cfg_p2p = None,
                   cfg_testing = Some \<lparr>p2pTestMode = False, forceInitiator = True,
                                       forceResponder = False, allowMultipleTracks = False\<rparr>\<rparr>\<rparr>"

text \<open>P2P is disabled in the configuration; in the second conference the P2P test mode is on.\<close>

definition confDisabled :: JitsiConference where
  "confDisabled = conf0\<lparr>config := \<lparr>cfg_p2p = Some \<lparr>p2p_enabled = False, p2p_backToP2PDelay = None\<rparr>,
                                      cfg_testing = None\<rparr>\<rparr>"

definition confTestMode :: JitsiConference where
  "confTestMode = conf0\<lparr>config := \<lparr>cfg_p2p = Some \<lparr>p2p_enabled = False, p2p_backToP2PDelay = None\<rparr>,
                   cfg_testing = Some \<lparr>p2pTestMode = True, forceInitiator = False,
                                       forceResponder = False, allowMultipleTracks = False\<rparr>\<rparr>\<rparr>"

text \<open>Camera and desktop tracks have both been added to the conference.\<close>

definition confTwoVideo :: JitsiConference where
  "confTwoVideo = confJvb\<lparr>rtc_localTracks := [micTrack, camTrack, deskTrack]\<rparr>"

section \<open>Verified properties\<close>

subsection \<open>Track loops\<close>

lemma removeRemoteTracks_eq:
  "removeRemoteTracks ts s =
     s\<lparr>participants := removedParticipants ts (participants s),
       effects := effects s @ removedEvents ts (participants s)\<rparr>"
proof (induction ts arbitrary: s)
  case Nil
  then show ?case by (simp add: removeRemoteTracks_def)
next
  case (Cons t ts)
  have "removeRemoteTracks (t # ts) s = removeRemoteTracks ts (onRemoteTrackRemoved t s)"
    by (simp add: removeRemoteTracks_def)
  then show ?case
    by (simp add: Cons.IH onRemoteTrackRemoved_def spliceFrom_def)
qed

lemma find_p_id_pushTrack:
  "(find (\<lambda>p. p_id p = k) (pushTrack i t ps) = None) = (find (\<lambda>p. p_id p = k) ps = None)"
  by (induction ps) auto

lemma addRemoteTracks_eq:
  "addRemoteTracks ts s =
     s\<lparr>participants := addedParticipants (p2p s) ts (participants s),
       effects := effects s @ addedEvents (p2p s) ts (participants s)\<rparr>"
proof (induction ts arbitrary: s)
  case Nil
  then show ?case by (simp add: addRemoteTracks_def)
next
  case (Cons t ts)
  let ?step = "if getParticipantById (Some (ownerEndpointId t)) s \<noteq> None
               then onRemoteTrackAdded t s else s"
  have unfold: "addRemoteTracks (t # ts) s = addRemoteTracks ts ?step"
    by (simp add: addRemoteTracks_def)
  show ?case
  proof (cases "accepted (p2p s) t (participants s)")
    case True
    then have "?step = s\<lparr>participants := pushTrack (ownerEndpointId t) t (participants s),
                           effects := effects s @ [Emit (TRACK_ADDED t)]\<rparr>"
      by (auto simp: accepted_def getParticipantById_def onRemoteTrackAdded_def isP2PActive_def perform_def)
    with True show ?thesis unfolding unfold by (simp add: Cons.IH)
  next
    case False
    then have "?step = s"
      by (auto simp: accepted_def getParticipantById_def onRemoteTrackAdded_def isP2PActive_def)
    with False show ?thesis unfolding unfold by (simp add: Cons.IH)
  qed
qed

lemma removedEvents_only:
  "e \<in> set (removedEvents ts ps) \<Longrightarrow> \<exists>t \<in> set ts. e = Emit (TRACK_REMOVED t)"
  by (induction ts arbitrary: ps) auto

lemma addedEvents_only:
  "e \<in> set (addedEvents a ts ps) \<Longrightarrow> \<exists>t \<in> set ts. e = Emit (TRACK_ADDED t)"
  by (induction ts arbitrary: ps) (auto split: if_splits)

lemma p_id_pushTrack: "map p_id (pushTrack i t ps) = map p_id ps"
  by (induction ps) auto

lemma p_id_spliceFrom: "map p_id (spliceFrom t ps) = map p_id ps"
  by (simp add: spliceFrom_def comp_def)

lemma p_id_removedParticipants: "map p_id (removedParticipants ts ps) = map p_id ps"
  by (induction ts arbitrary: ps) (auto simp: p_id_spliceFrom)

lemma find_p_id_iff: "(find (\<lambda>p. p_id p = k) ps = None) = (k \<notin> p_id ` set ps)"
  by (induction ps) auto

lemma addedEvents_complete:
  "t \<in> set ts \<Longrightarrow> r_isP2P t = a \<Longrightarrow> ownerEndpointId t \<in> set (map p_id ps)
     \<Longrightarrow> Emit (TRACK_ADDED t) \<in> set (addedEvents a ts ps)"
proof (induction ts arbitrary: ps)
  case Nil
  then show ?case by simp
next
  case (Cons x xs)
  show ?case
  proof (cases "t = x")
    case True
    with Cons.prems show ?thesis by (simp add: accepted_def find_p_id_iff)
  next
    case False
    with Cons.prems have "t \<in> set xs" by simp
    moreover have "ownerEndpointId t \<in> set (map p_id (pushTrack (ownerEndpointId x) x ps))"
      using Cons.prems(3) by (simp only: p_id_pushTrack)
    ultimately show ?thesis using Cons.IH Cons.prems(2,3) by simp
  qed
qed

lemma holdsTrack_splice_other:
  "r_ref x \<noteq> r_ref t \<Longrightarrow> holdsTrack t (p\<lparr>p_tracks := spliceTrack x (p_tracks p)\<rparr>) = holdsTrack t p"
proof -
  assume ne: "r_ref x \<noteq> r_ref t"
  have "list_ex (\<lambda>y. r_ref y = r_ref t) (spliceTrack x ys) = list_ex (\<lambda>y. r_ref y = r_ref t) ys" for ys
    using ne by (induction ys) auto
  then show ?thesis by (simp add: holdsTrack_def)
qed

lemma removedEvents_complete:
  "distinct (map r_ref ts) \<Longrightarrow> t \<in> set ts \<Longrightarrow> \<exists>q \<in> set ps. holdsTrack t q
     \<Longrightarrow> Emit (TRACK_REMOVED t) \<in> set (removedEvents ts ps)"
proof (induction ts arbitrary: ps)
  case Nil
  then show ?case by simp
next
  case (Cons x xs)
  show ?case
  proof (cases "t = x")
    case True
    with Cons.prems(3) show ?thesis by auto
  next
    case False
    with Cons.prems have t: "t \<in> set xs" and ne: "r_ref x \<noteq> r_ref t" by auto
    from Cons.prems(3) obtain q where q: "q \<in> set ps" "holdsTrack t q" by blast
    then have "\<exists>q' \<in> set (spliceFrom x ps). holdsTrack t q'"
      using holdsTrack_splice_other [OF ne] by (auto simp: spliceFrom_def)
    then have "Emit (TRACK_REMOVED t) \<in> set (removedEvents xs (spliceFrom x ps))"
      using Cons.IH t Cons.prems(1) by simp
    then show ?thesis by simp
  qed
qed

lemma removedParticipants_map:
  "removedParticipants ts ps = map (\<lambda>q. q\<lparr>p_tracks := fold spliceTrack ts (p_tracks q)\<rparr>) ps"
  by (induction ts arbitrary: ps) (simp_all add: spliceFrom_def comp_def)

lemma find_map_tracks:
  "find (\<lambda>p. p_id p = i) (map (\<lambda>q. q\<lparr>p_tracks := f (p_tracks q)\<rparr>) ps)
     = map_option (\<lambda>q. q\<lparr>p_tracks := f (p_tracks q)\<rparr>) (find (\<lambda>p. p_id p = i) ps)"
  by (induction ps) simp_all

lemma find_pushTrack:
  "find (\<lambda>p. p_id p = i) (pushTrack k t ps)
     = (if k = i then map_option (\<lambda>q. q\<lparr>p_tracks := p_tracks q @ [t]\<rparr>) (find (\<lambda>p. p_id p = i) ps)
        else find (\<lambda>p. p_id p = i) ps)"
  by (induction ps) auto

lemma find_addedParticipants:
  "find (\<lambda>p. p_id p = i) (addedParticipants a ts ps)
     = map_option (\<lambda>q. q\<lparr>p_tracks := p_tracks q @ [t \<leftarrow> ts. r_isP2P t = a \<and> ownerEndpointId t = i]\<rparr>)
         (find (\<lambda>p. p_id p = i) ps)"
proof (induction ts arbitrary: ps)
  case Nil
  then show ?case by (simp add: option.map_ident)
next
  case (Cons t ts)
  show ?case
  proof (cases "accepted a t ps")
    case True
    then show ?thesis
      by (cases "find (\<lambda>p. p_id p = i) ps")
         (auto simp: Cons.IH find_pushTrack accepted_def option.map_comp comp_def)
  next
    case False
    then show ?thesis
      by (cases "find (\<lambda>p. p_id p = i) ps") (auto simp: Cons.IH accepted_def)
  qed
qed

lemma spliceTrack_refs: "map r_ref (spliceTrack t xs) = remove1 (r_ref t) (map r_ref xs)"
  by (induction xs) auto

lemma spliceTrack_subset: "set (spliceTrack t xs) \<subseteq> set xs"
  by (induction xs) auto

lemma fold_spliceTrack_refs:
  "map r_ref (fold spliceTrack ts xs) = fold remove1 (map r_ref ts) (map r_ref xs)"
  by (induction ts arbitrary: xs) (simp_all add: spliceTrack_refs)

lemma fold_spliceTrack_subset: "set (fold spliceTrack ts xs) \<subseteq> set xs"
proof (induction ts arbitrary: xs)
  case Nil
  then show ?case by simp
next
  case (Cons t ts)
  have "set (fold spliceTrack ts (spliceTrack t xs)) \<subseteq> set (spliceTrack t xs)" by (rule Cons.IH)
  then show ?case using spliceTrack_subset [of t xs] by auto
qed

lemma fold_remove1_distinct: "distinct ys \<Longrightarrow> set (fold remove1 rs ys) = set ys - set rs"
  by (induction rs arbitrary: ys) (auto simp: distinct_remove1 set_remove1_eq)

text \<open>
  The tracks of the participant with a given id after a removing loop followed by an adding
  loop.
\<close>

lemma tracks_after_loops:
  assumes "find (\<lambda>p. p_id p = i) ps = Some q"
  shows "\<exists>K. find (\<lambda>p. p_id p = i) (addedParticipants a ts (removedParticipants rs ps))
               = Some (q\<lparr>p_tracks := K @ [t \<leftarrow> ts. r_isP2P t = a \<and> ownerEndpointId t = i]\<rparr>)
            \<and> set K \<subseteq> set (p_tracks q)
            \<and> map r_ref K = fold remove1 (map r_ref rs) (map r_ref (p_tracks q))"
  using assms
  by (intro exI [of _ "fold spliceTrack rs (p_tracks q)"])
     (simp add: find_addedParticipants removedParticipants_map find_map_tracks
        fold_spliceTrack_refs fold_spliceTrack_subset)


subsection \<open>Stopping the P2P session\<close>

lemma newEffects_append: "effects s' = effects s @ es \<Longrightarrow> newEffects s s' = es"
  by (simp add: newEffects_def)

lemma p_id_set_removed: "p_id ` set (removedParticipants ts ps) = p_id ` set ps"
proof -
  have "set (map p_id (removedParticipants ts ps)) = set (map p_id ps)"
    by (simp only: p_id_removedParticipants)
  then show ?thesis by simp
qed

lemma getParticipantById_None_iff:
  "(getParticipantById i s = None) = (i \<notin> Some ` p_id ` set (participants s))"
  by (cases i) (auto simp: getParticipantById_def find_p_id_iff)

lemma getParticipantById_iff:
  "(\<exists>y. getParticipantById i s = Some y) = (i \<in> Some ` p_id ` set (participants s))"
  using getParticipantById_None_iff [of i s] by auto

lemma setP2PStatus_False_active:
  "p2p s \<Longrightarrow> setP2PStatus False s =
      s\<lparr>p2p := False, dtmfManager := None,
        effects := effects s @
          [Emit (P2P_STATUS False),
           Emit (MEDIA_SESSION_ACTIVE_CHANGED (map_option sid (jvbJingleSession s))),
           Emit (if isJvbConnectionInterrupted s then CONNECTION_INTERRUPTED else CONNECTION_RESTORED)]\<rparr>"
  by (simp add: setP2PStatus_def Let_def perform_def getActiveMediaSession_def isP2PActive_def
        isConnectionInterrupted_def)

lemma setP2PStatus_False_inactive: "\<not> p2p s \<Longrightarrow> setP2PStatus False s = s"
  by (simp add: setP2PStatus_def)

text \<open>Stopping a session that never became the active one.\<close>

lemma stopP2PSession_inactive:
  assumes "p2pJingleSession s = Some p" "\<not> p2p s"
  shows "stopP2PSession r d rr s =
           s\<lparr>p2pJingleSession := None,
             effects := effects s @
               [StopRemoteStats (sid p),
                SessionTerminate (sid p) (Some r) (Some d)
                  (room s \<noteq> None \<and> getResourceFromJid (remoteJid p) \<in> Some ` p_id ` set (participants s))]\<rparr>"
  using assms
  by (simp add: stopP2PSession_def Let_def isP2PActive_def perform_def setP2PStatus_False_inactive
        getParticipantById_iff)


text \<open>Stopping the active P2P session while no bridge session exists.\<close>

lemma stopP2PSession_active_nojvb:
  assumes "p2pJingleSession s = Some p" "p2p s" "jvbJingleSession s = None"
  shows "stopP2PSession r d rr s =
           s\<lparr>participants := removedParticipants (pc_remoteTracks p) (participants s),
             p2pJingleSession := None, p2p := False, dtmfManager := None,
             effects := effects s @ removedEvents (pc_remoteTracks p) (participants s)
                        @ stopEffects r d p s\<rparr>"
  using assms
  by (simp add: stopP2PSession_def stopEffects_def Let_def isP2PActive_def perform_def
        setP2PStatus_False_active removeRemoteP2PTracks_def removeRemoteTracks_eq
        getParticipantById_iff p_id_set_removed)

text \<open>Stopping the active P2P session with a bridge session to fall back to.\<close>

lemma stopP2PSession_active_jvb:
  assumes "p2pJingleSession s = Some p" "p2p s" "jvbJingleSession s = Some j"
  shows "stopP2PSession r d False s =
           s\<lparr>participants := addedParticipants False (pc_remoteTracks j)
                              (removedParticipants (pc_remoteTracks p) (participants s)),
             p2pJingleSession := None, p2p := False, dtmfManager := None,
             effects := effects s @ [SessionSetMediaTransferActive (sid j) True]
                        @ removedEvents (pc_remoteTracks p) (participants s)
                        @ stopEffects r d p s
                        @ addedEvents False (pc_remoteTracks j)
                            (removedParticipants (pc_remoteTracks p) (participants s))\<rparr>"
  using assms
  by (simp add: stopP2PSession_def stopEffects_def Let_def isP2PActive_def perform_def
        setP2PStatus_False_active removeRemoteP2PTracks_def removeRemoteTracks_eq
        addRemoteJVBTracks_def addRemoteTracks_eq resumeMediaTransferForJvbConnection_def
        getParticipantById_iff p_id_set_removed)

subsection \<open>ICE failure of the P2P session\<close>

lemma onIceConnectionFailed_p2p:
  assumes "isP2P session" "p2pJingleSession s = Some p"
  shows "onIceConnectionFailed m jitter session s =
           stopP2PSession ''connectivity-error'' ''ICE FAILED'' False
             (s\<lparr>effects := effects s @ [Analytics ''p2pFailed: true'', Analytics ''p2p.failed'']\<rparr>)"
  using assms by (simp add: onIceConnectionFailed_def Let_def perform_def)

lemma not_restarts_removed: "e \<in> set (removedEvents ts ps) \<Longrightarrow> \<not> restartsOrSchedules e"
  by (auto dest: removedEvents_only simp: restartsOrSchedules_def)

lemma not_restarts_added: "e \<in> set (addedEvents a ts ps) \<Longrightarrow> \<not> restartsOrSchedules e"
  by (auto dest: addedEvents_only simp: restartsOrSchedules_def)

lemma not_restarts_stop: "e \<in> set (stopEffects r d p s) \<Longrightarrow> \<not> restartsOrSchedules e"
  by (auto simp: stopEffects_def restartsOrSchedules_def)

lemma terminate_in_stop:
  "\<exists>send. SessionTerminate (sid p) (Some r) (Some d) send \<in> set (stopEffects r d p s)"
  by (auto simp: stopEffects_def)

text \<open>
  C3. An ICE failure reported for a P2P session, while a P2P session is stored, never
  restarts ICE: the pass creates no timer and starts no ICE-failed handling, and the restart
  counter and the pending timers are unchanged. In the same pass the stored P2P session is
  terminated with reason \<open>connectivity-error\<close>, the reference is cleared and the conference
  is no longer in P2P mode. If P2P was the active path and a bridge session exists, the bridge
  session stays stored and its media transfer is resumed. Each remote track of the bridge
  session that belongs to a present participant is attached again: \<open>TRACK_ADDED\<close> is
  emitted for it and the participant \<open>getParticipantById\<close> returns for its owner holds it.
  Precisely, the participant found for an id afterwards is the one found before, with these
  tracks: those it held, less one occurrence (by identity) for each remote track of the P2P
  session, followed by the bridge tracks it owns in the order of the session.
\<close>

theorem C3_p2p_ice_failure:
  assumes "isP2P session" and "p2pJingleSession s = Some p"
  shows "p2pJingleSession (onIceConnectionFailed m jitter session s) = None
       \<and> \<not> isP2PActive (onIceConnectionFailed m jitter session s)
       \<and> (\<exists>send. SessionTerminate (sid p) (Some ''connectivity-error'') (Some ''ICE FAILED'') send
               \<in> set (newEffects s (onIceConnectionFailed m jitter session s)))
       \<and> (\<forall>e \<in> set (newEffects s (onIceConnectionFailed m jitter session s)). \<not> restartsOrSchedules e)
       \<and> iceRestarts (onIceConnectionFailed m jitter session s) = iceRestarts s
       \<and> timers (onIceConnectionFailed m jitter session s) = timers s
       \<and> (isP2PActive s \<longrightarrow>
            (\<forall>j. jvbJingleSession s = Some j \<longrightarrow>
               jvbJingleSession (onIceConnectionFailed m jitter session s) = Some j
               \<and> SessionSetMediaTransferActive (sid j) True
                    \<in> set (newEffects s (onIceConnectionFailed m jitter session s))
               \<and> (\<forall>t \<in> set (pc_remoteTracks j).
                     \<not> r_isP2P t \<and> ownerEndpointId t \<in> p_id ` set (participants s)
                     \<longrightarrow> Emit (TRACK_ADDED t)
                           \<in> set (newEffects s (onIceConnectionFailed m jitter session s))
                         \<and> (\<exists>q'. getParticipantById (Some (ownerEndpointId t))
                                    (onIceConnectionFailed m jitter session s) = Some q'
                                 \<and> t \<in> set (p_tracks q')))
               \<and> (\<forall>i q. getParticipantById (Some i) s = Some q \<longrightarrow>
                     (\<exists>K. getParticipantById (Some i) (onIceConnectionFailed m jitter session s)
                            = Some (q\<lparr>p_tracks :=
                                       K @ [t \<leftarrow> pc_remoteTracks j. \<not> r_isP2P t \<and> ownerEndpointId t = i]\<rparr>)
                         \<and> set K \<subseteq> set (p_tracks q)
                         \<and> map r_ref K = fold remove1 (map r_ref (pc_remoteTracks p))
                                           (map r_ref (p_tracks q))))))"
proof -
  let ?s0 = "s\<lparr>effects := effects s @ [Analytics ''p2pFailed: true'', Analytics ''p2p.failed'']\<rparr>"
  let ?s' = "onIceConnectionFailed m jitter session s"
  have eq: "?s' = stopP2PSession ''connectivity-error'' ''ICE FAILED'' False ?s0"
    by (rule onIceConnectionFailed_p2p [OF assms])
  have p0: "p2pJingleSession ?s0 = Some p" using assms(2) by simp
  show ?thesis
  proof (cases "p2p s")
    case False
    then have "\<not> p2p ?s0" by simp
    note st = stopP2PSession_inactive [OF p0 this, of "''connectivity-error''" "''ICE FAILED''" False]
    have ne: "newEffects s ?s' = [Analytics ''p2pFailed: true'', Analytics ''p2p.failed'',
                StopRemoteStats (sid p),
                SessionTerminate (sid p) (Some ''connectivity-error'') (Some ''ICE FAILED'')
                  (room s \<noteq> None \<and> getResourceFromJid (remoteJid p) \<in> Some ` p_id ` set (participants s))]"
      unfolding eq st by (simp add: newEffects_def)
    show ?thesis
      unfolding ne using False unfolding eq st
      by (simp add: isP2PActive_def restartsOrSchedules_def)
  next
    case True
    then have a0: "p2p ?s0" by simp
    show ?thesis
    proof (cases "jvbJingleSession s")
      case None
      then have "jvbJingleSession ?s0 = None" by simp
      note st = stopP2PSession_active_nojvb [OF p0 a0 this, of "''connectivity-error''" "''ICE FAILED''" False]
      have ne: "newEffects s ?s' = [Analytics ''p2pFailed: true'', Analytics ''p2p.failed'']
                  @ removedEvents (pc_remoteTracks p) (participants s)
                  @ stopEffects ''connectivity-error'' ''ICE FAILED'' p ?s0"
        unfolding eq st by (simp add: newEffects_def)
      have "\<forall>e \<in> set (newEffects s ?s'). \<not> restartsOrSchedules e"
        unfolding ne using not_restarts_removed not_restarts_stop
        by (auto simp: restartsOrSchedules_def)
      moreover have "\<exists>send. SessionTerminate (sid p) (Some ''connectivity-error'') (Some ''ICE FAILED'') send
               \<in> set (newEffects s ?s')"
        unfolding ne using terminate_in_stop [of p "''connectivity-error''" "''ICE FAILED''" ?s0] by auto
      ultimately show ?thesis
        using None unfolding eq st by (simp add: isP2PActive_def)
    next
      case (Some j)
      then have "jvbJingleSession ?s0 = Some j" by simp
      note st = stopP2PSession_active_jvb [OF p0 a0 this, of "''connectivity-error''" "''ICE FAILED''"]
      let ?added = "addedEvents False (pc_remoteTracks j)
                      (removedParticipants (pc_remoteTracks p) (participants s))"
      have ne: "newEffects s ?s' = [Analytics ''p2pFailed: true'', Analytics ''p2p.failed'',
                   SessionSetMediaTransferActive (sid j) True]
                  @ removedEvents (pc_remoteTracks p) (participants s)
                  @ stopEffects ''connectivity-error'' ''ICE FAILED'' p ?s0
                  @ ?added"
        unfolding eq st by (simp add: newEffects_def)
      have fr: "p2pJingleSession ?s' = None" "\<not> isP2PActive ?s'" "iceRestarts ?s' = iceRestarts s"
          "timers ?s' = timers s" "jvbJingleSession ?s' = Some j"
        unfolding eq st using Some by (simp_all add: isP2PActive_def)
      have ps: "participants ?s' = addedParticipants False (pc_remoteTracks j)
                                     (removedParticipants (pc_remoteTracks p) (participants s))"
        unfolding eq st by simp
      have r: "\<forall>e \<in> set (newEffects s ?s'). \<not> restartsOrSchedules e"
        unfolding ne using not_restarts_removed not_restarts_stop not_restarts_added
        by (auto simp: restartsOrSchedules_def)
      have t: "\<exists>send. SessionTerminate (sid p) (Some ''connectivity-error'') (Some ''ICE FAILED'') send
               \<in> set (newEffects s ?s')"
        unfolding ne using terminate_in_stop [of p "''connectivity-error''" "''ICE FAILED''" ?s0] by auto
      have m: "SessionSetMediaTransferActive (sid j) True \<in> set (newEffects s ?s')"
        unfolding ne by simp
      have held: "\<exists>K. getParticipantById (Some i) ?s'
                            = Some (q\<lparr>p_tracks :=
                                       K @ [t \<leftarrow> pc_remoteTracks j. \<not> r_isP2P t \<and> ownerEndpointId t = i]\<rparr>)
                         \<and> set K \<subseteq> set (p_tracks q)
                         \<and> map r_ref K = fold remove1 (map r_ref (pc_remoteTracks p))
                                           (map r_ref (p_tracks q))"
        if "getParticipantById (Some i) s = Some q" for i q
        using tracks_after_loops [of i "participants s" q False "pc_remoteTracks j" "pc_remoteTracks p"] that
        by (simp add: getParticipantById_def ps)
      have a: "Emit (TRACK_ADDED t) \<in> set (newEffects s ?s')
               \<and> (\<exists>q'. getParticipantById (Some (ownerEndpointId t)) ?s' = Some q' \<and> t \<in> set (p_tracks q'))"
        if tj: "t \<in> set (pc_remoteTracks j)" and np: "\<not> r_isP2P t"
           and ow: "ownerEndpointId t \<in> p_id ` set (participants s)" for t
      proof -
        have "ownerEndpointId t \<in> set (map p_id (removedParticipants (pc_remoteTracks p) (participants s)))"
          using ow by (simp add: p_id_set_removed)
        then have "Emit (TRACK_ADDED t) \<in> set ?added"
          using addedEvents_complete [OF tj, of False] np by simp
        then have 1: "Emit (TRACK_ADDED t) \<in> set (newEffects s ?s')" unfolding ne by simp
        obtain q where q: "getParticipantById (Some (ownerEndpointId t)) s = Some q"
          using ow getParticipantById_iff [of "Some (ownerEndpointId t)" s] by auto
        from held [OF q] obtain K where
          "getParticipantById (Some (ownerEndpointId t)) ?s'
             = Some (q\<lparr>p_tracks := K @ [u \<leftarrow> pc_remoteTracks j. \<not> r_isP2P u
                                          \<and> ownerEndpointId u = ownerEndpointId t]\<rparr>)"
          by blast
        then have "\<exists>q'. getParticipantById (Some (ownerEndpointId t)) ?s' = Some q' \<and> t \<in> set (p_tracks q')"
          using tj np by simp
        with 1 show ?thesis by simp
      qed
      show ?thesis
        using r t m a held fr Some by simp
    qed
  qed
qed

theorem C3_p2p_ice_failure_witness:
  "isP2P sessP \<and> p2pJingleSession confP2P = Some sessP \<and> isP2PActive confP2P
   \<and> jvbJingleSession confP2P = Some sessJ
   \<and> map_option p_tracks (getParticipantById (Some ''bbb2222'') confP2P) = Some [trackP]
   \<and> p2pJingleSession (onIceConnectionFailed 3 0 sessP confP2P) = None
   \<and> jvbJingleSession (onIceConnectionFailed 3 0 sessP confP2P) = Some sessJ
   \<and> SessionSetMediaTransferActive (sid sessJ) True
        \<in> set (newEffects confP2P (onIceConnectionFailed 3 0 sessP confP2P))
   \<and> Emit (TRACK_ADDED trackJ) \<in> set (newEffects confP2P (onIceConnectionFailed 3 0 sessP confP2P))
   \<and> map_option p_tracks (getParticipantById (Some ''bbb2222'') (onIceConnectionFailed 3 0 sessP confP2P))
       = Some [trackJ]"
proof -
  let ?s' = "onIceConnectionFailed 3 0 sessP confP2P"
  have h: "isP2P sessP" "p2pJingleSession confP2P = Some sessP"
    by (simp_all add: sessP_def confP2P_def)
  have a: "isP2PActive confP2P" "jvbJingleSession confP2P = Some sessJ"
    by (simp_all add: confP2P_def isP2PActive_def)
  have t: "trackJ \<in> set (pc_remoteTracks sessJ)" "\<not> r_isP2P trackJ"
     "ownerEndpointId trackJ \<in> p_id ` set (participants confP2P)"
    by (simp_all add: sessJ_def trackJ_def confP2P_def peerB_def)
  have g: "getParticipantById (Some ''bbb2222'') confP2P = Some (peerB\<lparr>p_tracks := [trackP]\<rparr>)"
    by (simp add: getParticipantById_def confP2P_def conf0_def peerB_def)
  note th = C3_p2p_ice_failure [OF h, of 3 0]
  have basic: "p2pJingleSession ?s' = None" "jvbJingleSession ?s' = Some sessJ"
      "SessionSetMediaTransferActive (sid sessJ) True \<in> set (newEffects confP2P ?s')"
      "Emit (TRACK_ADDED trackJ) \<in> set (newEffects confP2P ?s')"
    using th a t by blast+
  have "\<exists>K. getParticipantById (Some ''bbb2222'') ?s'
               = Some (peerB\<lparr>p_tracks := [trackP]\<rparr>
                        \<lparr>p_tracks := K @ [t \<leftarrow> pc_remoteTracks sessJ.
                                           \<not> r_isP2P t \<and> ownerEndpointId t = ''bbb2222'']\<rparr>)
            \<and> set K \<subseteq> set (p_tracks (peerB\<lparr>p_tracks := [trackP]\<rparr>))
            \<and> map r_ref K = fold remove1 (map r_ref (pc_remoteTracks sessP))
                              (map r_ref (p_tracks (peerB\<lparr>p_tracks := [trackP]\<rparr>)))"
    using th a g by blast
  then have "map_option p_tracks (getParticipantById (Some ''bbb2222'') ?s') = Some [trackJ]"
    by (auto simp: sessJ_def sessP_def trackJ_def trackP_def)
  then show ?thesis using basic h a g by simp
qed

subsection \<open>Leader election\<close>



lemma gate_iff:
  "(\<not> isP2PEnabled s \<or> isP2PTestModeEnabled s
     \<or> (browser_isFirefox s \<and> \<not> firefoxP2pEnabled s) \<or> isE2EEEnabled s) = (\<not> autoP2PEnabled s)"
  by (auto simp: autoP2PEnabled_def)

lemma maybeStartOrStopP2P_election:
  assumes "autoP2PEnabled s" "p2pJingleSession s = None" "shouldBeInP2PMode s"
      and "\<not> testing_forceInitiator s" "\<not> testing_forceResponder s"
      and "myUserId s = Some a" "participants s = pb # ps"
  shows "maybeStartOrStopP2P u s =
           (if p_id pb < a then s
            else if a = p_id pb then perform (LogError ''The same IDs ? '') s
            else if u then
              (if deferredStartP2PTask s \<noteq> None
               then perform (LogError ''Deferred start P2P task's been set already!'') s
               else (snd (setTimeout (StartP2PSessionTask (p_jid pb)) (of_int (backToP2PDelay s) * 1000) s))
                      \<lparr>deferredStartP2PTask := Some (nextHandle s)\<rparr>)
            else startP2PSession (p_jid pb) s)"
  unfolding maybeStartOrStopP2P_def gate_iff using assms
  by (simp add: Let_def getParticipants_def js_gt_def setTimeout_def)

lemma startP2PSession_invites:
  assumes "p2pJingleSession s = None" "room s = Some r"
  shows "invitedNow jid s (startP2PSession jid s)"
  using assms
  by (auto simp: startP2PSession_def invitedNow_def newEffects_def perform_def Let_def
        maybeClearDeferredStartP2P_def clearTimeout_def split: option.splits)







subsection \<open>Deferred start and immediate stop\<close>

lemma stopP2PSession_active_restart:
  assumes "p2pJingleSession s = Some p" "p2p s" "jvbJingleSession s = Some j"
  shows "stopP2PSession r d True s =
           s\<lparr>participants := removedParticipants (pc_remoteTracks p) (participants s),
             p2pJingleSession := None, p2p := False, dtmfManager := None,
             effects := effects s @ removedEvents (pc_remoteTracks p) (participants s)
                        @ stopEffects r d p s\<rparr>"
  using assms
  by (simp add: stopP2PSession_def stopEffects_def Let_def isP2PActive_def perform_def
        setP2PStatus_False_active removeRemoteP2PTracks_def removeRemoteTracks_eq
        getParticipantById_iff p_id_set_removed)

lemma not_timeout_removed: "e \<in> set (removedEvents ts ps) \<Longrightarrow> \<not> isSetTimeout e"
  by (auto dest: removedEvents_only simp: isSetTimeout_def)

lemma not_timeout_added: "e \<in> set (addedEvents a ts ps) \<Longrightarrow> \<not> isSetTimeout e"
  by (auto dest: addedEvents_only simp: isSetTimeout_def)

lemma not_timeout_stop: "e \<in> set (stopEffects r d p s) \<Longrightarrow> \<not> isSetTimeout e"
  by (auto simp: stopEffects_def isSetTimeout_def)

text \<open>What every call of \<open>_stopP2PSession\<close> with a stored session guarantees.\<close>

lemma stopP2PSession_summary:
  assumes p: "p2pJingleSession s = Some p"
  shows "\<exists>es. effects (stopP2PSession r d rr s) = effects s @ es
            \<and> (\<exists>send. SessionTerminate (sid p) (Some r) (Some d) send \<in> set es)
            \<and> (\<forall>e \<in> set es. \<not> isSetTimeout e)"
    and "p2pJingleSession (stopP2PSession r d rr s) = None"
    and "\<not> p2p (stopP2PSession r d rr s)"
    and "deferredStartP2PTask (stopP2PSession r d rr s) = deferredStartP2PTask s"
    and "timers (stopP2PSession r d rr s) = timers s"
    and "jvbJingleSession (stopP2PSession r d rr s) = jvbJingleSession s"
proof -
  let ?s' = "stopP2PSession r d rr s"
  have "(\<exists>es. effects ?s' = effects s @ es
            \<and> (\<exists>send. SessionTerminate (sid p) (Some r) (Some d) send \<in> set es)
            \<and> (\<forall>e \<in> set es. \<not> isSetTimeout e))
        \<and> p2pJingleSession ?s' = None \<and> \<not> p2p ?s'
        \<and> deferredStartP2PTask ?s' = deferredStartP2PTask s \<and> timers ?s' = timers s
        \<and> jvbJingleSession ?s' = jvbJingleSession s"
  proof (cases "p2p s")
    case False
    show ?thesis
      unfolding stopP2PSession_inactive [OF p False]
      using False by (simp add: isSetTimeout_def)
  next
    case True
    show ?thesis
    proof (cases "jvbJingleSession s")
      case None
      show ?thesis
        unfolding stopP2PSession_active_nojvb [OF p True None]
        using None terminate_in_stop [of p r d s] not_timeout_removed not_timeout_stop
        by (auto intro!: exI [of _ "removedEvents (pc_remoteTracks p) (participants s) @ stopEffects r d p s"])
    next
      case (Some j)
      show ?thesis
      proof (cases rr)
        case rrT: True
        have rr: "rr = True" using rrT by simp
        show ?thesis
          unfolding rr stopP2PSession_active_restart [OF p \<open>p2p s\<close> Some]
          using Some terminate_in_stop [of p r d s] not_timeout_removed not_timeout_stop
          by (auto intro!: exI [of _ "removedEvents (pc_remoteTracks p) (participants s) @ stopEffects r d p s"])
      next
        case rrF: False
        have rr: "rr = False" using rrF by simp
        show ?thesis
          unfolding rr stopP2PSession_active_jvb [OF p \<open>p2p s\<close> Some]
          using Some terminate_in_stop [of p r d s] not_timeout_removed not_timeout_stop not_timeout_added
          by (auto simp: isSetTimeout_def
                intro!: exI [of _ "[SessionSetMediaTransferActive (sid j) True]
                        @ removedEvents (pc_remoteTracks p) (participants s)
                        @ stopEffects r d p s
                        @ addedEvents False (pc_remoteTracks j)
                            (removedParticipants (pc_remoteTracks p) (participants s))"])
      qed
    qed
  qed
  then show "\<exists>es. effects ?s' = effects s @ es
            \<and> (\<exists>send. SessionTerminate (sid p) (Some r) (Some d) send \<in> set es)
            \<and> (\<forall>e \<in> set es. \<not> isSetTimeout e)"
    and "p2pJingleSession ?s' = None" and "\<not> p2p ?s'"
    and "deferredStartP2PTask ?s' = deferredStartP2PTask s" and "timers ?s' = timers s"
    and "jvbJingleSession ?s' = jvbJingleSession s"
    by blast+
qed

text \<open>The pass of the topology controller when a stored P2P session should no longer run.\<close>

lemma maybeStartOrStopP2P_stop:
  assumes en: "autoP2PEnabled s" and p: "p2pJingleSession s = Some p" and sh: "\<not> shouldBeInP2PMode s"
  shows "maybeStartOrStopP2P u s =
           stopP2PSessionDefault
             (if isInitiator p \<and> 1 < length (participants s)
              then perform (Analytics ''p2p.switch_to_jvb'') (maybeClearDeferredStartP2P s)
              else maybeClearDeferredStartP2P s)"
proof -
  have c: "p2pJingleSession (maybeClearDeferredStartP2P s) = Some p"
    using p by (simp add: maybeClearDeferredStartP2P_def clearTimeout_def split: option.splits)
  show ?thesis
  proof (cases "deferredStartP2PTask s")
    case None
    then have "maybeClearDeferredStartP2P s = s" by (simp add: maybeClearDeferredStartP2P_def)
    then show ?thesis
      unfolding maybeStartOrStopP2P_def gate_iff using en sh p None
      by (simp add: Let_def getParticipants_def)
  next
    case (Some h)
    then show ?thesis
      unfolding maybeStartOrStopP2P_def gate_iff using en sh c
      by (simp add: Let_def getParticipants_def)
  qed
qed

lemma maybeClearDeferredStartP2P_facts:
  "deferredStartP2PTask (maybeClearDeferredStartP2P s) = None"
  "p2pJingleSession (maybeClearDeferredStartP2P s) = p2pJingleSession s"
  "\<exists>es. effects (maybeClearDeferredStartP2P s) = effects s @ es \<and> (\<forall>e \<in> set es. \<not> isSetTimeout e)"
  "deferredStartP2PTask s = Some h \<Longrightarrow>
     effects (maybeClearDeferredStartP2P s) = effects s @ [ClearTimeoutCall h]"
  "deferredStartP2PTask s = Some h \<Longrightarrow> h \<notin> fst ` set (timers (maybeClearDeferredStartP2P s))"
  by (auto simp: maybeClearDeferredStartP2P_def clearTimeout_def isSetTimeout_def split: option.splits)

lemma maybeStartOrStopP2P_nothing_to_stop:
  assumes "autoP2PEnabled s" "p2pJingleSession s = None" "\<not> shouldBeInP2PMode s"
  shows "maybeStartOrStopP2P u s = maybeClearDeferredStartP2P s"
proof (cases "deferredStartP2PTask s")
  case None
  then have "maybeClearDeferredStartP2P s = s" by (simp add: maybeClearDeferredStartP2P_def)
  then show ?thesis
    unfolding maybeStartOrStopP2P_def gate_iff using assms None by (simp add: Let_def)
next
  case (Some h)
  then show ?thesis
    unfolding maybeStartOrStopP2P_def gate_iff
    using assms maybeClearDeferredStartP2P_facts(2) [of s] by (simp add: Let_def)
qed

text \<open>The stop pass: the stored session is terminated at once and no timer is created.\<close>

lemma stop_pass:
  assumes en: "autoP2PEnabled s" and p: "p2pJingleSession s = Some p" and sh: "\<not> shouldBeInP2PMode s"
  shows "p2pJingleSession (maybeStartOrStopP2P u s) = None"
    and "\<not> isP2PActive (maybeStartOrStopP2P u s)"
    and "\<exists>send. SessionTerminate (sid p) (Some ''success'') (Some ''Turning off P2P session'') send
            \<in> set (newEffects s (maybeStartOrStopP2P u s))"
    and "\<forall>e \<in> set (newEffects s (maybeStartOrStopP2P u s)). \<not> isSetTimeout e"
    and "deferredStartP2PTask (maybeStartOrStopP2P u s) = None"
    and "deferredStartP2PTask s = Some h \<Longrightarrow>
           ClearTimeoutCall h \<in> set (newEffects s (maybeStartOrStopP2P u s))
           \<and> h \<notin> fst ` set (timers (maybeStartOrStopP2P u s))"
proof -
  define sm where "sm = (if isInitiator p \<and> 1 < length (participants s)
              then perform (Analytics ''p2p.switch_to_jvb'') (maybeClearDeferredStartP2P s)
              else maybeClearDeferredStartP2P s)"
  have res: "maybeStartOrStopP2P u s = stopP2PSession ''success'' ''Turning off P2P session'' False sm"
    unfolding sm_def maybeStartOrStopP2P_stop [OF en p sh] stopP2PSessionDefault_def ..
  obtain pre where pre: "effects (maybeClearDeferredStartP2P s) = effects s @ pre"
      "\<forall>e \<in> set pre. \<not> isSetTimeout e"
    using maybeClearDeferredStartP2P_facts(3) [of s] by blast
  obtain pre' where pre': "effects sm = effects s @ pre'" "\<forall>e \<in> set pre'. \<not> isSetTimeout e"
      "set pre \<subseteq> set pre'"
  proof (cases "isInitiator p \<and> 1 < length (participants s)")
    case True
    then have "effects sm = effects s @ (pre @ [Analytics ''p2p.switch_to_jvb''])"
      by (simp add: sm_def perform_def pre(1))
    then show ?thesis using that [of "pre @ [Analytics ''p2p.switch_to_jvb'']"] pre(2)
      by (auto simp: isSetTimeout_def)
  next
    case False
    have "sm = maybeClearDeferredStartP2P s" using False by (auto simp: sm_def)
    then have "effects sm = effects s @ pre" by (simp add: pre(1))
    then show ?thesis using that [of pre] pre(2) by auto
  qed
  have pm: "p2pJingleSession sm = Some p"
    using p maybeClearDeferredStartP2P_facts(2) [of s] by (auto simp: sm_def perform_def)
  have dm: "deferredStartP2PTask sm = None"
    using maybeClearDeferredStartP2P_facts(1) [of s] by (auto simp: sm_def perform_def)
  have tm: "timers sm = timers (maybeClearDeferredStartP2P s)"
    by (auto simp: sm_def perform_def)
  note sum = stopP2PSession_summary [OF pm, of "''success''" "''Turning off P2P session''" False]
  obtain es where es: "effects (maybeStartOrStopP2P u s) = effects sm @ es"
      "\<exists>send. SessionTerminate (sid p) (Some ''success'') (Some ''Turning off P2P session'') send \<in> set es"
      "\<forall>e \<in> set es. \<not> isSetTimeout e"
    using sum(1) unfolding res by blast
  have ne: "newEffects s (maybeStartOrStopP2P u s) = pre' @ es"
    using es(1) pre'(1) by (simp add: newEffects_def)
  show "p2pJingleSession (maybeStartOrStopP2P u s) = None" unfolding res by (rule sum(2))
  show "\<not> isP2PActive (maybeStartOrStopP2P u s)" unfolding res isP2PActive_def by (rule sum(3))
  show "\<exists>send. SessionTerminate (sid p) (Some ''success'') (Some ''Turning off P2P session'') send
            \<in> set (newEffects s (maybeStartOrStopP2P u s))"
    unfolding ne using es(2) by auto
  show "\<forall>e \<in> set (newEffects s (maybeStartOrStopP2P u s)). \<not> isSetTimeout e"
    unfolding ne using es(3) pre'(2) by auto
  show "deferredStartP2PTask (maybeStartOrStopP2P u s) = None"
    unfolding res sum(4) by (rule dm)
  show "ClearTimeoutCall h \<in> set (newEffects s (maybeStartOrStopP2P u s))
           \<and> h \<notin> fst ` set (timers (maybeStartOrStopP2P u s))" if h: "deferredStartP2PTask s = Some h"
  proof -
    have "pre = [ClearTimeoutCall h]"
      using maybeClearDeferredStartP2P_facts(4) [OF h] pre(1) by simp
    then have "ClearTimeoutCall h \<in> set pre'" using pre'(3) by auto
    moreover have "h \<notin> fst ` set (timers (maybeStartOrStopP2P u s))"
      unfolding res sum(5) tm by (rule maybeClearDeferredStartP2P_facts(5) [OF h])
    ultimately show ?thesis unfolding ne by simp
  qed
qed

text \<open>The pass with a forced initiator, and what starting a session performs.\<close>

lemma maybeStartOrStopP2P_forced:
  assumes "autoP2PEnabled s" "p2pJingleSession s = None" "shouldBeInP2PMode s"
      and "testing_forceInitiator s" "participants s = pb # ps"
  shows "maybeStartOrStopP2P u s = startP2PSession (p_jid pb) s"
  unfolding maybeStartOrStopP2P_def gate_iff using assms
  by (simp add: Let_def getParticipants_def)

lemma startP2PSession_no_timer:
  "\<forall>e \<in> set (newEffects s (startP2PSession jid s)). \<not> isSetTimeout e"
  by (auto simp: startP2PSession_def newEffects_def perform_def Let_def isSetTimeout_def
        maybeClearDeferredStartP2P_def clearTimeout_def split: option.splits)

lemma maybeStartOrStopP2P_gate: "\<not> autoP2PEnabled s \<Longrightarrow> maybeStartOrStopP2P u s = s"
  unfolding maybeStartOrStopP2P_def gate_iff by simp

text \<open>
  C5 (as amended). The pass of the topology controller acts only while automatic P2P is
  enabled (P2P enabled in the configuration, P2P test mode off, browser supported, no
  end-to-end encryption); otherwise it returns the conference unchanged. While it is enabled:

  \<^item> a pass that finds a stored P2P session that should no longer run (for instance because a
    third participant joined) stops that session at once: the session is terminated in the
    same pass, the conference leaves P2P mode and no timer is created;

  \<^item> what is deferred is the start of P2P: on a pass triggered by a user-left event, with no
    P2P session stored, the conference in the state in which it should be in P2P mode, no
    initiator or responder mode forced, no deferred start pending and the local id smaller
    than the id of the single peer, the pass only creates one timer of \<open>backToP2PDelay\<close>
    seconds (5 when the configuration gives no valid number) and starts no session; with
    \<open>testing.forceInitiator\<close> the pass invites the peer at once and creates no timer;

  \<^item> a pending deferred start is cancelled by any pass that finds that the conference should
    not be in P2P mode.
\<close>

theorem C5_stop_immediate_start_deferred:
  assumes stop: "autoP2PEnabled s" "p2pJingleSession s = Some p" "\<not> shouldBeInP2PMode s"
      and start: "autoP2PEnabled s2" "p2pJingleSession s2 = None" "shouldBeInP2PMode s2"
                 "\<not> testing_forceInitiator s2" "\<not> testing_forceResponder s2"
                 "myUserId s2 = Some a" "participants s2 = [pb]"
      and smaller: "a < p_id pb" and fresh: "deferredStartP2PTask s2 = None"
      and cancel: "autoP2PEnabled s3" "deferredStartP2PTask s3 = Some h" "\<not> shouldBeInP2PMode s3"
  shows "p2pJingleSession (maybeStartOrStopP2P u s) = None
       \<and> \<not> isP2PActive (maybeStartOrStopP2P u s)
       \<and> (\<exists>send. SessionTerminate (sid p) (Some ''success'') (Some ''Turning off P2P session'') send
               \<in> set (newEffects s (maybeStartOrStopP2P u s)))
       \<and> (\<forall>e \<in> set (newEffects s (maybeStartOrStopP2P u s)). \<not> isSetTimeout e)
       \<and> deferredStartP2PTask (maybeStartOrStopP2P u s) = None
       \<and> p2pJingleSession (maybeStartOrStopP2P True s2) = None
       \<and> deferredStartP2PTask (maybeStartOrStopP2P True s2) = Some (nextHandle s2)
       \<and> newEffects s2 (maybeStartOrStopP2P True s2)
           = [SetTimeoutCall (nextHandle s2) (StartP2PSessionTask (p_jid pb))
                (of_int (backToP2PDelay s2) * 1000)]
       \<and> timers (maybeStartOrStopP2P True s2)
           = timers s2 @ [(nextHandle s2, StartP2PSessionTask (p_jid pb),
                           of_int (backToP2PDelay s2) * 1000)]
       \<and> ((\<forall>c. cfg_p2p cfg = Some c \<longrightarrow> p2p_backToP2PDelay c = None) \<longrightarrow> initialBackToP2PDelay cfg = 5)
       \<and> deferredStartP2PTask (maybeStartOrStopP2P u3 s3) = None
       \<and> ClearTimeoutCall h \<in> set (newEffects s3 (maybeStartOrStopP2P u3 s3))
       \<and> h \<notin> fst ` set (timers (maybeStartOrStopP2P u3 s3))
       \<and> (\<not> autoP2PEnabled s4 \<longrightarrow> maybeStartOrStopP2P u4 s4 = s4)
       \<and> (autoP2PEnabled s5 \<and> p2pJingleSession s5 = None \<and> shouldBeInP2PMode s5
            \<and> testing_forceInitiator s5 \<and> participants s5 = [pc] \<and> room s5 \<noteq> None \<longrightarrow>
          invitedNow (p_jid pc) s5 (maybeStartOrStopP2P u5 s5)
          \<and> (\<forall>e \<in> set (newEffects s5 (maybeStartOrStopP2P u5 s5)). \<not> isSetTimeout e))"
proof -
  note a = stop_pass(1-5) [OF stop, of u]
  have b: "maybeStartOrStopP2P True s2 =
             (snd (setTimeout (StartP2PSessionTask (p_jid pb)) (of_int (backToP2PDelay s2) * 1000) s2))
                \<lparr>deferredStartP2PTask := Some (nextHandle s2)\<rparr>"
    unfolding maybeStartOrStopP2P_election [OF start, of True] using smaller fresh by auto
  have b': "p2pJingleSession (maybeStartOrStopP2P True s2) = None"
       "deferredStartP2PTask (maybeStartOrStopP2P True s2) = Some (nextHandle s2)"
       "newEffects s2 (maybeStartOrStopP2P True s2)
           = [SetTimeoutCall (nextHandle s2) (StartP2PSessionTask (p_jid pb))
                (of_int (backToP2PDelay s2) * 1000)]"
       "timers (maybeStartOrStopP2P True s2)
           = timers s2 @ [(nextHandle s2, StartP2PSessionTask (p_jid pb),
                           of_int (backToP2PDelay s2) * 1000)]"
    unfolding b using start(2) by (simp_all add: setTimeout_def newEffects_def)
  have d: "(\<forall>c. cfg_p2p cfg = Some c \<longrightarrow> p2p_backToP2PDelay c = None) \<longrightarrow> initialBackToP2PDelay cfg = 5"
    by (auto simp: initialBackToP2PDelay_def split: option.splits)
  have c: "deferredStartP2PTask (maybeStartOrStopP2P u3 s3) = None
       \<and> ClearTimeoutCall h \<in> set (newEffects s3 (maybeStartOrStopP2P u3 s3))
       \<and> h \<notin> fst ` set (timers (maybeStartOrStopP2P u3 s3))"
  proof (cases "p2pJingleSession s3")
    case None
    note r = maybeStartOrStopP2P_nothing_to_stop [OF cancel(1) None cancel(3), of u3]
    show ?thesis
      unfolding r
      using maybeClearDeferredStartP2P_facts(1,5) [of s3] maybeClearDeferredStartP2P_facts(4) [OF cancel(2)]
            cancel(2)
      by (simp add: newEffects_def)
  next
    case (Some q)
    show ?thesis
      using stop_pass(5) [OF cancel(1) Some cancel(3), of u3]
            stop_pass(6) [OF cancel(1) Some cancel(3) cancel(2), of u3] by simp
  qed
  have g: "\<not> autoP2PEnabled s4 \<longrightarrow> maybeStartOrStopP2P u4 s4 = s4"
    using maybeStartOrStopP2P_gate by blast
  have f: "invitedNow (p_jid pc) s5 (maybeStartOrStopP2P u5 s5)
          \<and> (\<forall>e \<in> set (newEffects s5 (maybeStartOrStopP2P u5 s5)). \<not> isSetTimeout e)"
    if en: "autoP2PEnabled s5" and no: "p2pJingleSession s5 = None" and sh: "shouldBeInP2PMode s5"
       and fi: "testing_forceInitiator s5" and pc: "participants s5 = [pc]" and rm: "room s5 \<noteq> None"
  proof -
    obtain r where r: "room s5 = Some r" using rm by auto
    have eq: "maybeStartOrStopP2P u5 s5 = startP2PSession (p_jid pc) s5"
      by (rule maybeStartOrStopP2P_forced [OF en no sh fi pc])
    show ?thesis
      unfolding eq using startP2PSession_invites [OF no r] startP2PSession_no_timer by blast
  qed
  show ?thesis using a b' c d g f by blast
qed


lemmas example_defs =
  conf0_def confB_def confDeferred_def confP2P_def confPending_def confThird_def
  confDeferredThird_def confJvb_def peerA_def peerB_def peerC_def trackJ_def trackP_def
  sessJ_def sessP_def offerP_def offerJ_def micTrack_def camTrack_def deskTrack_def
  sessLocal_def layer0_def confWaiting_def confRestarting_def confTwoVideo_def
  confForced_def confDisabled_def confTestMode_def

lemmas accessor_defs =
  autoP2PEnabled_def isP2PEnabled_def isP2PTestModeEnabled_def isE2EEEnabled_def
  shouldBeInP2PMode_def getParticipants_def testing_forceInitiator_def
  testing_forceResponder_def myUserId_def isP2PActive_def

theorem C5_witness:
  "p2pJingleSession (maybeStartOrStopP2P False confThird) = None
   \<and> deferredStartP2PTask (maybeStartOrStopP2P True conf0) = Some 1
   \<and> timers (maybeStartOrStopP2P True conf0) = [(1, StartP2PSessionTask ''room@muc/bbb2222'', 5000)]
   \<and> initialBackToP2PDelay \<lparr>cfg_p2p = None, cfg_testing = None\<rparr> = 5
   \<and> deferredStartP2PTask (maybeStartOrStopP2P False confDeferredThird) = None
   \<and> ClearTimeoutCall 1 \<in> set (newEffects confDeferredThird (maybeStartOrStopP2P False confDeferredThird))
   \<and> \<not> autoP2PEnabled (confThird\<lparr>e2eeEnabled := True\<rparr>)
   \<and> p2pJingleSession (maybeStartOrStopP2P False (confThird\<lparr>e2eeEnabled := True\<rparr>)) = Some sessP
   \<and> testing_forceInitiator confForced
   \<and> invitedNow ''room@muc/bbb2222'' confForced (maybeStartOrStopP2P True confForced)"
proof -
  have stop: "autoP2PEnabled confThird" "p2pJingleSession confThird = Some sessP"
      "\<not> shouldBeInP2PMode confThird"
    by (simp_all add: example_defs accessor_defs)
  have start: "autoP2PEnabled conf0" "p2pJingleSession conf0 = None" "shouldBeInP2PMode conf0"
      "\<not> testing_forceInitiator conf0" "\<not> testing_forceResponder conf0"
      "myUserId conf0 = Some ''aaa1111''" "participants conf0 = [peerB]"
    by (simp_all add: example_defs accessor_defs)
  have smaller: "''aaa1111'' < p_id peerB" by (simp add: peerB_def)
  have fresh: "deferredStartP2PTask conf0 = None" by (simp add: conf0_def)
  have cancel: "autoP2PEnabled confDeferredThird" "deferredStartP2PTask confDeferredThird = Some 1"
      "\<not> shouldBeInP2PMode confDeferredThird"
    by (simp_all add: example_defs accessor_defs)
  have v: "nextHandle conf0 = 1" "backToP2PDelay conf0 = 5" "timers conf0 = []"
      "p_jid peerB = ''room@muc/bbb2222''"
    by (simp_all add: conf0_def peerB_def)
  have gate: "\<not> autoP2PEnabled (confThird\<lparr>e2eeEnabled := True\<rparr>)"
      "p2pJingleSession (confThird\<lparr>e2eeEnabled := True\<rparr>) = Some sessP"
    by (simp_all add: example_defs accessor_defs)
  have forced: "autoP2PEnabled confForced" "p2pJingleSession confForced = None"
      "shouldBeInP2PMode confForced" "testing_forceInitiator confForced"
      "participants confForced = [peerB]" "room confForced \<noteq> None"
    by (simp_all add: example_defs accessor_defs)
  note th = C5_stop_immediate_start_deferred [OF stop start smaller fresh cancel,
            of False "\<lparr>cfg_p2p = None, cfg_testing = None\<rparr>" False
               "confThird\<lparr>e2eeEnabled := True\<rparr>" False confForced peerB True]
  have 1: "maybeStartOrStopP2P False (confThird\<lparr>e2eeEnabled := True\<rparr>) = confThird\<lparr>e2eeEnabled := True\<rparr>"
    using th gate(1) by blast
  have 2: "invitedNow (p_jid peerB) confForced (maybeStartOrStopP2P True confForced)"
    using th forced by blast
  have 3: "p2pJingleSession (maybeStartOrStopP2P False confThird) = None
   \<and> deferredStartP2PTask (maybeStartOrStopP2P True conf0) = Some 1
   \<and> timers (maybeStartOrStopP2P True conf0) = [(1, StartP2PSessionTask ''room@muc/bbb2222'', 5000)]
   \<and> initialBackToP2PDelay \<lparr>cfg_p2p = None, cfg_testing = None\<rparr> = 5
   \<and> deferredStartP2PTask (maybeStartOrStopP2P False confDeferredThird) = None
   \<and> ClearTimeoutCall 1 \<in> set (newEffects confDeferredThird (maybeStartOrStopP2P False confDeferredThird))"
    using th by (simp add: v)
  show ?thesis
    using 1 2 3 gate forced(4) by (simp add: v)
qed

text \<open>
  C5 as stated fails: two peers are in an active P2P session, a third participant has
  joined, and the pass terminates the P2P session and resumes the bridge immediately; no
  timer exists afterwards.
\<close>

theorem C5_counterexample:
  "autoP2PEnabled confThird \<and> p2pJingleSession confThird = Some sessP
   \<and> length (participants confThird) = 2 \<and> \<not> shouldBeInP2PMode confThird
   \<and> timers confThird = []
   \<and> p2pJingleSession (maybeStartOrStopP2P False confThird) = None
   \<and> \<not> isP2PActive (maybeStartOrStopP2P False confThird)
   \<and> timers (maybeStartOrStopP2P False confThird) = []
   \<and> newEffects confThird (maybeStartOrStopP2P False confThird)
       = [Analytics ''p2p.switch_to_jvb'', SessionSetMediaTransferActive 7 True,
          Emit (TRACK_REMOVED trackP), StopRemoteStats 8,
          SessionTerminate 8 (Some ''success'') (Some ''Turning off P2P session'') True,
          Emit (P2P_STATUS False), Emit (MEDIA_SESSION_ACTIVE_CHANGED (Some 7)),
          Emit CONNECTION_RESTORED, Emit (TRACK_ADDED trackJ)]"
proof -
  have stop: "autoP2PEnabled confThird" "p2pJingleSession confThird = Some sessP"
      "\<not> shouldBeInP2PMode confThird"
    by (simp_all add: example_defs accessor_defs)
  have act: "p2p confThird" "jvbJingleSession confThird = Some sessJ"
    by (simp_all add: example_defs)
  have init: "isInitiator sessP \<and> 1 < length (participants confThird)"
    by (simp add: example_defs)
  have nd: "maybeClearDeferredStartP2P confThird = confThird"
    by (simp add: maybeClearDeferredStartP2P_def example_defs)
  let ?sm = "perform (Analytics ''p2p.switch_to_jvb'') confThird"
  have res: "maybeStartOrStopP2P False confThird
              = stopP2PSession ''success'' ''Turning off P2P session'' False ?sm"
    unfolding maybeStartOrStopP2P_stop [OF stop] stopP2PSessionDefault_def nd using init by simp
  have pm: "p2pJingleSession ?sm = Some sessP" "p2p ?sm" "jvbJingleSession ?sm = Some sessJ"
    using stop(2) act by (simp_all add: perform_def)
  have "timers (maybeStartOrStopP2P False confThird) = []"
     "p2pJingleSession (maybeStartOrStopP2P False confThird) = None"
     "\<not> isP2PActive (maybeStartOrStopP2P False confThird)"
    unfolding res stopP2PSession_active_jvb [OF pm]
    by (simp_all add: perform_def isP2PActive_def example_defs)
  moreover have "newEffects confThird (maybeStartOrStopP2P False confThird)
       = [Analytics ''p2p.switch_to_jvb'', SessionSetMediaTransferActive 7 True,
          Emit (TRACK_REMOVED trackP), StopRemoteStats 8,
          SessionTerminate 8 (Some ''success'') (Some ''Turning off P2P session'') True,
          Emit (P2P_STATUS False), Emit (MEDIA_SESSION_ACTIVE_CHANGED (Some 7)),
          Emit CONNECTION_RESTORED, Emit (TRACK_ADDED trackJ)]"
    unfolding res stopP2PSession_active_jvb [OF pm]
    by (simp add: newEffects_def perform_def stopEffects_def example_defs holdsTrack_def
          spliceFrom_def accepted_def)
  moreover have "length (participants confThird) = 2" "timers confThird = []"
    by (simp_all add: example_defs)
  ultimately show ?thesis using stop by simp
qed

subsection \<open>ICE failure of the bridge session\<close>

lemma getJitterDelay_mono: "a \<le> b \<Longrightarrow> getJitterDelay a 1000 0 \<le> getJitterDelay b 1000 0"
  by (simp add: getJitterDelay_def power_increasing)

lemma getJitterDelay_jitter: "0 \<le> jitter \<Longrightarrow> getJitterDelay a 1000 0 \<le> getJitterDelay a 1000 jitter"
  by (simp add: getJitterDelay_def mult_left_mono)

text \<open>
  C4. An ICE failure reported for the stored bridge session: while the number of restarts is
  below the maximum, the pass creates exactly one timer whose delay is the jitter delay for
  the current number of restarts and does nothing else; when the callback of that timer
  runs, ICE-failed handling is started for the session and the counter is incremented by
  one. Once the counter has reached the maximum, no timer is created, the counter stays, and
  the pass emits \<open>CONFERENCE_FAILED\<close> with \<open>ICE_FAILED\<close> exactly once. The delay before
  jitter does not decrease with the number of restarts, and jitter only adds to it.
\<close>

theorem C4_bridge_ice_failure:
  assumes "\<not> isP2P session" and "jvbJingleSession s = Some j" and "sid j = sid session"
  shows "(iceRestarts s < maxRetries \<longrightarrow>
            newEffects s (onIceConnectionFailed maxRetries jitter session s)
              = [SetTimeoutCall (nextHandle s)
                   (IceRestartTask session (getJitterDelay (iceRestarts s) 1000 jitter))
                   (getJitterDelay (iceRestarts s) 1000 jitter)]
          \<and> timers (onIceConnectionFailed maxRetries jitter session s)
              = timers s @ [(nextHandle s,
                             IceRestartTask session (getJitterDelay (iceRestarts s) 1000 jitter),
                             getJitterDelay (iceRestarts s) 1000 jitter)]
          \<and> iceRestarts (onIceConnectionFailed maxRetries jitter session s) = iceRestarts s
          \<and> delayedIceFailed (onIceConnectionFailed maxRetries jitter session s) = Some (nextRef s)
          \<and> iceRestarts (runTask (IceRestartTask session (getJitterDelay (iceRestarts s) 1000 jitter))
                            (onIceConnectionFailed maxRetries jitter session s))
              = Suc (iceRestarts s)
          \<and> newEffects (onIceConnectionFailed maxRetries jitter session s)
               (runTask (IceRestartTask session (getJitterDelay (iceRestarts s) 1000 jitter))
                  (onIceConnectionFailed maxRetries jitter session s))
              = [LogErrorNumber ''triggering ice restart after ''
                   (getJitterDelay (iceRestarts s) 1000 jitter) '' '',
                 IceFailedHandlingStart (nextRef s) session])
       \<and> (maxRetries \<le> iceRestarts s \<longrightarrow>
            newEffects s (onIceConnectionFailed maxRetries jitter session s)
              = [LogWarn ''ICE failed, force reloading the conference after failed attempts to re-establish ICE'',
                 Analytics ''jvb.ice.failed'',
                 Emit (CONFERENCE_FAILED ICE_FAILED)]
          \<and> timers (onIceConnectionFailed maxRetries jitter session s) = timers s
          \<and> iceRestarts (onIceConnectionFailed maxRetries jitter session s) = iceRestarts s)
       \<and> (\<forall>a b. a \<le> b \<longrightarrow> getJitterDelay a 1000 0 \<le> getJitterDelay b 1000 0)
       \<and> (0 \<le> jitter \<longrightarrow> getJitterDelay (iceRestarts s) 1000 0
                           \<le> getJitterDelay (iceRestarts s) 1000 jitter)"
proof -
  have same: "isSession (jvbJingleSession s) session" using assms(2,3) by (simp add: isSession_def)
  have below: ?thesis if "iceRestarts s < maxRetries"
    using that assms(1) same getJitterDelay_mono getJitterDelay_jitter [of jitter "iceRestarts s"]
    by (simp add: onIceConnectionFailed_def Let_def setTimeout_def newEffects_def runTask_def perform_def)
  have reached: ?thesis if "maxRetries \<le> iceRestarts s"
    using that assms(1) same getJitterDelay_mono getJitterDelay_jitter [of jitter "iceRestarts s"]
    by (simp add: onIceConnectionFailed_def Let_def newEffects_def perform_def)
  show ?thesis using below reached by (cases "iceRestarts s < maxRetries") auto
qed

theorem C4_bridge_ice_failure_witness:
  "\<not> isP2P sessJ \<and> jvbJingleSession confJvb = Some sessJ
   \<and> timers (onIceConnectionFailed 3 (1/2) sessJ confJvb) = [(1, IceRestartTask sessJ 1500, 1500)]
   \<and> iceRestarts (runTask (IceRestartTask sessJ 1500) (onIceConnectionFailed 3 (1/2) sessJ confJvb)) = 1
   \<and> timers (onIceConnectionFailed 3 (1/2) sessJ (confJvb\<lparr>iceRestarts := 3\<rparr>)) = []
   \<and> newEffects (confJvb\<lparr>iceRestarts := 3\<rparr>) (onIceConnectionFailed 3 (1/2) sessJ (confJvb\<lparr>iceRestarts := 3\<rparr>))
        = [LogWarn ''ICE failed, force reloading the conference after failed attempts to re-establish ICE'',
           Analytics ''jvb.ice.failed'', Emit (CONFERENCE_FAILED ICE_FAILED)]"
proof -
  have h: "\<not> isP2P sessJ" "jvbJingleSession confJvb = Some sessJ" "sid sessJ = sid sessJ"
     "jvbJingleSession (confJvb\<lparr>iceRestarts := 3\<rparr>) = Some sessJ"
    by (simp_all add: example_defs)
  have v: "iceRestarts confJvb = 0" "nextHandle confJvb = 1" "timers confJvb = []"
    "getJitterDelay 0 1000 (1/2) = 1500"
    by (simp_all add: example_defs getJitterDelay_def)
  show ?thesis
    using C4_bridge_ice_failure [OF h(1,2,3), of 3 "1/2"]
          C4_bridge_ice_failure [OF h(1,4,3), of 3 "1/2"] h(1,2)
    by (simp add: v)
qed


subsection \<open>ICE established on the P2P session\<close>

lemma setP2PStatus_True_active: "p2p s \<Longrightarrow> setP2PStatus True s = s"
  by (simp add: setP2PStatus_def)

lemma setP2PStatus_True_inactive:
  "\<not> p2p s \<Longrightarrow> p2pJingleSession s = Some p \<Longrightarrow> setP2PStatus True s =
      s\<lparr>p2p := True, dtmfManager := None,
        effects := effects s @
          [Analytics ''p2pFailed: false'',
           SessionSetP2pVideoTransferActive (sid p) (lastN s \<noteq> 0),
           Emit (P2P_STATUS True),
           Emit (MEDIA_SESSION_ACTIVE_CHANGED (Some (sid p))),
           Emit (if isP2PConnectionInterrupted s then CONNECTION_INTERRUPTED else CONNECTION_RESTORED)]\<rparr>"
  by (simp add: setP2PStatus_def Let_def perform_def getActiveMediaSession_def isP2PActive_def
        isConnectionInterrupted_def)

lemma not_ends_removed: "e \<in> set (removedEvents ts ps) \<Longrightarrow> \<not> endsSession n e"
  by (auto dest: removedEvents_only simp: endsSession_def)

lemma not_ends_added: "e \<in> set (addedEvents a ts ps) \<Longrightarrow> \<not> endsSession n e"
  by (auto dest: addedEvents_only simp: endsSession_def)

text \<open>The state in which \<open>_setP2PStatus(true)\<close> is called, and the rest of the handler.\<close>

lemma onIceConnectionEstablished_current:
  assumes "isP2P js" "p2pJingleSession s = Some p" "sid p = sid js"
  shows "\<exists>pre d1 d2. (\<forall>e \<in> set pre. \<forall>n. \<not> endsSession n e) \<and>
           onIceConnectionEstablished js s =
             (let s5 = s\<lparr>p2pEstablishmentDuration := d1, jvbEstablishmentDuration := d2,
                         effects := effects s @ pre\<rparr>;
                  s6 = setP2PStatus True s5;
                  s7 = (case jvbJingleSession s of None \<Rightarrow> s6 | Some j \<Rightarrow> removeRemoteJVBTracks j s6);
                  s8 = addRemoteP2PTracks p s7;
                  s9 = (case jvbJingleSession s of None \<Rightarrow> s8
                        | Some j \<Rightarrow> suspendMediaTransferForJvbConnection j s8)
              in perform (Analytics ''p2p.established'') (perform (StartRemoteStats (sid p)) s9))"
proof -
  define d1 where "d1 = establishmentDuration p"
  define d2 where "d2 = (case jvbJingleSession s of None \<Rightarrow> jvbEstablishmentDuration s
                          | Some j \<Rightarrow> establishmentDuration j)"
  define pre where "pre = (if d1 \<noteq> None \<and> d2 \<noteq> None then [Analytics ''ice.establishment.duration.diff''] else [])
                          @ (if p2p s then [Emit CONNECTION_ESTABLISHED] else [])"
  have ok: "isSession (p2pJingleSession s) js" using assms by (simp add: isSession_def)
  have 1: "\<forall>e \<in> set pre. \<forall>n. \<not> endsSession n e"
    by (auto simp: pre_def endsSession_def)
  have 2: "onIceConnectionEstablished js s =
             (let s5 = s\<lparr>p2pEstablishmentDuration := d1, jvbEstablishmentDuration := d2,
                         effects := effects s @ pre\<rparr>;
                  s6 = setP2PStatus True s5;
                  s7 = (case jvbJingleSession s of None \<Rightarrow> s6 | Some j \<Rightarrow> removeRemoteJVBTracks j s6);
                  s8 = addRemoteP2PTracks p s7;
                  s9 = (case jvbJingleSession s of None \<Rightarrow> s8
                        | Some j \<Rightarrow> suspendMediaTransferForJvbConnection j s8)
              in perform (Analytics ''p2p.established'') (perform (StartRemoteStats (sid p)) s9))"
    using assms ok by (cases "jvbJingleSession s"; cases "p2p s"; cases "d1 = None"; cases "d2 = None") (simp_all add: onIceConnectionEstablished_def Let_def isP2PActive_def perform_def pre_def d1_def d2_def isSession_def setP2PStatus_True_active setP2PStatus_True_inactive removeRemoteJVBTracks_def removeRemoteTracks_eq addRemoteP2PTracks_def addRemoteTracks_eq suspendMediaTransferForJvbConnection_def)
  show ?thesis using 1 2 by blast
qed

lemma onIceConnectionEstablished_effects:
  assumes "isP2P js" "p2pJingleSession s = Some p" "sid p = sid js"
  shows "\<exists>pre status.
           (\<forall>e \<in> set (pre @ status). \<forall>n. \<not> endsSession n e)
         \<and> effects (onIceConnectionEstablished js s) =
             effects s @ pre @ status
             @ (case jvbJingleSession s of None \<Rightarrow> []
                | Some j \<Rightarrow> removedEvents (pc_remoteTracks j) (participants s))
             @ addedEvents True (pc_remoteTracks p)
                 (case jvbJingleSession s of None \<Rightarrow> participants s
                  | Some j \<Rightarrow> removedParticipants (pc_remoteTracks j) (participants s))
             @ (case jvbJingleSession s of None \<Rightarrow> []
                | Some j \<Rightarrow> [SessionSetMediaTransferActive (sid j) False])
             @ [StartRemoteStats (sid p), Analytics ''p2p.established'']"
    and "p2p (onIceConnectionEstablished js s)"
    and "p2pJingleSession (onIceConnectionEstablished js s) = Some p"
    and "jvbJingleSession (onIceConnectionEstablished js s) = jvbJingleSession s"
    and "participants (onIceConnectionEstablished js s) =
           addedParticipants True (pc_remoteTracks p)
             (case jvbJingleSession s of None \<Rightarrow> participants s
              | Some j \<Rightarrow> removedParticipants (pc_remoteTracks j) (participants s))"
proof -
  obtain pre d1 d2 where pre: "\<forall>e \<in> set pre. \<forall>n. \<not> endsSession n e"
    and eq: "onIceConnectionEstablished js s =
             (let s5 = s\<lparr>p2pEstablishmentDuration := d1, jvbEstablishmentDuration := d2,
                         effects := effects s @ pre\<rparr>;
                  s6 = setP2PStatus True s5;
                  s7 = (case jvbJingleSession s of None \<Rightarrow> s6 | Some j \<Rightarrow> removeRemoteJVBTracks j s6);
                  s8 = addRemoteP2PTracks p s7;
                  s9 = (case jvbJingleSession s of None \<Rightarrow> s8
                        | Some j \<Rightarrow> suspendMediaTransferForJvbConnection j s8)
              in perform (Analytics ''p2p.established'') (perform (StartRemoteStats (sid p)) s9))"
    using onIceConnectionEstablished_current [OF assms] by blast
  define status where "status = (if p2p s then []
     else [Analytics ''p2pFailed: false'',
           SessionSetP2pVideoTransferActive (sid p) (lastN s \<noteq> 0),
           Emit (P2P_STATUS True),
           Emit (MEDIA_SESSION_ACTIVE_CHANGED (Some (sid p))),
           Emit (if isP2PConnectionInterrupted s then CONNECTION_INTERRUPTED else CONNECTION_RESTORED)])"
  have st: "\<forall>e \<in> set status. \<forall>n. \<not> endsSession n e"
    by (auto simp: status_def endsSession_def)
  let ?s5 = "s\<lparr>p2pEstablishmentDuration := d1, jvbEstablishmentDuration := d2,
                         effects := effects s @ pre\<rparr>"
  have s6: "setP2PStatus True ?s5 = ?s5\<lparr>p2p := True,
               dtmfManager := (if p2p s then dtmfManager s else None),
               effects := effects s @ pre @ status\<rparr>"
  proof (cases "p2p s")
    case True
    then show ?thesis by (simp add: setP2PStatus_True_active status_def)
  next
    case False
    then have "\<not> p2p ?s5" "p2pJingleSession ?s5 = Some p" using assms(2) by simp_all
    from setP2PStatus_True_inactive [OF this] False show ?thesis by (simp add: status_def)
  qed
  have all: "effects (onIceConnectionEstablished js s) =
             effects s @ pre @ status
             @ (case jvbJingleSession s of None \<Rightarrow> []
                | Some j \<Rightarrow> removedEvents (pc_remoteTracks j) (participants s))
             @ addedEvents True (pc_remoteTracks p)
                 (case jvbJingleSession s of None \<Rightarrow> participants s
                  | Some j \<Rightarrow> removedParticipants (pc_remoteTracks j) (participants s))
             @ (case jvbJingleSession s of None \<Rightarrow> []
                | Some j \<Rightarrow> [SessionSetMediaTransferActive (sid j) False])
             @ [StartRemoteStats (sid p), Analytics ''p2p.established'']
         \<and> p2p (onIceConnectionEstablished js s)
         \<and> p2pJingleSession (onIceConnectionEstablished js s) = Some p
         \<and> jvbJingleSession (onIceConnectionEstablished js s) = jvbJingleSession s
         \<and> participants (onIceConnectionEstablished js s) =
             addedParticipants True (pc_remoteTracks p)
               (case jvbJingleSession s of None \<Rightarrow> participants s
                | Some j \<Rightarrow> removedParticipants (pc_remoteTracks j) (participants s))"
    unfolding eq Let_def s6 using assms(2)
    by (cases "jvbJingleSession s")
       (simp_all add: perform_def removeRemoteJVBTracks_def removeRemoteTracks_eq
          addRemoteP2PTracks_def addRemoteTracks_eq suspendMediaTransferForJvbConnection_def)
  from all pre st
  show "\<exists>pre status.
           (\<forall>e \<in> set (pre @ status). \<forall>n. \<not> endsSession n e)
         \<and> effects (onIceConnectionEstablished js s) =
             effects s @ pre @ status
             @ (case jvbJingleSession s of None \<Rightarrow> []
                | Some j \<Rightarrow> removedEvents (pc_remoteTracks j) (participants s))
             @ addedEvents True (pc_remoteTracks p)
                 (case jvbJingleSession s of None \<Rightarrow> participants s
                  | Some j \<Rightarrow> removedParticipants (pc_remoteTracks j) (participants s))
             @ (case jvbJingleSession s of None \<Rightarrow> []
                | Some j \<Rightarrow> [SessionSetMediaTransferActive (sid j) False])
             @ [StartRemoteStats (sid p), Analytics ''p2p.established'']"
    by (intro exI [of _ pre] exI [of _ status]) auto
  from all show "p2p (onIceConnectionEstablished js s)"
    and "p2pJingleSession (onIceConnectionEstablished js s) = Some p"
    and "jvbJingleSession (onIceConnectionEstablished js s) = jvbJingleSession s"
    and "participants (onIceConnectionEstablished js s) =
           addedParticipants True (pc_remoteTracks p)
             (case jvbJingleSession s of None \<Rightarrow> participants s
              | Some j \<Rightarrow> removedParticipants (pc_remoteTracks j) (participants s))"
    by blast+
qed

text \<open>
  C6. ICE is established on a session that is flagged P2P and is the stored P2P session.
  After the handler the conference is in P2P mode, so \<open>isP2PActive\<close> returns true, and both
  session references are what they were: the bridge session stays stored, and no effect of
  the pass terminates or closes any session. Each remote track of the P2P session that belongs
  to a present participant is added: \<open>TRACK_ADDED\<close> is emitted for it and the participant
  \<open>getParticipantById\<close> returns for its owner holds it. Precisely, the participant found
  for an id afterwards is the one found before, with these tracks: those it held, less one
  occurrence (by identity) for each remote track of the bridge session, followed by the P2P
  tracks it owns in the order of the session. If a bridge session exists, the pass calls
  \<open>setMediaTransferActive(false)\<close> on it and emits \<open>TRACK_REMOVED\<close> for each of its
  remote tracks (distinct objects) that a participant holds; a participant that held no
  track twice afterwards holds none of the bridge tracks, unless the same object is also a
  remote track of the P2P session.
\<close>

theorem C6_p2p_established:
  assumes "isP2P jingleSession" and "p2pJingleSession s = Some p" and "sid p = sid jingleSession"
  shows "isP2PActive (onIceConnectionEstablished jingleSession s)
       \<and> p2pJingleSession (onIceConnectionEstablished jingleSession s) = Some p
       \<and> jvbJingleSession (onIceConnectionEstablished jingleSession s) = jvbJingleSession s
       \<and> (\<forall>t \<in> set (pc_remoteTracks p).
             r_isP2P t \<and> ownerEndpointId t \<in> p_id ` set (participants s)
             \<longrightarrow> Emit (TRACK_ADDED t) \<in> set (newEffects s (onIceConnectionEstablished jingleSession s))
                 \<and> (\<exists>q'. getParticipantById (Some (ownerEndpointId t))
                            (onIceConnectionEstablished jingleSession s) = Some q'
                         \<and> t \<in> set (p_tracks q')))
       \<and> (\<forall>i q. getParticipantById (Some i) s = Some q \<longrightarrow>
             (\<exists>K. getParticipantById (Some i) (onIceConnectionEstablished jingleSession s)
                    = Some (q\<lparr>p_tracks :=
                               K @ [t \<leftarrow> pc_remoteTracks p. r_isP2P t \<and> ownerEndpointId t = i]\<rparr>)
                 \<and> set K \<subseteq> set (p_tracks q)
                 \<and> map r_ref K
                     = fold remove1
                         (map r_ref (case jvbJingleSession s of None \<Rightarrow> [] | Some j \<Rightarrow> pc_remoteTracks j))
                         (map r_ref (p_tracks q))))
       \<and> (\<forall>e \<in> set (newEffects s (onIceConnectionEstablished jingleSession s)). \<forall>n. \<not> endsSession n e)
       \<and> (\<forall>j. jvbJingleSession s = Some j \<longrightarrow>
             SessionSetMediaTransferActive (sid j) False
               \<in> set (newEffects s (onIceConnectionEstablished jingleSession s))
             \<and> (distinct (map r_ref (pc_remoteTracks j)) \<longrightarrow>
                  (\<forall>t \<in> set (pc_remoteTracks j).
                      (\<exists>q \<in> set (participants s). holdsTrack t q)
                      \<longrightarrow> Emit (TRACK_REMOVED t)
                            \<in> set (newEffects s (onIceConnectionEstablished jingleSession s))))
             \<and> (\<forall>i q q'. getParticipantById (Some i) s = Some q
                    \<and> getParticipantById (Some i) (onIceConnectionEstablished jingleSession s) = Some q'
                    \<and> distinct (map r_ref (p_tracks q))
                  \<longrightarrow> (\<forall>t \<in> set (pc_remoteTracks j).
                          r_ref t \<notin> r_ref ` set (pc_remoteTracks p) \<longrightarrow> \<not> holdsTrack t q')))"
proof -
  let ?s' = "onIceConnectionEstablished jingleSession s"
  note f = onIceConnectionEstablished_effects [OF assms]
  let ?bridge = "case jvbJingleSession s of None \<Rightarrow> [] | Some j \<Rightarrow> pc_remoteTracks j"
  let ?removed = "case jvbJingleSession s of None \<Rightarrow> []
                  | Some j \<Rightarrow> removedEvents (pc_remoteTracks j) (participants s)"
  let ?ps = "case jvbJingleSession s of None \<Rightarrow> participants s
             | Some j \<Rightarrow> removedParticipants (pc_remoteTracks j) (participants s)"
  let ?susp = "case jvbJingleSession s of None \<Rightarrow> []
               | Some j \<Rightarrow> [SessionSetMediaTransferActive (sid j) False]"
  obtain pre status where ps: "\<forall>e \<in> set (pre @ status). \<forall>n. \<not> endsSession n e"
    and eff: "effects ?s' = effects s @ pre @ status @ ?removed
                @ addedEvents True (pc_remoteTracks p) ?ps @ ?susp
                @ [StartRemoteStats (sid p), Analytics ''p2p.established'']"
    using f(1) by blast
  have ne: "newEffects s ?s' = pre @ status @ ?removed
                @ addedEvents True (pc_remoteTracks p) ?ps @ ?susp
                @ [StartRemoteStats (sid p), Analytics ''p2p.established'']"
    using eff by (simp add: newEffects_def)
  have ids: "p_id ` set ?ps = p_id ` set (participants s)"
    by (simp add: p_id_set_removed split: option.splits)
  have psr: "?ps = removedParticipants ?bridge (participants s)"
    by (simp split: option.splits)
  have parts: "participants ?s' = addedParticipants True (pc_remoteTracks p)
                                    (removedParticipants ?bridge (participants s))"
    using f(5) psr by simp
  have held: "\<exists>K. getParticipantById (Some i) ?s'
                    = Some (q\<lparr>p_tracks :=
                               K @ [t \<leftarrow> pc_remoteTracks p. r_isP2P t \<and> ownerEndpointId t = i]\<rparr>)
                 \<and> set K \<subseteq> set (p_tracks q)
                 \<and> map r_ref K = fold remove1 (map r_ref ?bridge) (map r_ref (p_tracks q))"
    if "getParticipantById (Some i) s = Some q" for i q
    using tracks_after_loops [of i "participants s" q True "pc_remoteTracks p" ?bridge] that
    by (simp add: getParticipantById_def parts)
  have added: "Emit (TRACK_ADDED t) \<in> set (newEffects s ?s')
               \<and> (\<exists>q'. getParticipantById (Some (ownerEndpointId t)) ?s' = Some q' \<and> t \<in> set (p_tracks q'))"
    if tp: "t \<in> set (pc_remoteTracks p)" and ip: "r_isP2P t"
       and ow: "ownerEndpointId t \<in> p_id ` set (participants s)" for t
  proof -
    have "ownerEndpointId t \<in> set (map p_id ?ps)" using ow ids by simp
    then have "Emit (TRACK_ADDED t) \<in> set (addedEvents True (pc_remoteTracks p) ?ps)"
      using addedEvents_complete [OF tp, of True ?ps] ip by simp
    then have 1: "Emit (TRACK_ADDED t) \<in> set (newEffects s ?s')" unfolding ne by simp
    obtain q where q: "getParticipantById (Some (ownerEndpointId t)) s = Some q"
      using ow getParticipantById_iff [of "Some (ownerEndpointId t)" s] by auto
    from held [OF q] obtain K where
      "getParticipantById (Some (ownerEndpointId t)) ?s'
         = Some (q\<lparr>p_tracks := K @ [u \<leftarrow> pc_remoteTracks p. r_isP2P u
                                      \<and> ownerEndpointId u = ownerEndpointId t]\<rparr>)"
      by blast
    then have "\<exists>q'. getParticipantById (Some (ownerEndpointId t)) ?s' = Some q' \<and> t \<in> set (p_tracks q')"
      using tp ip by simp
    with 1 show ?thesis by simp
  qed
  have noend: "\<not> endsSession n e" if "e \<in> set (newEffects s ?s')" for e n
  proof -
    from that consider "e \<in> set (pre @ status)" | "e \<in> set ?removed"
      | "e \<in> set (addedEvents True (pc_remoteTracks p) ?ps)" | "e \<in> set ?susp"
      | "e \<in> {StartRemoteStats (sid p), Analytics ''p2p.established''}"
      unfolding ne by auto
    then show ?thesis
    proof cases
      case 1 then show ?thesis using ps by blast
    next
      case 2 then show ?thesis
        using not_ends_removed by (auto split: option.splits)
    next
      case 3 then show ?thesis using not_ends_added by blast
    next
      case 4 then show ?thesis by (auto simp: endsSession_def split: option.splits)
    next
      case 5 then show ?thesis by (auto simp: endsSession_def)
    qed
  qed
  have gone: "\<not> holdsTrack t q'"
    if j: "jvbJingleSession s = Some j" and g: "getParticipantById (Some i) s = Some q"
       and g': "getParticipantById (Some i) ?s' = Some q'"
       and d: "distinct (map r_ref (p_tracks q))"
       and tj: "t \<in> set (pc_remoteTracks j)" and np: "r_ref t \<notin> r_ref ` set (pc_remoteTracks p)"
    for j i q q' t
  proof -
    from held [OF g] obtain K where
      K: "getParticipantById (Some i) ?s'
            = Some (q\<lparr>p_tracks := K @ [u \<leftarrow> pc_remoteTracks p. r_isP2P u \<and> ownerEndpointId u = i]\<rparr>)"
      and refs: "map r_ref K = fold remove1 (map r_ref ?bridge) (map r_ref (p_tracks q))"
      by blast
    have "set (map r_ref K) = set (map r_ref (p_tracks q)) - set (map r_ref (pc_remoteTracks j))"
      unfolding refs using fold_remove1_distinct [OF d] by (simp add: j)
    then have "r_ref t \<notin> r_ref ` set K" using tj by auto
    then have 1: "\<forall>x \<in> set K. r_ref x \<noteq> r_ref t" by (metis imageI)
    have 2: "\<forall>x \<in> set (pc_remoteTracks p). r_ref x \<noteq> r_ref t"
      using np by (metis imageI)
    have "p_tracks q' = K @ [u \<leftarrow> pc_remoteTracks p. r_isP2P u \<and> ownerEndpointId u = i]"
      using K g' by auto
    then show ?thesis using 1 2 by (auto simp: holdsTrack_def list_ex_iff)
  qed
  have bridge: "SessionSetMediaTransferActive (sid j) False \<in> set (newEffects s ?s')
             \<and> (distinct (map r_ref (pc_remoteTracks j)) \<longrightarrow>
                  (\<forall>t \<in> set (pc_remoteTracks j).
                      (\<exists>q \<in> set (participants s). holdsTrack t q)
                      \<longrightarrow> Emit (TRACK_REMOVED t) \<in> set (newEffects s ?s')))"
    if j: "jvbJingleSession s = Some j" for j
  proof -
    have "Emit (TRACK_REMOVED t) \<in> set (newEffects s ?s')"
      if "distinct (map r_ref (pc_remoteTracks j))" "t \<in> set (pc_remoteTracks j)"
         "\<exists>q \<in> set (participants s). holdsTrack t q" for t
      using removedEvents_complete [OF that] unfolding ne by (simp add: j)
    then show ?thesis unfolding ne by (auto simp: j)
  qed
  have base: "isP2PActive ?s'" "p2pJingleSession ?s' = Some p" "jvbJingleSession ?s' = jvbJingleSession s"
    using f(2,3,4) by (simp_all add: isP2PActive_def)
  show ?thesis
    using base added held noend bridge gone by blast
qed

theorem C6_p2p_established_witness:
  "isP2P sessP \<and> p2pJingleSession confPending = Some sessP \<and> \<not> isP2PActive confPending
   \<and> jvbJingleSession confPending = Some sessJ
   \<and> map_option p_tracks (getParticipantById (Some ''bbb2222'') confPending) = Some [trackJ]
   \<and> isP2PActive (onIceConnectionEstablished sessP confPending)
   \<and> jvbJingleSession (onIceConnectionEstablished sessP confPending) = Some sessJ
   \<and> Emit (TRACK_ADDED trackP) \<in> set (newEffects confPending (onIceConnectionEstablished sessP confPending))
   \<and> Emit (TRACK_REMOVED trackJ) \<in> set (newEffects confPending (onIceConnectionEstablished sessP confPending))
   \<and> SessionSetMediaTransferActive 7 False
        \<in> set (newEffects confPending (onIceConnectionEstablished sessP confPending))
   \<and> map_option p_tracks
        (getParticipantById (Some ''bbb2222'') (onIceConnectionEstablished sessP confPending))
       = Some [trackP]"
proof -
  let ?s' = "onIceConnectionEstablished sessP confPending"
  have h: "isP2P sessP" "p2pJingleSession confPending = Some sessP" "sid sessP = sid sessP"
    by (simp_all add: example_defs)
  have a: "\<not> isP2PActive confPending" "jvbJingleSession confPending = Some sessJ" "sid sessJ = 7"
    by (simp_all add: example_defs isP2PActive_def)
  have t: "trackP \<in> set (pc_remoteTracks sessP)" "r_isP2P trackP"
     "ownerEndpointId trackP \<in> p_id ` set (participants confPending)"
     "distinct (map r_ref (pc_remoteTracks sessJ))" "trackJ \<in> set (pc_remoteTracks sessJ)"
     "\<exists>q \<in> set (participants confPending). holdsTrack trackJ q"
    by (simp_all add: example_defs holdsTrack_def)
  have g: "getParticipantById (Some ''bbb2222'') confPending = Some (peerB\<lparr>p_tracks := [trackJ]\<rparr>)"
    by (simp add: getParticipantById_def confPending_def conf0_def peerB_def)
  note th = C6_p2p_established [OF h]
  have basic: "isP2PActive ?s'" "jvbJingleSession ?s' = Some sessJ"
      "Emit (TRACK_ADDED trackP) \<in> set (newEffects confPending ?s')"
      "Emit (TRACK_REMOVED trackJ) \<in> set (newEffects confPending ?s')"
      "SessionSetMediaTransferActive 7 False \<in> set (newEffects confPending ?s')"
    using th a t by (metis (no_types, lifting))+
  have "\<exists>K. getParticipantById (Some ''bbb2222'') ?s'
               = Some (peerB\<lparr>p_tracks := [trackJ]\<rparr>
                        \<lparr>p_tracks := K @ [t \<leftarrow> pc_remoteTracks sessP.
                                           r_isP2P t \<and> ownerEndpointId t = ''bbb2222'']\<rparr>)
            \<and> set K \<subseteq> set (p_tracks (peerB\<lparr>p_tracks := [trackJ]\<rparr>))
            \<and> map r_ref K
                = fold remove1
                    (map r_ref (case jvbJingleSession confPending of None \<Rightarrow> []
                                | Some j \<Rightarrow> pc_remoteTracks j))
                    (map r_ref (p_tracks (peerB\<lparr>p_tracks := [trackJ]\<rparr>)))"
    using th g by blast
  then have "map_option p_tracks (getParticipantById (Some ''bbb2222'') ?s') = Some [trackP]"
    by (auto simp: a(2) sessJ_def sessP_def trackJ_def trackP_def)
  then show ?thesis using basic h a g by simp
qed


subsection \<open>Rejected session-initiate\<close>

lemma rejectIncomingCall_eq:
  "ro_errorMsg opt \<noteq> [] \<Longrightarrow> rejectIncomingCall js (Some opt) s =
     s\<lparr>effects := effects s @ [LogWarn (ro_errorMsg opt),
          SessionTerminate (sid js) (Some (ro_reason opt)) (Some (ro_reasonDescription opt)) True]\<rparr>"
  by (simp add: rejectIncomingCall_def perform_def)

lemma reject_sdp_mode:
  assumes "isP2P js" "\<not> usesUnifiedPlan contentName"
  shows "onIncomingCall js contentName s =
          s\<lparr>effects := effects s @ [LogWarn ''P2P across two endpoints in different SDP modes is disabled'',
               SessionTerminate (sid js) (Some ''decline'') (Some ''P2P disabled'') True]\<rparr>"
  using assms by (simp add: onIncomingCall_def onIncomingCallP2P_def usesUnifiedPlan_def rejectIncomingCall_eq)

lemma reject_disabled:
  assumes "isP2P js" "usesUnifiedPlan contentName" "p2pDisabledForOffer s"
  shows "onIncomingCall js contentName s =
          s\<lparr>effects := effects s @ [LogWarn ''P2P mode disabled in the configuration or browser unsupported'',
               SessionTerminate (sid js) (Some ''decline'') (Some ''P2P disabled'') True]\<rparr>"
  using assms
  by (auto simp: onIncomingCall_def onIncomingCallP2P_def usesUnifiedPlan_def p2pDisabledForOffer_def
        rejectIncomingCall_eq)

lemma reject_duplicate:
  assumes "isP2P js" "usesUnifiedPlan contentName" "\<not> p2pDisabledForOffer s" "p2pJingleSession s \<noteq> None"
  shows "onIncomingCall js contentName s =
          s\<lparr>effects := effects s @ [LogWarn (''Duplicated P2P '' @ [CHR 0x22] @ ''session-initiate'' @ [CHR 0x22]),
               SessionTerminate (sid js) (Some ''busy'') (Some ''P2P already in progress'') True]\<rparr>"
  using assms
  by (auto simp: onIncomingCall_def onIncomingCallP2P_def usesUnifiedPlan_def p2pDisabledForOffer_def
        rejectIncomingCall_eq)

lemma reject_not_p2p_mode:
  assumes "isP2P js" "usesUnifiedPlan contentName" "\<not> p2pDisabledForOffer s" "p2pJingleSession s = None"
          "\<not> shouldBeInP2PMode s"
  shows "onIncomingCall js contentName s =
          s\<lparr>effects := effects s @ [Analytics ''p2p.declined'',
               LogWarn (''Received P2P '' @ [CHR 0x22] @ ''session-initiate''
                                @ [CHR 0x22] @ '' when should not be in P2P mode''),
               SessionTerminate (sid js) (Some ''decline'') (Some ''P2P requirements not met'') True]\<rparr>"
  using assms
  by (auto simp: onIncomingCall_def onIncomingCallP2P_def usesUnifiedPlan_def p2pDisabledForOffer_def
        rejectIncomingCall_eq perform_def)

lemma reject_non_focus:
  assumes "\<not> isP2P js" "isFocus (remoteJid js) s \<noteq> Some True"
  shows "onIncomingCall js contentName s =
          s\<lparr>effects := effects s @ [LogWarn ''Rejecting session-initiate from non-focus.'',
               SessionTerminate (sid js) (Some ''security-error'')
                 (Some ''Rejecting session-initiate from non-focus.'') True]\<rparr>"
  using assms by (simp add: onIncomingCall_def rejectIncomingCall_eq)

lemma accept_p2p_offer:
  assumes "isP2P js" "usesUnifiedPlan contentName" "\<not> p2pDisabledForOffer s" "p2pJingleSession s = None"
          "shouldBeInP2PMode s"
  shows "onIncomingCall js contentName s =
          s\<lparr>isP2PConnectionInterrupted := False, p2pJingleSession := Some js,
            effects := effects s @ [SendConferenceJoinAnalyticsEvent, SessionInitialize (sid js),
               SessionAcceptOffer (sid js) (getLocalTracks None s)]\<rparr>"
  using assms
  by (auto simp: onIncomingCall_def onIncomingCallP2P_def usesUnifiedPlan_def p2pDisabledForOffer_def
        acceptP2PIncomingCall_def Let_def perform_def getLocalTracks_def)

text \<open>
  C7 (as amended). Every protocol-violating session-initiate is answered by terminating the
  offered session with a reason, with \<open>sendSessionTerminate\<close> set, and by nothing else but
  a warning (and one analytics event); no \<open>CONFERENCE_FAILED\<close> is emitted and the stored
  sessions are unchanged. For a P2P offer the tests run in this order and the first that
  applies decides: an offer whose first content is not named 0 or 1 (another SDP mode) is
  declined; an offer while P2P is disabled, which means that P2P is not enabled in the
  configuration and the P2P test mode is off, or that the browser is a Firefox without P2P
  support, is declined; an offer while a P2P session is stored is answered busy; an offer
  while the conference should not be in P2P mode is declined. A P2P offer that fails none of
  these tests is accepted and stored; this includes an offer received with P2P disabled in
  the configuration while the P2P test mode is on. A bridge session-initiate whose sender is
  not the focus is rejected with \<open>security-error\<close>.
\<close>

theorem C7_protocol_violations_rejected:
  "(isP2P js \<and> \<not> usesUnifiedPlan contentName \<longrightarrow>
      newEffects s (onIncomingCall js contentName s)
        = [LogWarn ''P2P across two endpoints in different SDP modes is disabled'',
           SessionTerminate (sid js) (Some ''decline'') (Some ''P2P disabled'') True])
   \<and> (isP2P js \<and> usesUnifiedPlan contentName \<and> p2pDisabledForOffer s \<longrightarrow>
      newEffects s (onIncomingCall js contentName s)
        = [LogWarn ''P2P mode disabled in the configuration or browser unsupported'',
           SessionTerminate (sid js) (Some ''decline'') (Some ''P2P disabled'') True])
   \<and> (isP2P js \<and> usesUnifiedPlan contentName \<and> \<not> p2pDisabledForOffer s \<and> p2pJingleSession s \<noteq> None \<longrightarrow>
      newEffects s (onIncomingCall js contentName s)
        = [LogWarn (''Duplicated P2P '' @ [CHR 0x22] @ ''session-initiate'' @ [CHR 0x22]),
           SessionTerminate (sid js) (Some ''busy'') (Some ''P2P already in progress'') True])
   \<and> (isP2P js \<and> usesUnifiedPlan contentName \<and> \<not> p2pDisabledForOffer s \<and> p2pJingleSession s = None
        \<and> \<not> shouldBeInP2PMode s \<longrightarrow>
      newEffects s (onIncomingCall js contentName s)
        = [Analytics ''p2p.declined'',
           LogWarn (''Received P2P '' @ [CHR 0x22] @ ''session-initiate''
                      @ [CHR 0x22] @ '' when should not be in P2P mode''),
           SessionTerminate (sid js) (Some ''decline'') (Some ''P2P requirements not met'') True])
   \<and> (\<not> isP2P js \<and> isFocus (remoteJid js) s \<noteq> Some True \<longrightarrow>
      newEffects s (onIncomingCall js contentName s)
        = [LogWarn ''Rejecting session-initiate from non-focus.'',
           SessionTerminate (sid js) (Some ''security-error'')
             (Some ''Rejecting session-initiate from non-focus.'') True])
   \<and> ((isP2P js \<and> (\<not> usesUnifiedPlan contentName \<or> p2pDisabledForOffer s
                     \<or> p2pJingleSession s \<noteq> None \<or> \<not> shouldBeInP2PMode s))
        \<or> (\<not> isP2P js \<and> isFocus (remoteJid js) s \<noteq> Some True) \<longrightarrow>
      (\<exists>reason description.
          reason \<in> {''decline'', ''busy'', ''security-error''}
          \<and> SessionTerminate (sid js) (Some reason) (Some description) True
               \<in> set (newEffects s (onIncomingCall js contentName s)))
      \<and> (\<forall>e \<in> set (newEffects s (onIncomingCall js contentName s)). \<not> isConferenceFailed e)
      \<and> p2pJingleSession (onIncomingCall js contentName s) = p2pJingleSession s
      \<and> jvbJingleSession (onIncomingCall js contentName s) = jvbJingleSession s)
   \<and> (isP2P js \<and> usesUnifiedPlan contentName \<and> \<not> p2pDisabledForOffer s \<and> p2pJingleSession s = None
        \<and> shouldBeInP2PMode s \<longrightarrow>
      p2pJingleSession (onIncomingCall js contentName s) = Some js
      \<and> newEffects s (onIncomingCall js contentName s)
          = [SendConferenceJoinAnalyticsEvent, SessionInitialize (sid js),
             SessionAcceptOffer (sid js) (getLocalTracks None s)])
   \<and> (\<not> isP2PEnabled s \<and> isP2PTestModeEnabled s \<and> \<not> (browser_isFirefox s \<and> \<not> firefoxP2pEnabled s)
        \<longrightarrow> \<not> p2pDisabledForOffer s)"
proof -
  have 1: "newEffects s (onIncomingCall js contentName s)
        = [LogWarn ''P2P across two endpoints in different SDP modes is disabled'',
           SessionTerminate (sid js) (Some ''decline'') (Some ''P2P disabled'') True]"
    if "isP2P js" "\<not> usesUnifiedPlan contentName"
    unfolding reject_sdp_mode [OF that] by (simp add: newEffects_def)
  have 2: "newEffects s (onIncomingCall js contentName s)
        = [LogWarn ''P2P mode disabled in the configuration or browser unsupported'',
           SessionTerminate (sid js) (Some ''decline'') (Some ''P2P disabled'') True]"
    if "isP2P js" "usesUnifiedPlan contentName" "p2pDisabledForOffer s"
    unfolding reject_disabled [OF that] by (simp add: newEffects_def)
  have 3: "newEffects s (onIncomingCall js contentName s)
        = [LogWarn (''Duplicated P2P '' @ [CHR 0x22] @ ''session-initiate'' @ [CHR 0x22]),
           SessionTerminate (sid js) (Some ''busy'') (Some ''P2P already in progress'') True]"
    if "isP2P js" "usesUnifiedPlan contentName" "\<not> p2pDisabledForOffer s" "p2pJingleSession s \<noteq> None"
    unfolding reject_duplicate [OF that] by (simp add: newEffects_def)
  have 4: "newEffects s (onIncomingCall js contentName s)
        = [Analytics ''p2p.declined'',
           LogWarn (''Received P2P '' @ [CHR 0x22] @ ''session-initiate''
                      @ [CHR 0x22] @ '' when should not be in P2P mode''),
           SessionTerminate (sid js) (Some ''decline'') (Some ''P2P requirements not met'') True]"
    if "isP2P js" "usesUnifiedPlan contentName" "\<not> p2pDisabledForOffer s" "p2pJingleSession s = None"
       "\<not> shouldBeInP2PMode s"
    unfolding reject_not_p2p_mode [OF that] by (simp add: newEffects_def)
  have 5: "newEffects s (onIncomingCall js contentName s)
        = [LogWarn ''Rejecting session-initiate from non-focus.'',
           SessionTerminate (sid js) (Some ''security-error'')
             (Some ''Rejecting session-initiate from non-focus.'') True]"
    if "\<not> isP2P js" "isFocus (remoteJid js) s \<noteq> Some True"
    unfolding reject_non_focus [OF that] by (simp add: newEffects_def)
  have 6: "(\<exists>reason description.
          reason \<in> {''decline'', ''busy'', ''security-error''}
          \<and> SessionTerminate (sid js) (Some reason) (Some description) True
               \<in> set (newEffects s (onIncomingCall js contentName s)))
      \<and> (\<forall>e \<in> set (newEffects s (onIncomingCall js contentName s)). \<not> isConferenceFailed e)
      \<and> p2pJingleSession (onIncomingCall js contentName s) = p2pJingleSession s
      \<and> jvbJingleSession (onIncomingCall js contentName s) = jvbJingleSession s"
    if v: "(isP2P js \<and> (\<not> usesUnifiedPlan contentName \<or> p2pDisabledForOffer s
                     \<or> p2pJingleSession s \<noteq> None \<or> \<not> shouldBeInP2PMode s))
        \<or> (\<not> isP2P js \<and> isFocus (remoteJid js) s \<noteq> Some True)"
  proof -
    consider (a) "isP2P js" "\<not> usesUnifiedPlan contentName"
      | (b) "isP2P js" "usesUnifiedPlan contentName" "p2pDisabledForOffer s"
      | (c) "isP2P js" "usesUnifiedPlan contentName" "\<not> p2pDisabledForOffer s" "p2pJingleSession s \<noteq> None"
      | (d) "isP2P js" "usesUnifiedPlan contentName" "\<not> p2pDisabledForOffer s" "p2pJingleSession s = None"
            "\<not> shouldBeInP2PMode s"
      | (e) "\<not> isP2P js" "isFocus (remoteJid js) s \<noteq> Some True"
      using v by blast
    then show ?thesis
    proof cases
      case a
      show ?thesis unfolding 1 [OF a] unfolding reject_sdp_mode [OF a]
        by (simp add: isConferenceFailed_def)
    next
      case b
      show ?thesis unfolding 2 [OF b] unfolding reject_disabled [OF b]
        by (simp add: isConferenceFailed_def)
    next
      case c
      show ?thesis unfolding 3 [OF c] unfolding reject_duplicate [OF c]
        by (simp add: isConferenceFailed_def)
    next
      case d
      show ?thesis unfolding 4 [OF d] unfolding reject_not_p2p_mode [OF d]
        by (simp add: isConferenceFailed_def)
    next
      case e
      show ?thesis unfolding 5 [OF e] unfolding reject_non_focus [OF e]
        by (simp add: isConferenceFailed_def)
    qed
  qed
  have 7: "p2pJingleSession (onIncomingCall js contentName s) = Some js
      \<and> newEffects s (onIncomingCall js contentName s)
          = [SendConferenceJoinAnalyticsEvent, SessionInitialize (sid js),
             SessionAcceptOffer (sid js) (getLocalTracks None s)]"
    if "isP2P js" "usesUnifiedPlan contentName" "\<not> p2pDisabledForOffer s" "p2pJingleSession s = None"
       "shouldBeInP2PMode s"
    unfolding accept_p2p_offer [OF that] by (simp add: newEffects_def)
  have 8: "\<not> isP2PEnabled s \<and> isP2PTestModeEnabled s \<and> \<not> (browser_isFirefox s \<and> \<not> firefoxP2pEnabled s)
        \<longrightarrow> \<not> p2pDisabledForOffer s"
    by (auto simp: p2pDisabledForOffer_def)
  show ?thesis using 1 2 3 4 5 6 7 8 by blast
qed

theorem C7_protocol_violations_witness:
  "newEffects conf0 (onIncomingCall offerP (Some ''audio'') conf0)
     = [LogWarn ''P2P across two endpoints in different SDP modes is disabled'',
        SessionTerminate 20 (Some ''decline'') (Some ''P2P disabled'') True]
   \<and> newEffects confDisabled (onIncomingCall offerP (Some ''0'') confDisabled)
     = [LogWarn ''P2P mode disabled in the configuration or browser unsupported'',
        SessionTerminate 20 (Some ''decline'') (Some ''P2P disabled'') True]
   \<and> newEffects confP2P (onIncomingCall offerP (Some ''0'') confP2P)
     = [LogWarn (''Duplicated P2P '' @ [CHR 0x22] @ ''session-initiate'' @ [CHR 0x22]),
        SessionTerminate 20 (Some ''busy'') (Some ''P2P already in progress'') True]
   \<and> newEffects confJvb (onIncomingCall offerP (Some ''0'') confJvb)
     = [Analytics ''p2p.declined'',
        LogWarn (''Received P2P '' @ [CHR 0x22] @ ''session-initiate''
                   @ [CHR 0x22] @ '' when should not be in P2P mode''),
        SessionTerminate 20 (Some ''decline'') (Some ''P2P requirements not met'') True]
   \<and> newEffects conf0 (onIncomingCall offerJ (Some ''0'') conf0)
     = [LogWarn ''Rejecting session-initiate from non-focus.'',
        SessionTerminate 21 (Some ''security-error'')
          (Some ''Rejecting session-initiate from non-focus.'') True]
   \<and> p2pJingleSession (onIncomingCall offerP (Some ''0'') confP2P) = Some sessP
   \<and> jvbJingleSession (onIncomingCall offerJ (Some ''0'') conf0) = None
   \<and> p2pJingleSession (onIncomingCall offerP (Some ''0'') conf0) = Some offerP
   \<and> newEffects conf0 (onIncomingCall offerP (Some ''0'') conf0)
     = [SendConferenceJoinAnalyticsEvent, SessionInitialize 20, SessionAcceptOffer 20 []]"
proof -
  have a: "isP2P offerP" "\<not> usesUnifiedPlan (Some ''audio'')" "usesUnifiedPlan (Some ''0'')"
     "\<not> p2pDisabledForOffer confP2P" "p2pJingleSession confP2P \<noteq> None" "sid offerP = 20"
     "\<not> p2pDisabledForOffer confJvb" "p2pJingleSession confJvb = None" "\<not> shouldBeInP2PMode confJvb"
     "\<not> isP2P offerJ" "isFocus (remoteJid offerJ) conf0 \<noteq> Some True" "sid offerJ = 21"
     "p2pJingleSession confP2P = Some sessP" "jvbJingleSession conf0 = None"
     "p2pDisabledForOffer confDisabled"
     "\<not> p2pDisabledForOffer conf0" "p2pJingleSession conf0 = None" "shouldBeInP2PMode conf0"
     "getLocalTracks None conf0 = []"
    by (simp_all add: example_defs accessor_defs usesUnifiedPlan_def p2pDisabledForOffer_def isFocus_def
          getLocalTracks_def)
  show ?thesis
    using C7_protocol_violations_rejected [of offerP "Some ''audio''" conf0]
          C7_protocol_violations_rejected [of offerP "Some ''0''" confDisabled]
          C7_protocol_violations_rejected [of offerP "Some ''0''" confP2P]
          C7_protocol_violations_rejected [of offerP "Some ''0''" confJvb]
          C7_protocol_violations_rejected [of offerJ "Some ''0''" conf0]
          C7_protocol_violations_rejected [of offerP "Some ''0''" conf0]
          a
    by simp
qed

text \<open>
  C7 as stated fails: P2P is disabled in the configuration, yet with the P2P test mode on
  an offer from the single peer is not declined; it is accepted and stored.
\<close>

theorem C7_counterexample:
  "isP2P offerP \<and> usesUnifiedPlan (Some ''0'') \<and> \<not> isP2PEnabled confTestMode
   \<and> isP2PTestModeEnabled confTestMode
   \<and> p2pJingleSession confTestMode = None \<and> shouldBeInP2PMode confTestMode
   \<and> p2pJingleSession (onIncomingCall offerP (Some ''0'') confTestMode) = Some offerP
   \<and> newEffects confTestMode (onIncomingCall offerP (Some ''0'') confTestMode)
       = [SendConferenceJoinAnalyticsEvent, SessionInitialize 20, SessionAcceptOffer 20 []]"
  by (simp add: onIncomingCall_def onIncomingCallP2P_def acceptP2PIncomingCall_def
        rejectIncomingCall_def Let_def perform_def newEffects_def getLocalTracks_def
        usesUnifiedPlan_def example_defs accessor_defs)


subsection \<open>The update-room-presence pass\<close>

lemma updateTracksPresence_reports:
  "fst (updateTracksPresence sm sv ts (pc, vtc, sl)) \<Longrightarrow>
     pc \<or> vtc \<or> (\<exists>t \<in> set ts. \<exists>sl'. reportsChange sm sv t sl')"
proof (induction ts arbitrary: pc vtc sl)
  case Nil
  then show ?case by simp
next
  case (Cons t ts)
  obtain m sl1 where m: "sm (t_sourceName t) (t_muted t) sl = (m, sl1)" by (cases "sm (t_sourceName t) (t_muted t) sl")
  show ?case
  proof (cases "t_type t = VIDEO")
    case True
    obtain v sl2 where v: "sv (t_sourceName t) (t_videoType t) sl1 = (v, sl2)"
      by (cases "sv (t_sourceName t) (t_videoType t) sl1")
    from Cons.prems have "fst (updateTracksPresence sm sv ts (pc \<or> m \<or> v, v, sl2))"
      by (simp add: m v True)
    from Cons.IH [OF this] have "pc \<or> m \<or> v \<or> (\<exists>t \<in> set ts. \<exists>sl'. reportsChange sm sv t sl')"
      by blast
    moreover have "m \<Longrightarrow> reportsChange sm sv t sl" by (simp add: reportsChange_def m)
    moreover have "v \<Longrightarrow> reportsChange sm sv t sl1" by (simp add: reportsChange_def v True)
    ultimately show ?thesis by auto
  next
    case False
    from Cons.prems have "fst (updateTracksPresence sm sv ts (pc \<or> m \<or> vtc, vtc, sl1))"
      by (simp add: m False)
    from Cons.IH [OF this] have "pc \<or> m \<or> vtc \<or> (\<exists>t \<in> set ts. \<exists>sl'. reportsChange sm sv t sl')"
      by blast
    moreover have "m \<Longrightarrow> reportsChange sm sv t sl" by (simp add: reportsChange_def m)
    ultimately show ?thesis by auto
  qed
qed

lemma updateTracksPresence_unchanged:
  "\<forall>t \<in> set ts. keepsLayer sm sv t sl \<Longrightarrow>
     updateTracksPresence sm sv ts (pc, False, sl) = (pc, False, sl)"
  by (induction ts arbitrary: pc) (auto simp: keepsLayer_def)

lemma presenceCount_simps [simp]:
  "presenceCount [] = 0" "presenceCount [SendPresence] = 1"
  "presenceCount [Thrown m] = 0"
  by (simp_all add: presenceCount_def)

text \<open>One pass: what it does to the conference, for a session and a context not yet marked.\<close>

lemma updateRoomPresence_run:
  assumes "\<not> (case ctx of None \<Rightarrow> False | Some k \<Rightarrow> ctxSkip (fst c) k)"
  shows "\<exists>es. newEffects (fst c) (fst (updateRoomPresence sm sv (Some js) ctx c)) = es
           \<and> presenceCount es \<le> 1
           \<and> (SendPresence \<in> set es \<longrightarrow> fst (updateTracksPresence sm sv (pc_localTracks js) (False, False, snd c)))
           \<and> (\<forall>k. ctx = Some k \<longrightarrow> ctxSkip (fst (updateRoomPresence sm sv (Some js) ctx c)) k)"
proof -
  obtain pc vtc sl' where r: "updateTracksPresence sm sv (pc_localTracks js) (False, False, snd c) = (pc, vtc, sl')"
    by (cases "updateTracksPresence sm sv (pc_localTracks js) (False, False, snd c)") auto
  show ?thesis
    using assms
    by (cases ctx; cases pc; cases "room (fst c)")
       (simp_all add: updateRoomPresence_def r Let_def newEffects_def perform_def)
qed

lemma updateRoomPresence_skip:
  "ctxSkip (fst c) k \<Longrightarrow> updateRoomPresence sm sv session (Some k) c = c"
  by (simp add: updateRoomPresence_def split: option.splits)

lemma updateRoomPresence_None: "updateRoomPresence sm sv None ctx c = c"
  by (simp add: updateRoomPresence_def)

text \<open>
  C8. The pass that updates room presence, with the two setters of the signaling layer
  \<open>sm\<close> (mute status) and \<open>sv\<close> (video type) as parameters. A call with a context that is
  already marked changes nothing and sends nothing. A call with a session marks its context,
  so a second call with the same context, for any session, changes nothing and sends no
  second presence; two calls with the same context send at most one presence in total.
  Presence is sent only if a setter reported a change for some local track of the session;
  when the setters leave the layer unchanged for every local track, nothing is sent.
\<close>

theorem C8_update_room_presence:
  "(ctxSkip (fst c) k \<longrightarrow> updateRoomPresence sm sv session (Some k) c = c)
   \<and> ctxSkip (fst (updateRoomPresence sm sv (Some js) (Some k) c)) k
   \<and> updateRoomPresence sm sv session2 (Some k) (updateRoomPresence sm sv (Some js) (Some k) c)
       = updateRoomPresence sm sv (Some js) (Some k) c
   \<and> presenceCount (newEffects (fst c)
        (fst (updateRoomPresence sm sv session2 (Some k) (updateRoomPresence sm sv session (Some k) c)))) \<le> 1
   \<and> (SendPresence \<in> set (newEffects (fst c) (fst (updateRoomPresence sm sv session ctx c))) \<longrightarrow>
        (\<exists>js'. session = Some js' \<and> (\<exists>t \<in> set (pc_localTracks js'). \<exists>sl. reportsChange sm sv t sl)))
   \<and> ((\<forall>js'. session = Some js' \<longrightarrow> (\<forall>t \<in> set (pc_localTracks js'). keepsLayer sm sv t (snd c))) \<longrightarrow>
        SendPresence \<notin> set (newEffects (fst c) (fst (updateRoomPresence sm sv session ctx c)))
        \<and> snd (updateRoomPresence sm sv session ctx c) = snd c)"
proof -
  have skip: "ctxSkip (fst c) k \<longrightarrow> updateRoomPresence sm sv session (Some k) c = c"
    by (simp add: updateRoomPresence_skip)
  have mark: "ctxSkip (fst (updateRoomPresence sm sv (Some js) (Some k) c)) k" for js c
  proof (cases "ctxSkip (fst c) k")
    case True
    then show ?thesis by (simp add: updateRoomPresence_skip)
  next
    case False
    then show ?thesis using updateRoomPresence_run [where ctx = "Some k" and c = c and sm = sm and sv = sv and js = js] by auto
  qed
  have twice: "updateRoomPresence sm sv session2 (Some k) (updateRoomPresence sm sv (Some js) (Some k) c)
       = updateRoomPresence sm sv (Some js) (Some k) c" for js
    by (rule updateRoomPresence_skip) (rule mark)
  have one: "presenceCount (newEffects (fst c) (fst (updateRoomPresence sm sv session ctx c))) \<le> 1"
    for session ctx
  proof (cases session)
    case None
    then show ?thesis by (simp add: updateRoomPresence_None newEffects_def)
  next
    case (Some js)
    show ?thesis
    proof (cases "case ctx of None \<Rightarrow> False | Some k \<Rightarrow> ctxSkip (fst c) k")
      case True
      then have "updateRoomPresence sm sv session ctx c = c"
        by (auto simp: updateRoomPresence_def Some split: option.splits)
      then show ?thesis by (simp add: newEffects_def)
    next
      case False
      then show ?thesis using updateRoomPresence_run [OF False, where sm = sm and sv = sv and js = js] Some by auto
    qed
  qed
  have count: "presenceCount (newEffects (fst c)
        (fst (updateRoomPresence sm sv session2 (Some k) (updateRoomPresence sm sv session (Some k) c)))) \<le> 1"
  proof (cases session)
    case None
    then show ?thesis using one [of session2 "Some k"] by (simp add: updateRoomPresence_None)
  next
    case (Some js)
    then show ?thesis using one [of "Some js" "Some k"] by (simp add: twice)
  qed
  have sent: "\<exists>js'. session = Some js' \<and> (\<exists>t \<in> set (pc_localTracks js'). \<exists>sl. reportsChange sm sv t sl)"
    if s: "SendPresence \<in> set (newEffects (fst c) (fst (updateRoomPresence sm sv session ctx c)))"
  proof (cases session)
    case None
    with s show ?thesis by (simp add: updateRoomPresence_None newEffects_def)
  next
    case (Some js)
    have nskip: "\<not> (case ctx of None \<Rightarrow> False | Some k \<Rightarrow> ctxSkip (fst c) k)"
    proof
      assume "case ctx of None \<Rightarrow> False | Some k \<Rightarrow> ctxSkip (fst c) k"
      then have "updateRoomPresence sm sv session ctx c = c"
        by (auto simp: updateRoomPresence_def Some split: option.splits)
      with s show False by (simp add: newEffects_def)
    qed
    from updateRoomPresence_run [OF nskip, where sm = sm and sv = sv and js = js] s Some
    have "fst (updateTracksPresence sm sv (pc_localTracks js) (False, False, snd c))" by auto
    from updateTracksPresence_reports [OF this] Some show ?thesis by auto
  qed
  have keep: "SendPresence \<notin> set (newEffects (fst c) (fst (updateRoomPresence sm sv session ctx c)))
        \<and> snd (updateRoomPresence sm sv session ctx c) = snd c"
    if k: "\<forall>js'. session = Some js' \<longrightarrow> (\<forall>t \<in> set (pc_localTracks js'). keepsLayer sm sv t (snd c))"
  proof (cases session)
    case None
    then show ?thesis by (simp add: updateRoomPresence_None newEffects_def)
  next
    case (Some js)
    with k have "\<forall>t \<in> set (pc_localTracks js). keepsLayer sm sv t (snd c)" by simp
    from updateTracksPresence_unchanged [OF this, of False]
    show ?thesis
      by (cases ctx) (simp_all add: updateRoomPresence_def Some Let_def newEffects_def)
  qed
  show ?thesis using skip mark twice count sent keep by blast
qed


theorem C8_update_room_presence_witness:
  "newEffects conf0 (fst (updateRoomPresence layerSetTrackMuteStatus layerSetTrackVideoType
       (Some sessLocal) (Some 5) (conf0, layer0))) = [SendPresence]
   \<and> updateRoomPresence layerSetTrackMuteStatus layerSetTrackVideoType (Some sessLocal) (Some 5)
        (updateRoomPresence layerSetTrackMuteStatus layerSetTrackVideoType (Some sessLocal) (Some 5) (conf0, layer0))
      = updateRoomPresence layerSetTrackMuteStatus layerSetTrackVideoType (Some sessLocal) (Some 5) (conf0, layer0)
   \<and> reportsChange layerSetTrackMuteStatus layerSetTrackVideoType micTrack layer0"
proof -
  have e: "newEffects conf0 (fst (updateRoomPresence layerSetTrackMuteStatus layerSetTrackVideoType
       (Some sessLocal) (Some 5) (conf0, layer0))) = [SendPresence]"
    by (simp add: updateRoomPresence_def Let_def layerSetTrackMuteStatus_def layerSetTrackVideoType_def
          newEffects_def perform_def example_defs)
  have r: "reportsChange layerSetTrackMuteStatus layerSetTrackVideoType micTrack layer0"
    by (simp add: reportsChange_def layerSetTrackMuteStatus_def example_defs)
  show ?thesis
    using C8_update_room_presence [where c = "(conf0, layer0)" and k = 5
            and sm = layerSetTrackMuteStatus and sv = layerSetTrackVideoType
            and session = "Some sessLocal" and js = sessLocal and ?session2.0 = "Some sessLocal"
            and ctx = "Some 5"] e r
    by simp
qed


subsection \<open>Leaving the conference\<close>

lemma leave_phases: "leave s = leaveRoom (leaveSessions (leaveTimers (leaveMedia s)))"
  unfolding leave_def leaveRoom_def leaveSessions_def leaveTimers_def leaveMedia_def Let_def
  by (rule refl)

lemma fold_onLocalTrackRemoved:
  "fold onLocalTrackRemoved ts s =
     s\<lparr>rtc_localTracks := fold removeLocalTrack ts (rtc_localTracks s),
       effects := effects s @ map (\<lambda>t. Emit (LOCAL_TRACK_REMOVED t)) ts\<rparr>"
  by (induction ts arbitrary: s) (simp_all add: onLocalTrackRemoved_def perform_def)

lemma leaveMedia_frame:
  "jvbJingleSession (leaveMedia s) = jvbJingleSession s"
  "p2pJingleSession (leaveMedia s) = p2pJingleSession s"
  "room (leaveMedia s) = room s"
  "delayedIceFailed (leaveMedia s) = delayedIceFailed s"
  "sessionInitiateTimeout (leaveMedia s) = sessionInitiateTimeout s"
  "timers (leaveMedia s) = timers s"
  "participants (leaveMedia s) = participants s"
  "\<exists>es. effects (leaveMedia s) = effects s @ es"
  by (simp_all add: leaveMedia_def Let_def perform_def fold_onLocalTrackRemoved)

lemma leaveTimers_frame:
  "jvbJingleSession (leaveTimers s) = jvbJingleSession s"
  "p2pJingleSession (leaveTimers s) = p2pJingleSession s"
  "room (leaveTimers s) = room s"
  "\<exists>es. effects (leaveTimers s) = effects s @ es
        \<and> (\<forall>h. delayedIceFailed s = Some h \<longrightarrow> IceFailedHandlingCancel h \<in> set es)
        \<and> (\<forall>h. sessionInitiateTimeout s = Some h
                \<and> (jvbJingleSession s \<noteq> None \<or> getParticipantCount s < 2)
                \<longrightarrow> ClearTimeoutCall h \<in> set es)"
  "sessionInitiateTimeout s = Some h \<Longrightarrow> jvbJingleSession s \<noteq> None \<or> getParticipantCount s < 2
     \<Longrightarrow> sessionInitiateTimeout (leaveTimers s) = None \<and> h \<notin> fst ` set (timers (leaveTimers s))"
  "t \<in> set (timers s) \<Longrightarrow> Some (fst t) \<noteq> sessionInitiateTimeout s \<Longrightarrow> t \<in> set (timers (leaveTimers s))"
  by (auto simp: leaveTimers_def Let_def perform_def maybeClearSITimeout_def clearTimeout_def
        getParticipantCount_def getParticipants_def split: option.splits)

lemma leaveSessions_frame:
  "jvbJingleSession (leaveSessions s) = None"
  "p2pJingleSession (leaveSessions s) = None"
  "room (leaveSessions s) = room s"
  "timers (leaveSessions s) = timers s"
  "sessionInitiateTimeout (leaveSessions s) = sessionInitiateTimeout s"
  "\<exists>es. effects (leaveSessions s) = effects s @ es
        \<and> (\<forall>j. jvbJingleSession s = Some j \<longrightarrow> SessionClose (sid j) \<in> set es)
        \<and> (\<forall>p. p2pJingleSession s = Some p \<longrightarrow> SessionClose (sid p) \<in> set es)"
  by (auto simp: leaveSessions_def Let_def perform_def split: option.splits)

lemma leaveRoom_frame:
  "jvbJingleSession (leaveRoom s) = jvbJingleSession s"
  "p2pJingleSession (leaveRoom s) = p2pJingleSession s"
  "room (leaveRoom s) = None"
  "timers (leaveRoom s) = timers s"
  "sessionInitiateTimeout (leaveRoom s) = sessionInitiateTimeout s"
  "\<exists>es. effects (leaveRoom s) = effects s @ es"
  by (auto simp: leaveRoom_def perform_def split: option.splits)

text \<open>
  C9 (as amended). \<open>leave\<close> closes the bridge session and the P2P session that exist and
  leaves both references, and the room, null. It cancels the stored ICE-failed handling, if
  any. It clears the session-initiate timeout when a bridge session exists or fewer than two
  participants are counted.
\<close>

theorem C9_leave:
  "jvbJingleSession (leave s) = None \<and> p2pJingleSession (leave s) = None \<and> room (leave s) = None
   \<and> (\<forall>j. jvbJingleSession s = Some j \<longrightarrow> SessionClose (sid j) \<in> set (newEffects s (leave s)))
   \<and> (\<forall>p. p2pJingleSession s = Some p \<longrightarrow> SessionClose (sid p) \<in> set (newEffects s (leave s)))
   \<and> (\<forall>h. delayedIceFailed s = Some h \<longrightarrow> IceFailedHandlingCancel h \<in> set (newEffects s (leave s)))
   \<and> (\<forall>h. sessionInitiateTimeout s = Some h
            \<and> (jvbJingleSession s \<noteq> None \<or> getParticipantCount s < 2) \<longrightarrow>
          sessionInitiateTimeout (leave s) = None
          \<and> ClearTimeoutCall h \<in> set (newEffects s (leave s))
          \<and> h \<notin> fst ` set (timers (leave s)))"
proof -
  let ?m = "leaveMedia s"
  let ?t = "leaveTimers ?m"
  let ?c = "leaveSessions ?t"
  obtain e1 where e1: "effects ?m = effects s @ e1" using leaveMedia_frame(8) [of s] by blast
  obtain e2 where e2: "effects ?t = effects ?m @ e2"
    and cancel: "\<forall>h. delayedIceFailed ?m = Some h \<longrightarrow> IceFailedHandlingCancel h \<in> set e2"
    and clear: "\<forall>h. sessionInitiateTimeout ?m = Some h
                \<and> (jvbJingleSession ?m \<noteq> None \<or> getParticipantCount ?m < 2)
                \<longrightarrow> ClearTimeoutCall h \<in> set e2"
    using leaveTimers_frame(4) [of ?m] by blast
  obtain e3 where e3: "effects ?c = effects ?t @ e3"
    and cj: "\<forall>j. jvbJingleSession ?t = Some j \<longrightarrow> SessionClose (sid j) \<in> set e3"
    and cp: "\<forall>p. p2pJingleSession ?t = Some p \<longrightarrow> SessionClose (sid p) \<in> set e3"
    using leaveSessions_frame(6) [of ?t] by blast
  obtain e4 where e4: "effects (leaveRoom ?c) = effects ?c @ e4"
    using leaveRoom_frame(6) [of ?c] by blast
  have ne: "newEffects s (leave s) = e1 @ e2 @ e3 @ e4"
    by (simp add: leave_phases newEffects_def e1 e2 e3 e4)
  have cnt: "getParticipantCount ?m = getParticipantCount s"
    by (simp add: getParticipantCount_def getParticipants_def leaveMedia_frame)
  have sessions: "jvbJingleSession (leave s) = None" "p2pJingleSession (leave s) = None"
      "room (leave s) = None"
    by (simp_all add: leave_phases leaveRoom_frame leaveSessions_frame)
  have closeJ: "SessionClose (sid j) \<in> set (newEffects s (leave s))" if "jvbJingleSession s = Some j" for j
    using cj that unfolding ne by (simp add: leaveTimers_frame leaveMedia_frame)
  have closeP: "SessionClose (sid p) \<in> set (newEffects s (leave s))" if "p2pJingleSession s = Some p" for p
    using cp that unfolding ne by (simp add: leaveTimers_frame leaveMedia_frame)
  have ice: "IceFailedHandlingCancel h \<in> set (newEffects s (leave s))" if "delayedIceFailed s = Some h" for h
    using cancel that unfolding ne by (simp add: leaveMedia_frame)
  have si: "sessionInitiateTimeout (leave s) = None
          \<and> ClearTimeoutCall h \<in> set (newEffects s (leave s))
          \<and> h \<notin> fst ` set (timers (leave s))"
    if h: "sessionInitiateTimeout s = Some h" and g: "jvbJingleSession s \<noteq> None \<or> getParticipantCount s < 2"
    for h
  proof -
    have h': "sessionInitiateTimeout ?m = Some h" using h by (simp add: leaveMedia_frame)
    have g': "jvbJingleSession ?m \<noteq> None \<or> getParticipantCount ?m < 2"
      using g by (simp add: leaveMedia_frame cnt)
    from leaveTimers_frame(5) [OF h' g']
    have "sessionInitiateTimeout (leave s) = None" "h \<notin> fst ` set (timers (leave s))"
      by (simp_all add: leave_phases leaveRoom_frame leaveSessions_frame)
    moreover have "ClearTimeoutCall h \<in> set e2"
      using clear h' g' by blast
    then have "ClearTimeoutCall h \<in> set (newEffects s (leave s))"
      unfolding ne by simp
    ultimately show ?thesis by simp
  qed
  show ?thesis using sessions closeJ closeP ice si by blast
qed

theorem C9_leave_witness:
  "jvbJingleSession confRestarting = Some sessJ \<and> p2pJingleSession confRestarting = Some sessP
   \<and> delayedIceFailed confRestarting = Some 100
   \<and> jvbJingleSession (leave confRestarting) = None \<and> p2pJingleSession (leave confRestarting) = None
   \<and> SessionClose 7 \<in> set (newEffects confRestarting (leave confRestarting))
   \<and> SessionClose 8 \<in> set (newEffects confRestarting (leave confRestarting))
   \<and> IceFailedHandlingCancel 100 \<in> set (newEffects confRestarting (leave confRestarting))
   \<and> sessionInitiateTimeout (leave (confWaiting\<lparr>jvbJingleSession := Some sessJ\<rparr>)) = None
   \<and> ClearTimeoutCall 1 \<in> set (newEffects (confWaiting\<lparr>jvbJingleSession := Some sessJ\<rparr>)
                                   (leave (confWaiting\<lparr>jvbJingleSession := Some sessJ\<rparr>)))"
proof -
  have a: "jvbJingleSession confRestarting = Some sessJ" "p2pJingleSession confRestarting = Some sessP"
    "delayedIceFailed confRestarting = Some 100" "sid sessJ = 7" "sid sessP = 8"
    "sessionInitiateTimeout (confWaiting\<lparr>jvbJingleSession := Some sessJ\<rparr>) = Some 1"
    "jvbJingleSession (confWaiting\<lparr>jvbJingleSession := Some sessJ\<rparr>) \<noteq> None"
    by (simp_all add: example_defs)
  note r = C9_leave [of confRestarting]
  note w = C9_leave [of "confWaiting\<lparr>jvbJingleSession := Some sessJ\<rparr>"]
  have 1: "jvbJingleSession (leave confRestarting) = None" "p2pJingleSession (leave confRestarting) = None"
    using r by blast+
  have 2: "SessionClose 7 \<in> set (newEffects confRestarting (leave confRestarting))"
    using r a(1,4) by auto
  have 3: "SessionClose 8 \<in> set (newEffects confRestarting (leave confRestarting))"
    using r a(2,5) by auto
  have 4: "IceFailedHandlingCancel 100 \<in> set (newEffects confRestarting (leave confRestarting))"
    using r a(3) by blast
  have 5: "sessionInitiateTimeout (leave (confWaiting\<lparr>jvbJingleSession := Some sessJ\<rparr>)) = None
     \<and> ClearTimeoutCall 1 \<in> set (newEffects (confWaiting\<lparr>jvbJingleSession := Some sessJ\<rparr>)
                                   (leave (confWaiting\<lparr>jvbJingleSession := Some sessJ\<rparr>)))"
    using w a(6,7) by blast
  show ?thesis using a(1,2,3) 1 2 3 4 5 by simp
qed

text \<open>
  C9 as stated fails: timers stay pending after \<open>leave\<close> and their callbacks run against
  the conference. The session-initiate timeout armed while one peer is present and the bridge
  has not invited yet is kept by the guard of \<open>_maybeClearSITimeout\<close>. The timer created by
  the ICE-failure handler has no stored handle and its callback still increments the restart
  counter. The deferred start of P2P is not cleared either and its callback raises a
  TypeError on the missing room.
\<close>

theorem C9_counterexample:
  "sessionInitiateTimeout confWaiting = Some 1
   \<and> timers (leave confWaiting) = [(1, SessionInitiateTimeoutTask, 5000)]
   \<and> newEffects (leave confWaiting) (fireTimer 1 (leave confWaiting))
       = [Analytics ''session-initiate timeout'']
   \<and> timers (leave confRestarting) = [(1, IceRestartTask sessJ 1500, 1500)]
   \<and> iceRestarts (fireTimer 1 (leave confRestarting)) = Suc (iceRestarts confRestarting)
   \<and> deferredStartP2PTask confDeferred = Some 1
   \<and> timers (leave confDeferred) = [(1, StartP2PSessionTask ''room@muc/bbb2222'', 5000)]
   \<and> newEffects (leave confDeferred) (fireTimer 1 (leave confDeferred))
       = [ClearTimeoutCall 1, Thrown ''TypeError: this.room is null'']"
  by (simp add: leave_phases leaveMedia_def leaveTimers_def leaveSessions_def leaveRoom_def Let_def
        perform_def getLocalTracks_def maybeClearSITimeout_def getParticipantCount_def
        getParticipants_def fireTimer_def runTask_def newEffects_def startP2PSession_def
        maybeClearDeferredStartP2P_def clearTimeout_def example_defs)

subsection \<open>Adding a local track\<close>

lemma addTrack_first_track:
  assumes "getLocalTracks (Some (t_type track)) s = first # others" "t_ref track = t_ref first"
  shows "addTrack (Some track) s = (Inr (Resolved track), s)"
  using assms by (simp add: addTrack_def Let_def)

text \<open>
  C10 fails on the code. Camera and desktop tracks are both local tracks of the conference;
  adding the camera track again resolves with it, but adding the desktop track again, which
  is not the first video track, is rejected as a second video track, and with
  \<open>testing.allowMultipleTracks\<close> it is renamed and added to the session once more.
\<close>

theorem C10_addTrack_second_video_track:
  "getLocalTracks (Some VIDEO) confTwoVideo = [camTrack, deskTrack]
   \<and> addTrack (Some camTrack) confTwoVideo = (Inr (Resolved camTrack), confTwoVideo)
   \<and> addTrack (Some deskTrack) confTwoVideo
       = (Inr (Rejected ''Cannot add second video track to the conference''), confTwoVideo)
   \<and> newEffects confTwoVideo
        (snd (addTrack (Some deskTrack)
               (confTwoVideo\<lparr>config := \<lparr>cfg_p2p = None,
                   cfg_testing = Some \<lparr>p2pTestMode = False, forceInitiator = False,
                                       forceResponder = False, allowMultipleTracks = True\<rparr>\<rparr>\<rparr>)))
       = [SetSourceName deskTrack VIDEO 2, SessionAddTracks 7 [deskTrack]]"
  by (simp add: addTrack_def Let_def getLocalTracks_def testing_allowMultipleTracks_def
        mediaTypeName_def perform_def newEffects_def example_defs)


subsection \<open>The P2P mode predicate\<close>

lemma find_None_iff_all: "(find P xs = None) = (\<forall>x\<in>set xs. \<not> P x)"
  by (induction xs) auto

text \<open>
  C2. \<open>_shouldBeInP2PMode\<close> returns true exactly when the roster holds one other
  participant, no participant is a poltergeist bot or has the jigasi feature, the conference
  has no visitors and transcribing is not enabled; in every other state it returns false.
\<close>

theorem C2_shouldBeInP2PMode_iff:
  "shouldBeInP2PMode s \<longleftrightarrow>
     (length (participants s) = 1
      \<and> (\<forall>p \<in> set (participants s). p_botType p \<noteq> Some ''poltergeist'' \<and> \<not> p_hasFeatureJigasi p)
      \<and> \<not> hasVisitors s \<and> \<not> transcribingEnabled s)"
  unfolding shouldBeInP2PMode_def getParticipants_def Let_def
  by (auto simp: find_None_iff_all)

theorem C2_shouldBeInP2PMode_witness:
  "shouldBeInP2PMode conf0 \<and> length (participants conf0) = 1
   \<and> \<not> shouldBeInP2PMode (conf0\<lparr>participants := [peerB\<lparr>p_hasFeatureJigasi := True\<rparr>]\<rparr>)
   \<and> \<not> shouldBeInP2PMode (conf0\<lparr>participants := []\<rparr>)
   \<and> \<not> shouldBeInP2PMode (conf0\<lparr>transcribingEnabled := True\<rparr>)"
  using C2_shouldBeInP2PMode_iff [of conf0]
        C2_shouldBeInP2PMode_iff [of "conf0\<lparr>participants := [peerB\<lparr>p_hasFeatureJigasi := True\<rparr>]\<rparr>"]
        C2_shouldBeInP2PMode_iff [of "conf0\<lparr>participants := []\<rparr>"]
        C2_shouldBeInP2PMode_iff [of "conf0\<lparr>transcribingEnabled := True\<rparr>"]
  by (simp add: conf0_def peerB_def)

end
